(* ===== verification/Prelude.thy ===== *)
theory Prelude
  imports Main
begin

text \<open>
  Shared vocabulary of the development: the collection of rewrite rules that the
  component theories fill, Go's \<open>strings.Join\<close> (which the client-streaming handlers
  call), Go's byte strings with the UTF-8 literals of the sources, and generic lemmas on
  lists and filters that the stream proofs share.
\<close>

named_theorems stream_simps \<open>evaluation rules of the stream operations\<close>

subsection \<open>Go strings\<close>

text \<open>
  A Go \<open>string\<close> is a sequence of bytes. HOL's \<open>string\<close> is a list of 8-bit
  \<open>char\<close>s, so a Go string literal with non-ASCII text is the list of its UTF-8 bytes.
\<close>

type_synonym gostring = string

text \<open>
  \<open>strings.Join(elems, sep)\<close> of the Go standard library: the empty string for no
  elements, the single element for one, and the elements separated by \<open>sep\<close> otherwise.
\<close>

fun Join :: "gostring list \<Rightarrow> gostring \<Rightarrow> gostring" where
  "Join [] sep = []"
| "Join [x] sep = x"
| "Join (x # y # zs) sep = x @ sep @ Join (y # zs) sep"

lemma Join_append_single [simp]:
  "xs \<noteq> [] \<Longrightarrow> Join (xs @ [x]) sep = Join xs sep @ sep @ x"
  by (induction xs sep rule: Join.induct) auto

lemma Join_Cons_nonempty:
  "xs \<noteq> [] \<Longrightarrow> Join (x # xs) sep = x @ sep @ Join xs sep"
  by (cases xs) auto

lemma length_Join:
  "xs \<noteq> [] \<Longrightarrow> length (Join xs sep) = sum_list (map length xs) + (length xs - 1) * length sep"
proof (induction xs sep rule: Join.induct)
  case (3 x y zs sep)
  then show ?case by (cases zs) (auto simp: algebra_simps)
qed auto

subsection \<open>Filtering a log\<close>

text \<open>
  The streams keep a log of events; the messages of one kind are extracted from it with
  \<open>List.map_filter\<close>. These are the facts about it the proofs use.
\<close>

lemma map_filter_append [simp]:
  "List.map_filter f (xs @ ys) = List.map_filter f xs @ List.map_filter f ys"
  by (induction xs) (auto simp: List.map_filter_def)

lemma map_filter_Cons [simp]:
  "List.map_filter f (x # xs) =
     (case f x of None \<Rightarrow> List.map_filter f xs | Some y \<Rightarrow> y # List.map_filter f xs)"
  by (simp add: List.map_filter_def split: option.splits)

lemma map_filter_Nil [simp]: "List.map_filter f [] = []"
  by (simp add: List.map_filter_def)

end
