(* ===== verification/Stream.thy ===== *)
theory Stream
  imports Prelude
begin

text \<open>
  The stream of one call, as the handlers of \<open>rpc/triple/stream/go-server/cmd/main.go\<close>
  see it through the triple protocol: \<open>Recv\<close> yields the client's messages in order
  and then the error that closed the inbound direction (the end-of-stream marker
  \<open>io.EOF\<close>, a cancellation, or a transport error), again on every later call;
  \<open>Send\<close> delivers a message to the client until the peer has gone, and fails with the
  outbound error from then on. The transport is not in the sources; what it does is the
  contract of the spec (its section on streams). Each operation appends an event to the
  call's log, so that properties about the order of operations are properties of the log.
\<close>

subsection \<open>Errors and the end-of-stream marker\<close>

datatype terr =
    ErrEnded             \<comment> \<open>the cooperative end-of-stream marker (\<open>io.EOF\<close>)\<close>
  | ErrCanceled          \<comment> \<open>the call's context was cancelled\<close>
  | ErrDeadline          \<comment> \<open>the call's deadline passed\<close>
  | ErrTransport string  \<comment> \<open>any other failure of the connection\<close>

text \<open>\<open>triple.IsEnded(err)\<close>: the error is the end-of-stream marker.\<close>

fun IsEnded :: "terr \<Rightarrow> bool" where
  "IsEnded ErrEnded = True"
| "IsEnded _ = False"

subsection \<open>The stream of a call\<close>

datatype ('i, 'o) event =
    Received 'i
  | RecvFailed terr
  | Sent 'o
  | SendFailed terr

record ('i, 'o) call_stream =
  in_pending :: "'i list"         \<comment> \<open>client messages not yet received, in send order\<close>
  in_close :: terr                \<comment> \<open>how the inbound direction ends\<close>
  out_delivered :: "'o list"      \<comment> \<open>messages delivered to the client, in send order\<close>
  out_accept :: "nat option"      \<comment> \<open>sends still accepted; \<open>None\<close>: no limit\<close>
  out_error :: terr               \<comment> \<open>the error of a send the peer no longer accepts\<close>
  events :: "('i, 'o) event list" \<comment> \<open>the log of stream operations\<close>

text \<open>\<open>stream.Recv()\<close> of a bidirectional stream: a message, or the closing error.\<close>

definition Recv ::
  "('i, 'o, 'z) call_stream_scheme \<Rightarrow> (terr + 'i) \<times> ('i, 'o, 'z) call_stream_scheme" where
  "Recv s =
     (case in_pending s of
        [] \<Rightarrow> (Inl (in_close s), s\<lparr>events := events s @ [RecvFailed (in_close s)]\<rparr>)
      | m # ms \<Rightarrow> (Inr m, s\<lparr>in_pending := ms, events := events s @ [Received m]\<rparr>))"

text \<open>\<open>stream.Send(msg)\<close>: \<open>None\<close> is Go's \<open>nil\<close> error.\<close>

definition Send ::
  "'o \<Rightarrow> ('i, 'o, 'z) call_stream_scheme \<Rightarrow> terr option \<times> ('i, 'o, 'z) call_stream_scheme" where
  "Send m s =
     (case out_accept s of
        Some 0 \<Rightarrow> (Some (out_error s), s\<lparr>events := events s @ [SendFailed (out_error s)]\<rparr>)
      | Some (Suc k) \<Rightarrow> (None, s\<lparr>out_delivered := out_delivered s @ [m], out_accept := Some k,
                                 events := events s @ [Sent m]\<rparr>)
      | None \<Rightarrow> (None, s\<lparr>out_delivered := out_delivered s @ [m], events := events s @ [Sent m]\<rparr>))"

text \<open>
  The client-streaming view (\<open>GreetService_GreetClientStreamServer\<close>): \<open>Recv()\<close>
  returns a boolean and stores the message, read by \<open>Msg()\<close>, or the error, read by
  \<open>Err()\<close>. The view extends the stream with these two fields.
\<close>

record ('i, 'o) client_stream = "('i, 'o) call_stream" +
  cs_msg :: "'i option"
  cs_err :: "terr option"

definition ClientRecv ::
  "('i, 'o, 'z) client_stream_scheme \<Rightarrow> bool \<times> ('i, 'o, 'z) client_stream_scheme" where
  "ClientRecv s =
     (case Recv s of
        (Inr m, s') \<Rightarrow> (True, s'\<lparr>cs_msg := Some m\<rparr>)
      | (Inl e, s') \<Rightarrow> (False, s'\<lparr>cs_msg := None, cs_err := Some e\<rparr>))"

text \<open>
  Which errors \<open>Err()\<close> reports is the transport's business: it may report the
  end-of-stream marker or hide it. The handlers test \<open>IsEnded\<close> themselves, and
  \<open>Err_hiding_eof\<close> is the other reading, used to show that the handlers' outcome does
  not depend on it.
\<close>

text \<open>\<open>Msg()\<close> is read only after a \<open>Recv()\<close> that returned true, which stored a message.\<close>

definition Msg :: "('i, 'o, 'z) client_stream_scheme \<Rightarrow> 'i" where
  "Msg s = the (cs_msg s)"

definition Err :: "('i, 'o, 'z) client_stream_scheme \<Rightarrow> terr option" where
  "Err s = cs_err s"

definition Err_hiding_eof :: "('i, 'o, 'z) client_stream_scheme \<Rightarrow> terr option" where
  "Err_hiding_eof s = (case cs_err s of Some ErrEnded \<Rightarrow> None | e \<Rightarrow> e)"

subsection \<open>The messages of a log\<close>

definition received_of :: "('i, 'o) event list \<Rightarrow> 'i list" where
  "received_of = List.map_filter (\<lambda>e. case e of Received m \<Rightarrow> Some m | _ \<Rightarrow> None)"

definition sent_of :: "('i, 'o) event list \<Rightarrow> 'o list" where
  "sent_of = List.map_filter (\<lambda>e. case e of Sent m \<Rightarrow> Some m | _ \<Rightarrow> None)"

text \<open>A failed operation: the last one a handler makes before it returns.\<close>

fun is_failure :: "('i, 'o) event \<Rightarrow> bool" where
  "is_failure (RecvFailed e) = True"
| "is_failure (SendFailed e) = True"
| "is_failure _ = False"

text \<open>
  A stream is well formed when the messages delivered to the client are exactly those
  its log records as sent.
\<close>

definition stream_wf :: "('i, 'o, 'z) call_stream_scheme \<Rightarrow> bool" where
  "stream_wf s \<longleftrightarrow> out_delivered s = sent_of (events s)"

text \<open>A fresh stream: the client's messages, how they end, and how many sends the peer takes.\<close>

definition new_stream :: "'i list \<Rightarrow> terr \<Rightarrow> nat option \<Rightarrow> terr \<Rightarrow> ('i, 'o) call_stream" where
  "new_stream ins cl acc err =
     \<lparr>in_pending = ins, in_close = cl, out_delivered = [], out_accept = acc,
      out_error = err, events = []\<rparr>"

definition new_client_stream ::
  "'i list \<Rightarrow> terr \<Rightarrow> nat option \<Rightarrow> terr \<Rightarrow> ('i, 'o) client_stream" where
  "new_client_stream ins cl acc err =
     \<lparr>in_pending = ins, in_close = cl, out_delivered = [], out_accept = acc,
      out_error = err, events = [], cs_msg = None, cs_err = None\<rparr>"

subsection \<open>The spec's tagged receive\<close>

text \<open>
  The spec's design notes ask for \<open>receive()\<close> to return a tagged result, a value, the
  end-of-stream marker, or an error, so that no caller can mistake one for another. The
  sources instead return Go's \<open>(msg, err)\<close> and test \<open>triple.IsEnded(err)\<close>;
  \<open>recv_tagged\<close> is the tagged reading of the same \<open>Recv\<close>.
\<close>

datatype 'i recv_result = RValue 'i | EndOfStream | RError terr

definition recv_tagged ::
  "('i, 'o, 'z) call_stream_scheme \<Rightarrow> 'i recv_result \<times> ('i, 'o, 'z) call_stream_scheme" where
  "recv_tagged s =
     (case Recv s of
        (Inr m, s1) \<Rightarrow> (RValue m, s1)
      | (Inl e, s1) \<Rightarrow> (if IsEnded e then EndOfStream else RError e, s1))"

subsection \<open>Evaluation rules\<close>

lemma Recv_Nil [stream_simps]:
  "in_pending s = [] \<Longrightarrow>
     Recv s = (Inl (in_close s), s\<lparr>events := events s @ [RecvFailed (in_close s)]\<rparr>)"
  by (simp add: Recv_def)

lemma Recv_Cons [stream_simps]:
  "in_pending s = m # ms \<Longrightarrow>
     Recv s = (Inr m, s\<lparr>in_pending := ms, events := events s @ [Received m]\<rparr>)"
  by (simp add: Recv_def)

lemma Send_refused [stream_simps]:
  "out_accept s = Some 0 \<Longrightarrow>
     Send m s = (Some (out_error s), s\<lparr>events := events s @ [SendFailed (out_error s)]\<rparr>)"
  by (simp add: Send_def)

lemma Send_accepted [stream_simps]:
  "out_accept s = Some (Suc k) \<Longrightarrow>
     Send m s = (None, s\<lparr>out_delivered := out_delivered s @ [m], out_accept := Some k,
                         events := events s @ [Sent m]\<rparr>)"
  by (simp add: Send_def)

lemma Send_unbounded [stream_simps]:
  "out_accept s = None \<Longrightarrow>
     Send m s = (None, s\<lparr>out_delivered := out_delivered s @ [m], events := events s @ [Sent m]\<rparr>)"
  by (simp add: Send_def)

lemma received_of_simps [simp]:
  "received_of [] = []"
  "received_of (xs @ ys) = received_of xs @ received_of ys"
  "received_of [Received m] = [m]"
  "received_of [RecvFailed e] = []"
  "received_of [Sent o'] = []"
  "received_of [SendFailed e] = []"
  by (simp_all add: received_of_def)

lemma sent_of_simps [simp]:
  "sent_of [] = []"
  "sent_of (xs @ ys) = sent_of xs @ sent_of ys"
  "sent_of [Received m] = []"
  "sent_of [RecvFailed e] = []"
  "sent_of [Sent o'] = [o']"
  "sent_of [SendFailed e] = []"
  by (simp_all add: sent_of_def)

subsection \<open>What each operation changes\<close>

text \<open>\<open>Recv\<close> never touches the outbound direction, \<open>Send\<close> never the inbound one.\<close>

lemma Recv_frame [simp]:
  "out_delivered (snd (Recv s)) = out_delivered s"
  "out_accept (snd (Recv s)) = out_accept s"
  "out_error (snd (Recv s)) = out_error s"
  "in_close (snd (Recv s)) = in_close s"
  "call_stream.more (snd (Recv s)) = call_stream.more s"
  by (simp_all add: Recv_def split: list.splits)

lemma Send_frame [simp]:
  "in_pending (snd (Send m s)) = in_pending s"
  "in_close (snd (Send m s)) = in_close s"
  "out_error (snd (Send m s)) = out_error s"
  "call_stream.more (snd (Send m s)) = call_stream.more s"
  by (simp_all add: Send_def split: option.splits nat.splits)

text \<open>
  First in, first out, inbound: what has been received followed by what is pending is
  the same before and after a \<open>Recv\<close>.
\<close>

lemma Recv_fifo:
  "received_of (events (snd (Recv s))) @ in_pending (snd (Recv s)) =
   received_of (events s) @ in_pending s"
  by (simp add: Recv_def split: list.splits)

lemma Send_received [simp]:
  "received_of (events (snd (Send m s))) = received_of (events s)"
  by (simp add: Send_def split: option.splits nat.splits)

text \<open>First in, first out, outbound: a send that succeeds appends its message, one that fails appends nothing.\<close>

lemma Send_delivered:
  "out_delivered (snd (Send m s)) =
     out_delivered s @ (if fst (Send m s) = None then [m] else [])"
  by (simp add: Send_def split: option.splits nat.splits)

lemma Recv_sent [simp]:
  "sent_of (events (snd (Recv s))) = sent_of (events s)"
  by (simp add: Recv_def split: list.splits)

lemma Send_sent:
  "sent_of (events (snd (Send m s))) =
     sent_of (events s) @ (if fst (Send m s) = None then [m] else [])"
  by (simp add: Send_def split: option.splits nat.splits)

lemma Recv_Inr_shorter:
  "Recv s = (Inr m, s') \<Longrightarrow> length (in_pending s') < length (in_pending s)"
  by (auto simp: Recv_def split: list.splits)

lemma Recv_Inr_pending:
  "Recv s = (Inr m, s') \<Longrightarrow> in_pending s = m # in_pending s'"
  by (auto simp: Recv_def split: list.splits)

lemma Recv_Inl_pending:
  "Recv s = (Inl e, s') \<Longrightarrow> in_pending s = [] \<and> e = in_close s \<and> s' = s\<lparr>events := events s @ [RecvFailed e]\<rparr>"
  by (auto simp: Recv_def split: list.splits)

lemma Send_pending:
  "Send m s = (r, s') \<Longrightarrow> in_pending s' = in_pending s"
  by (auto simp: Send_def split: option.splits nat.splits)

lemma ClientRecv_True_shorter:
  "ClientRecv s = (True, s') \<Longrightarrow> length (in_pending s') < length (in_pending s)"
  by (auto simp: ClientRecv_def Recv_def split: list.splits)

lemma Send_None_accept:
  "Send m s = (None, s') \<Longrightarrow> out_accept s \<noteq> Some 0"
  by (auto simp: Send_def split: option.splits nat.splits)

lemma Send_Some:
  "Send m s = (Some e, s') \<Longrightarrow> e = out_error s \<and> out_accept s = Some 0 \<and>
     s' = s\<lparr>events := events s @ [SendFailed e]\<rparr>"
  by (auto simp: Send_def split: option.splits nat.splits)

subsection \<open>The well-formedness invariant\<close>

lemma new_stream_wf: "stream_wf (new_stream ins cl acc err)"
  by (simp add: stream_wf_def new_stream_def)

lemma Recv_wf: "stream_wf s \<Longrightarrow> stream_wf (snd (Recv s))"
  by (simp add: stream_wf_def)

lemma Send_wf: "stream_wf s \<Longrightarrow> stream_wf (snd (Send m s))"
  by (simp add: stream_wf_def Send_delivered Send_sent)

lemmas stream_step_wf [intro] = Recv_wf Send_wf

subsection \<open>The client-streaming view\<close>

lemma ClientRecv_Recv:
  "snd (ClientRecv s) = (case Recv s of (Inr m, s') \<Rightarrow> s'\<lparr>cs_msg := Some m\<rparr>
                                      | (Inl e, s') \<Rightarrow> s'\<lparr>cs_msg := None, cs_err := Some e\<rparr>)"
  "fst (ClientRecv s) = (in_pending s \<noteq> [])"
  by (simp_all add: ClientRecv_def Recv_def split: list.splits)

lemma ClientRecv_Cons [stream_simps]:
  "in_pending s = m # ms \<Longrightarrow>
     ClientRecv s = (True, s\<lparr>in_pending := ms, events := events s @ [Received m], cs_msg := Some m\<rparr>)"
  by (simp add: ClientRecv_def Recv_def)

lemma ClientRecv_Nil [stream_simps]:
  "in_pending s = [] \<Longrightarrow>
     ClientRecv s = (False, s\<lparr>events := events s @ [RecvFailed (in_close s)],
                            cs_msg := None, cs_err := Some (in_close s)\<rparr>)"
  by (simp add: ClientRecv_def Recv_def)


text \<open>
  The guard of the client-streaming handlers, \<open>Err() != nil && !IsEnded(Err())\<close>, has the
  same value whether \<open>Err()\<close> reports the end-of-stream marker or hides it.
\<close>

lemma Err_guard_hiding_eof:
  "(Err s \<noteq> None \<and> \<not> IsEnded (the (Err s))) =
   (Err_hiding_eof s \<noteq> None \<and> \<not> IsEnded (the (Err_hiding_eof s)))"
  by (simp add: Err_def Err_hiding_eof_def split: option.splits terr.splits)

end
