(* ===== verification/Greet.thy ===== *)
theory Greet
  imports Stream
begin

text \<open>
  The greet service of \<open>rpc/triple/stream/go-server/cmd/main.go\<close>: the proto messages of
  \<open>greet.GreetService\<close>, the four methods of \<open>GreetTripleServer\<close> (unary \<open>Greet\<close>,
  bidirectional \<open>GreetStream\<close>, client-streaming \<open>GreetClientStream\<close>,
  server-streaming \<open>GreetServerStream\<close>) and the same four of
  \<open>GreetTripleServerGroup1Version1\<close>, which prefix every greeting with
  \<open>GroupVersionIdentifier\<close>. Every loop of the source is a recursive function with a
  termination proof. Each pair of duplicated methods is shown equal to one reference
  loop, parameterised by how a request becomes a response, and the behaviour of the
  reference loops is stated for every input stream, on the success and on every error path.
\<close>

subsection \<open>Messages of \<open>greet.GreetService\<close>\<close>

datatype GreetRequest = GreetRequest (GreetRequest_Name: string)
datatype GreetResponse = GreetResponse (GreetResponse_Greeting: string)
datatype GreetStreamRequest = GreetStreamRequest (GreetStreamRequest_Name: string)
datatype GreetStreamResponse = GreetStreamResponse (GreetStreamResponse_Greeting: string)
datatype GreetClientStreamRequest = GreetClientStreamRequest (GreetClientStreamRequest_Name: string)
datatype GreetClientStreamResponse =
  GreetClientStreamResponse (GreetClientStreamResponse_Greeting: string)
datatype GreetServerStreamRequest = GreetServerStreamRequest (GreetServerStreamRequest_Name: string)
datatype GreetServerStreamResponse =
  GreetServerStreamResponse (GreetServerStreamResponse_Greeting: string)

type_synonym bidi_stream = "(GreetStreamRequest, GreetStreamResponse) call_stream"
type_synonym cs_stream = "(GreetClientStreamRequest, GreetClientStreamResponse) client_stream"
type_synonym ss_stream = "(GreetServerStreamRequest, GreetServerStreamResponse) call_stream"

subsection \<open>\<open>GreetTripleServer\<close>\<close>

definition Greet :: "GreetRequest \<Rightarrow> terr + GreetResponse" where
  "Greet req = Inr (GreetResponse (GreetRequest_Name req))"

function GreetStream :: "bidi_stream \<Rightarrow> terr option \<times> bidi_stream" where
  "GreetStream s =
     (case Recv s of
        (Inl err, s1) \<Rightarrow> (if IsEnded err then (None, s1) else (Some err, s1))
      | (Inr req, s1) \<Rightarrow>
          (case Send (GreetStreamResponse (GreetStreamRequest_Name req)) s1 of
             (Some err, s2) \<Rightarrow> (Some err, s2)
           | (None, s2) \<Rightarrow> GreetStream s2))"
  by pat_completeness auto
termination
  by (relation "measure (\<lambda>s. length (in_pending s))") (auto, metis Recv_Inr_shorter Send_pending)

function GreetClientStream_loop :: "string list \<Rightarrow> cs_stream \<Rightarrow> string list \<times> cs_stream" where
  "GreetClientStream_loop reqs s =
     (case ClientRecv s of
        (True, s1) \<Rightarrow> GreetClientStream_loop (reqs @ [GreetClientStreamRequest_Name (Msg s1)]) s1
      | (False, s1) \<Rightarrow> (reqs, s1))"
  by pat_completeness auto
termination
  by (relation "measure (\<lambda>(reqs, s). length (in_pending s))") (auto, metis ClientRecv_True_shorter)

definition GreetClientStream :: "cs_stream \<Rightarrow> (terr + GreetClientStreamResponse) \<times> cs_stream" where
  "GreetClientStream s =
     (let (reqs, s1) = GreetClientStream_loop [] s
      in if Err s1 \<noteq> None \<and> \<not> IsEnded (the (Err s1)) then (Inl (the (Err s1)), s1)
         else (Inr (GreetClientStreamResponse (Join reqs '','')), s1))"

function GreetServerStream_loop ::
  "nat \<Rightarrow> GreetServerStreamRequest \<Rightarrow> ss_stream \<Rightarrow> terr option \<times> ss_stream" where
  "GreetServerStream_loop i req s =
     (if i < 5 then
        (case Send (GreetServerStreamResponse (GreetServerStreamRequest_Name req)) s of
           (Some err, s1) \<Rightarrow> (Some err, s1)
         | (None, s1) \<Rightarrow> GreetServerStream_loop (Suc i) req s1)
      else (None, s))"
  by pat_completeness auto
termination
  by (relation "measure (\<lambda>(i, req, s). 5 - i)") auto

definition GreetServerStream :: "GreetServerStreamRequest \<Rightarrow> ss_stream \<Rightarrow> terr option \<times> ss_stream" where
  "GreetServerStream req s = GreetServerStream_loop 0 req s"

subsection \<open>\<open>GreetTripleServerGroup1Version1\<close>\<close>

definition GroupVersionIdentifier :: string where
  "GroupVersionIdentifier = ''g1v1''"

definition Greet_g1v1 :: "GreetRequest \<Rightarrow> terr + GreetResponse" where
  "Greet_g1v1 req = Inr (GreetResponse (GroupVersionIdentifier @ GreetRequest_Name req))"

function GreetStream_g1v1 :: "bidi_stream \<Rightarrow> terr option \<times> bidi_stream" where
  "GreetStream_g1v1 s =
     (case Recv s of
        (Inl err, s1) \<Rightarrow> (if IsEnded err then (None, s1) else (Some err, s1))
      | (Inr req, s1) \<Rightarrow>
          (case Send (GreetStreamResponse (GroupVersionIdentifier @ GreetStreamRequest_Name req)) s1 of
             (Some err, s2) \<Rightarrow> (Some err, s2)
           | (None, s2) \<Rightarrow> GreetStream_g1v1 s2))"
  by pat_completeness auto
termination
  by (relation "measure (\<lambda>s. length (in_pending s))") (auto, metis Recv_Inr_shorter Send_pending)

function GreetClientStream_g1v1_loop :: "string list \<Rightarrow> cs_stream \<Rightarrow> string list \<times> cs_stream" where
  "GreetClientStream_g1v1_loop reqs s =
     (case ClientRecv s of
        (True, s1) \<Rightarrow>
          GreetClientStream_g1v1_loop
            (reqs @ [GroupVersionIdentifier @ GreetClientStreamRequest_Name (Msg s1)]) s1
      | (False, s1) \<Rightarrow> (reqs, s1))"
  by pat_completeness auto
termination
  by (relation "measure (\<lambda>(reqs, s). length (in_pending s))") (auto, metis ClientRecv_True_shorter)

definition GreetClientStream_g1v1 ::
  "cs_stream \<Rightarrow> (terr + GreetClientStreamResponse) \<times> cs_stream" where
  "GreetClientStream_g1v1 s =
     (let (reqs, s1) = GreetClientStream_g1v1_loop [] s
      in if Err s1 \<noteq> None \<and> \<not> IsEnded (the (Err s1)) then (Inl (the (Err s1)), s1)
         else (Inr (GreetClientStreamResponse (Join reqs '','')), s1))"

function GreetServerStream_g1v1_loop ::
  "nat \<Rightarrow> GreetServerStreamRequest \<Rightarrow> ss_stream \<Rightarrow> terr option \<times> ss_stream" where
  "GreetServerStream_g1v1_loop i req s =
     (if i < 5 then
        (case Send (GreetServerStreamResponse
                      (GroupVersionIdentifier @ GreetServerStreamRequest_Name req)) s of
           (Some err, s1) \<Rightarrow> (Some err, s1)
         | (None, s1) \<Rightarrow> GreetServerStream_g1v1_loop (Suc i) req s1)
      else (None, s))"
  by pat_completeness auto
termination
  by (relation "measure (\<lambda>(i, req, s). 5 - i)") auto

definition GreetServerStream_g1v1 ::
  "GreetServerStreamRequest \<Rightarrow> ss_stream \<Rightarrow> terr option \<times> ss_stream" where
  "GreetServerStream_g1v1 req s = GreetServerStream_g1v1_loop 0 req s"

subsection \<open>Reference loops\<close>

text \<open>
  The three loop shapes of the handlers, parameterised by what turns a request into a
  response: the spec's design notes ask for exactly this one handler per call shape in
  place of the copies that differ only by a prefix.
\<close>

function bidi_echo :: "('i \<Rightarrow> 'o) \<Rightarrow> ('i, 'o) call_stream \<Rightarrow> terr option \<times> ('i, 'o) call_stream" where
  "bidi_echo f s =
     (case Recv s of
        (Inl err, s1) \<Rightarrow> (if IsEnded err then (None, s1) else (Some err, s1))
      | (Inr req, s1) \<Rightarrow>
          (case Send (f req) s1 of
             (Some err, s2) \<Rightarrow> (Some err, s2)
           | (None, s2) \<Rightarrow> bidi_echo f s2))"
  by pat_completeness auto
termination
  by (relation "measure (\<lambda>(f, s). length (in_pending s))") (auto, metis Recv_Inr_shorter Send_pending)

function collect ::
  "('i \<Rightarrow> string) \<Rightarrow> string list \<Rightarrow> ('i, 'o) client_stream \<Rightarrow> string list \<times> ('i, 'o) client_stream" where
  "collect g reqs s =
     (case ClientRecv s of
        (True, s1) \<Rightarrow> collect g (reqs @ [g (Msg s1)]) s1
      | (False, s1) \<Rightarrow> (reqs, s1))"
  by pat_completeness auto
termination
  by (relation "measure (\<lambda>(g, reqs, s). length (in_pending s))") (auto, metis ClientRecv_True_shorter)

function send_repeat :: "nat \<Rightarrow> nat \<Rightarrow> 'o \<Rightarrow> ('i, 'o) call_stream \<Rightarrow> terr option \<times> ('i, 'o) call_stream" where
  "send_repeat i n m s =
     (if i < n then
        (case Send m s of
           (Some err, s1) \<Rightarrow> (Some err, s1)
         | (None, s1) \<Rightarrow> send_repeat (Suc i) n m s1)
      else (None, s))"
  by pat_completeness auto
termination
  by (relation "measure (\<lambda>(i, n, m, s). n - i)") auto

text \<open>
  The bidirectional echo written against the spec's tagged receive: a value is answered, the
  end-of-stream marker ends the call normally, any other error ends it with that error.
\<close>

function echo_tagged :: "('i \<Rightarrow> 'o) \<Rightarrow> ('i, 'o) call_stream \<Rightarrow> terr option \<times> ('i, 'o) call_stream" where
  "echo_tagged f s =
     (case recv_tagged s of
        (RValue req, s1) \<Rightarrow>
          (case Send (f req) s1 of
             (Some err, s2) \<Rightarrow> (Some err, s2)
           | (None, s2) \<Rightarrow> echo_tagged f s2)
      | (EndOfStream, s1) \<Rightarrow> (None, s1)
      | (RError err, s1) \<Rightarrow> (Some err, s1))"
  by pat_completeness auto
termination
  by (relation "measure (\<lambda>(f, s). length (in_pending s))")
     (auto simp: recv_tagged_def split: prod.splits sum.splits if_splits,
      metis Recv_Inr_shorter Send_pending)

text \<open>The log of a bidirectional echo over the messages \<open>xs\<close>: each message received, then its response sent.\<close>

definition echo_log :: "('i \<Rightarrow> 'o) \<Rightarrow> 'i list \<Rightarrow> ('i, 'o) event list" where
  "echo_log f xs = concat (map (\<lambda>x. [Received x, Sent (f x)]) xs)"

text \<open>The peer accepts \<open>n\<close> more sends.\<close>

fun accepts :: "nat option \<Rightarrow> nat \<Rightarrow> bool" where
  "accepts None n = True"
| "accepts (Some k) n = (n \<le> k)"

declare GreetStream.simps [simp del] GreetStream_g1v1.simps [simp del]
  GreetClientStream_loop.simps [simp del] GreetClientStream_g1v1_loop.simps [simp del]
  GreetServerStream_loop.simps [simp del] GreetServerStream_g1v1_loop.simps [simp del]
  bidi_echo.simps [simp del] collect.simps [simp del] send_repeat.simps [simp del]
  echo_tagged.simps [simp del]

subsection \<open>The handlers are the reference loops\<close>

lemma GreetStream_bidi_echo:
  "GreetStream s = bidi_echo (\<lambda>r. GreetStreamResponse (GreetStreamRequest_Name r)) s"
proof (induction s rule: GreetStream.induct)
  case (1 s)
  show ?case
    by (subst GreetStream.simps, subst bidi_echo.simps)
       (auto split: prod.split sum.split option.split simp: "1.IH")
qed


lemma GreetStream_g1v1_bidi_echo:
  "GreetStream_g1v1 s =
     bidi_echo (\<lambda>r. GreetStreamResponse (GroupVersionIdentifier @ GreetStreamRequest_Name r)) s"
proof (induction s rule: GreetStream_g1v1.induct)
  case (1 s)
  show ?case
    by (subst GreetStream_g1v1.simps, subst bidi_echo.simps)
       (auto split: prod.split sum.split option.split simp: "1.IH")
qed

lemma GreetClientStream_loop_collect:
  "GreetClientStream_loop reqs s = collect GreetClientStreamRequest_Name reqs s"
proof (induction reqs s rule: GreetClientStream_loop.induct)
  case (1 reqs s)
  show ?case
    by (subst GreetClientStream_loop.simps, subst collect.simps)
       (auto split: prod.split bool.split simp: "1.IH")
qed

lemma GreetClientStream_g1v1_loop_collect:
  "GreetClientStream_g1v1_loop reqs s =
     collect (\<lambda>r. GroupVersionIdentifier @ GreetClientStreamRequest_Name r) reqs s"
proof (induction reqs s rule: GreetClientStream_g1v1_loop.induct)
  case (1 reqs s)
  show ?case
    by (subst GreetClientStream_g1v1_loop.simps, subst collect.simps)
       (auto split: prod.split bool.split simp: "1.IH")
qed

lemma GreetServerStream_loop_send_repeat:
  "GreetServerStream_loop i req s =
     send_repeat i 5 (GreetServerStreamResponse (GreetServerStreamRequest_Name req)) s"
proof (induction i req s rule: GreetServerStream_loop.induct)
  case (1 i req s)
  show ?case
    by (subst GreetServerStream_loop.simps, subst send_repeat.simps)
       (auto split: prod.split option.split simp: "1.IH")
qed

lemma GreetServerStream_g1v1_loop_send_repeat:
  "GreetServerStream_g1v1_loop i req s =
     send_repeat i 5 (GreetServerStreamResponse (GroupVersionIdentifier @ GreetServerStreamRequest_Name req)) s"
proof (induction i req s rule: GreetServerStream_g1v1_loop.induct)
  case (1 i req s)
  show ?case
    by (subst GreetServerStream_g1v1_loop.simps, subst send_repeat.simps)
       (auto split: prod.split option.split simp: "1.IH")
qed

lemma bidi_echo_tagged: "bidi_echo f s = echo_tagged f s"
proof (induction f s rule: bidi_echo.induct)
  case (1 f s)
  show ?case
    by (subst bidi_echo.simps, subst echo_tagged.simps)
       (auto simp: recv_tagged_def "1.IH" split: prod.split sum.split option.split)
qed

subsection \<open>Behaviour of the reference loops\<close>

lemma echo_log_simps [simp]:
  "echo_log f [] = []"
  "echo_log f (x # xs) = Received x # Sent (f x) # echo_log f xs"
  by (simp_all add: echo_log_def)

text \<open>
  Bidirectional echo, the peer taking every response: each message is answered in order,
  and the call ends with the inbound closing error, which is an error of the handler unless
  it is the end-of-stream marker.
\<close>

lemma bidi_echo_complete:
  "in_pending s = xs \<Longrightarrow> accepts (out_accept s) (length xs) \<Longrightarrow>
   bidi_echo f s =
     (if IsEnded (in_close s) then None else Some (in_close s),
      s\<lparr>in_pending := [], out_delivered := out_delivered s @ map f xs,
        out_accept := map_option (\<lambda>k. k - length xs) (out_accept s),
        events := events s @ echo_log f xs @ [RecvFailed (in_close s)]\<rparr>)"
proof (induction xs arbitrary: s)
  case Nil
  then show ?case
    by (subst bidi_echo.simps) (cases s, simp add: stream_simps option.map_ident)
next
  case (Cons x xs)
  show ?case
  proof (cases "out_accept s")
    case None
    let ?s2 = "s\<lparr>in_pending := xs, out_delivered := out_delivered s @ [f x],
                 events := events s @ [Received x, Sent (f x)]\<rparr>"
    have "bidi_echo f s = bidi_echo f ?s2"
      using Cons.prems None by (subst bidi_echo.simps) (simp add: stream_simps)
    with Cons.IH[of ?s2] None show ?thesis by simp
  next
    case (Some k)
    then obtain k' where k: "k = Suc k'" using Cons.prems by (cases k) auto
    let ?s2 = "s\<lparr>in_pending := xs, out_delivered := out_delivered s @ [f x], out_accept := Some k',
                 events := events s @ [Received x, Sent (f x)]\<rparr>"
    have "bidi_echo f s = bidi_echo f ?s2"
      using Cons.prems Some k by (subst bidi_echo.simps) (simp add: stream_simps)
    with Cons.IH[of ?s2] Cons.prems Some k show ?thesis by simp
  qed
qed

text \<open>
  Bidirectional echo, the peer gone after \<open>k\<close> responses: the first \<open>k\<close> messages are
  answered, the next one is received, its response fails, and the handler returns the
  send error at once, receiving nothing more.
\<close>

lemma bidi_echo_send_fails:
  "in_pending s = xs \<Longrightarrow> out_accept s = Some k \<Longrightarrow> k < length xs \<Longrightarrow>
   bidi_echo f s =
     (Some (out_error s),
      s\<lparr>in_pending := drop (Suc k) xs, out_delivered := out_delivered s @ map f (take k xs),
        out_accept := Some 0,
        events := events s @ echo_log f (take k xs) @ [Received (xs ! k), SendFailed (out_error s)]\<rparr>)"
proof (induction xs arbitrary: s k)
  case Nil
  then show ?case by simp
next
  case (Cons x xs)
  show ?case
  proof (cases k)
    case 0
    with Cons.prems show ?thesis
      by (subst bidi_echo.simps) (cases s, simp add: stream_simps)
  next
    case (Suc k')
    let ?s2 = "s\<lparr>in_pending := xs, out_delivered := out_delivered s @ [f x], out_accept := Some k',
                 events := events s @ [Received x, Sent (f x)]\<rparr>"
    have "bidi_echo f s = bidi_echo f ?s2"
      using Cons.prems Suc by (subst bidi_echo.simps) (simp add: stream_simps)
    with Cons.IH[of ?s2 k'] Cons.prems Suc show ?thesis by simp
  qed
qed

text \<open>Client-streaming collection: every message is received, in order, until the inbound direction closes.\<close>

lemma collect_run:
  "in_pending s = xs \<Longrightarrow>
   collect g reqs s =
     (reqs @ map g xs,
      s\<lparr>in_pending := [], events := events s @ map Received xs @ [RecvFailed (in_close s)],
        cs_msg := None, cs_err := Some (in_close s)\<rparr>)"
proof (induction xs arbitrary: s reqs)
  case Nil
  then show ?case
    by (subst collect.simps) (cases s, simp add: stream_simps)
next
  case (Cons x xs)
  let ?s1 = "s\<lparr>in_pending := xs, events := events s @ [Received x], cs_msg := Some x\<rparr>"
  have "collect g reqs s = collect g (reqs @ [g x]) ?s1"
    using Cons.prems by (subst collect.simps) (simp add: stream_simps Msg_def)
  with Cons.IH[of ?s1 "reqs @ [g x]"] show ?case by simp
qed

text \<open>Repeated sends, the peer taking all of them.\<close>

lemma send_repeat_complete:
  "accepts (out_accept s) (n - i) \<Longrightarrow>
   send_repeat i n m s =
     (None, s\<lparr>out_delivered := out_delivered s @ replicate (n - i) m,
              out_accept := map_option (\<lambda>k. k - (n - i)) (out_accept s),
              events := events s @ replicate (n - i) (Sent m)\<rparr>)"
proof (induction i n m s rule: send_repeat.induct)
  case (1 i n m s)
  show ?case
  proof (cases "i < n")
    case False
    then show ?thesis
      by (subst send_repeat.simps) (cases s, simp add: option.map_ident)
  next
    case True
    then have d: "n - i = Suc (n - Suc i)" by arith
    show ?thesis
    proof (cases "out_accept s")
      case None
      let ?s1 = "s\<lparr>out_delivered := out_delivered s @ [m], events := events s @ [Sent m]\<rparr>"
      have "send_repeat i n m s = send_repeat (Suc i) n m ?s1"
        using True None by (subst send_repeat.simps) (simp add: stream_simps)
      with "1.IH"[of _ ?s1] True None show ?thesis
        by (simp add: Send_def d)
    next
      case (Some k)
      then obtain k' where k: "k = Suc k'" using "1.prems" True by (cases k) auto
      let ?s1 = "s\<lparr>out_delivered := out_delivered s @ [m], out_accept := Some k',
                   events := events s @ [Sent m]\<rparr>"
      have "send_repeat i n m s = send_repeat (Suc i) n m ?s1"
        using True Some k by (subst send_repeat.simps) (simp add: stream_simps)
      with "1.IH"[of _ ?s1] "1.prems" True Some k show ?thesis
        by (simp add: Send_def d)
    qed
  qed
qed


text \<open>Repeated sends, the peer gone after \<open>k\<close> of them: the next send fails and ends the loop.\<close>

lemma send_repeat_fails:
  "out_accept s = Some k \<Longrightarrow> k < n - i \<Longrightarrow>
   send_repeat i n m s =
     (Some (out_error s),
      s\<lparr>out_delivered := out_delivered s @ replicate k m, out_accept := Some 0,
        events := events s @ replicate k (Sent m) @ [SendFailed (out_error s)]\<rparr>)"
proof (induction i n m s arbitrary: k rule: send_repeat.induct)
  case (1 i n m s)
  show ?case
  proof (cases k)
    case 0
    with "1.prems" show ?thesis
      by (subst send_repeat.simps) (cases s, simp add: stream_simps)
  next
    case (Suc k')
    let ?s1 = "s\<lparr>out_delivered := out_delivered s @ [m], out_accept := Some k',
                 events := events s @ [Sent m]\<rparr>"
    from "1.prems" have "i < n" by arith
    with "1.prems" Suc have "send_repeat i n m s = send_repeat (Suc i) n m ?s1"
      by (subst send_repeat.simps) (simp add: stream_simps)
    with "1.IH"[of _ ?s1 k'] "1.prems" Suc \<open>i < n\<close> show ?thesis
      by (simp add: Send_def replicate_append_same)
  qed
qed

text \<open>Whatever the response function, the outcome of the echo is the same.\<close>

lemma accepts_not:
  "\<not> accepts a n \<Longrightarrow> \<exists>k. a = Some k \<and> k < n"
  by (cases a) auto

lemma bidi_echo_outcome_indep:
  "fst (bidi_echo f s) = fst (bidi_echo g s)"
  by (cases "accepts (out_accept s) (length (in_pending s))")
     (auto simp: bidi_echo_complete dest!: accepts_not simp: bidi_echo_send_fails)

lemma bidi_echo_delivered_map:
  "out_delivered (snd (bidi_echo (\<lambda>x. h (f x)) s)) =
     out_delivered s @ map h (drop (length (out_delivered s)) (out_delivered (snd (bidi_echo f s))))"
  by (cases "accepts (out_accept s) (length (in_pending s))")
     (auto simp: bidi_echo_complete dest!: accepts_not simp: bidi_echo_send_fails)

lemma echo_log_no_failure [simp]:
  "e \<in> set (echo_log f xs) \<Longrightarrow> \<not> is_failure e"
  by (induction xs) auto

lemma bidi_echo_new_events:
  "\<exists>pre e. events (snd (bidi_echo f s)) = events s @ pre @ [e] \<and> is_failure e
          \<and> (\<forall>e' \<in> set pre. \<not> is_failure e')"
proof (cases "accepts (out_accept s) (length (in_pending s))")
  case True
  then show ?thesis
    by (intro exI[of _ "echo_log f (in_pending s)"] exI[of _ "RecvFailed (in_close s)"])
       (auto simp: bidi_echo_complete)
next
  case False
  then obtain k where k: "out_accept s = Some k" "k < length (in_pending s)"
    by (auto dest: accepts_not)
  then show ?thesis
    by (intro exI[of _ "echo_log f (take k (in_pending s)) @ [Received (in_pending s ! k)]"]
              exI[of _ "SendFailed (out_error s)"])
       (auto simp: bidi_echo_send_fails)
qed


lemma length_echo_log [simp]: "length (echo_log f xs) = 2 * length xs"
  by (induction xs) auto

lemma received_of_echo_log [simp]: "received_of (echo_log f xs) = xs"
  by (induction xs) (auto simp: received_of_def)

lemma bidi_echo_wf: "stream_wf s \<Longrightarrow> stream_wf (snd (bidi_echo f s))"
proof (induction f s rule: bidi_echo.induct)
  case (1 f s)
  have r: "stream_wf (snd (Recv s))" using "1.prems" by (rule Recv_wf)
  show ?case
  proof (cases "Recv s")
    case (Pair x s1)
    with r have w1: "stream_wf s1" by simp
    show ?thesis
    proof (cases x)
      case (Inl e)
      with Pair w1 show ?thesis by (subst bidi_echo.simps) simp
    next
      case (Inr req)
      have w2: "stream_wf (snd (Send (f req) s1))" using w1 by (rule Send_wf)
      show ?thesis
      proof (cases "Send (f req) s1")
        case (Pair y s2)
        with w2 have w3: "stream_wf s2" by simp
        show ?thesis
        proof (cases y)
          case None
          have "stream_wf (snd (bidi_echo f s2))"
            using "1.IH" [OF \<open>Recv s = (x, s1)\<close> [symmetric] Inr] Pair None w3 by simp
          with \<open>Recv s = (x, s1)\<close> Inr Pair None show ?thesis by (subst bidi_echo.simps) simp
        next
          case (Some e)
          with \<open>Recv s = (x, s1)\<close> Inr Pair w3 show ?thesis by (subst bidi_echo.simps) simp
        qed
      qed
    qed
  qed
qed

lemma sent_of_map_Received [simp]: "sent_of (map Received xs) = []"
  by (induction xs) (simp_all add: sent_of_def)

lemma collect_wf: "stream_wf s \<Longrightarrow> stream_wf (snd (collect g reqs s))"
  by (simp add: collect_run stream_wf_def)

lemma send_repeat_wf: "stream_wf s \<Longrightarrow> stream_wf (snd (send_repeat i n m s))"
proof (induction i n m s rule: send_repeat.induct)
  case (1 i n m s)
  have w: "stream_wf (snd (Send m s))" using "1.prems" by (rule Send_wf)
  show ?case
  proof (cases "i < n")
    case True
    show ?thesis
    proof (cases "Send m s")
      case (Pair y s1)
      with w have "stream_wf s1" by simp
      with "1.IH" [OF True] Pair True show ?thesis
        by (subst send_repeat.simps) (cases y, simp_all)
    qed
  next
    case False
    with "1.prems" show ?thesis by (subst send_repeat.simps) simp
  qed
qed

lemma greet_bidi_streams_wf:
  "stream_wf s \<Longrightarrow> stream_wf (snd (GreetStream s)) \<and> stream_wf (snd (GreetStream_g1v1 s))"
  by (simp add: GreetStream_bidi_echo GreetStream_g1v1_bidi_echo bidi_echo_wf)

lemma greet_server_streams_wf:
  "stream_wf s \<Longrightarrow> stream_wf (snd (GreetServerStream req s)) \<and> stream_wf (snd (GreetServerStream_g1v1 req s))"
  by (simp add: GreetServerStream_def GreetServerStream_loop_send_repeat
                GreetServerStream_g1v1_def GreetServerStream_g1v1_loop_send_repeat send_repeat_wf)

lemma greet_client_streams_wf:
  "stream_wf s \<Longrightarrow> stream_wf (snd (GreetClientStream s)) \<and> stream_wf (snd (GreetClientStream_g1v1 s))"
  by (simp add: GreetClientStream_def GreetClientStream_g1v1_def GreetClientStream_loop_collect
                GreetClientStream_g1v1_loop_collect collect_run stream_wf_def)

subsection \<open>Properties of the handlers\<close>

text \<open>
  C1. \<open>GreetStream\<close> (bidirectional): when the peer takes every response, each request is
  answered by a response carrying its name, in the order received, and the call returns
  \<open>nil\<close> exactly when the inbound direction ended with the end-of-stream marker; any other
  closing error is returned.
\<close>

theorem GreetStream_echoes:
  "accepts (out_accept s) (length (in_pending s)) \<Longrightarrow>
   GreetStream s =
     (if IsEnded (in_close s) then None else Some (in_close s),
      s\<lparr>in_pending := [],
        out_delivered := out_delivered s @
          map (\<lambda>r. GreetStreamResponse (GreetStreamRequest_Name r)) (in_pending s),
        out_accept := map_option (\<lambda>k. k - length (in_pending s)) (out_accept s),
        events := events s @ echo_log (\<lambda>r. GreetStreamResponse (GreetStreamRequest_Name r)) (in_pending s)
                  @ [RecvFailed (in_close s)]\<rparr>)"
  by (simp add: GreetStream_bidi_echo bidi_echo_complete)

theorem GreetStream_echoes_witness:
  "GreetStream (new_stream [GreetStreamRequest ''a'', GreetStreamRequest ''b''] ErrEnded None ErrCanceled)
   = (None, (new_stream [] ErrEnded None ErrCanceled)
        \<lparr>out_delivered := [GreetStreamResponse ''a'', GreetStreamResponse ''b''],
         events := [Received (GreetStreamRequest ''a''), Sent (GreetStreamResponse ''a''),
                    Received (GreetStreamRequest ''b''), Sent (GreetStreamResponse ''b''),
                    RecvFailed ErrEnded]\<rparr>)"
  using GreetStream_echoes [of "new_stream [GreetStreamRequest ''a'', GreetStreamRequest ''b''] ErrEnded None ErrCanceled"]
  by (simp add: new_stream_def)

text \<open>
  C2. \<open>GreetStream\<close> when the peer goes away after \<open>k\<close> responses: the first \<open>k\<close>
  requests are answered, the send for the next one fails, and the handler returns that
  send error at once without receiving the rest.
\<close>

theorem GreetStream_send_error:
  "out_accept s = Some k \<Longrightarrow> k < length (in_pending s) \<Longrightarrow>
   GreetStream s =
     (Some (out_error s),
      s\<lparr>in_pending := drop (Suc k) (in_pending s),
        out_delivered := out_delivered s @
          map (\<lambda>r. GreetStreamResponse (GreetStreamRequest_Name r)) (take k (in_pending s)),
        out_accept := Some 0,
        events := events s @ echo_log (\<lambda>r. GreetStreamResponse (GreetStreamRequest_Name r)) (take k (in_pending s))
                  @ [Received (in_pending s ! k), SendFailed (out_error s)]\<rparr>)"
  by (simp add: GreetStream_bidi_echo bidi_echo_send_fails)

theorem GreetStream_send_error_witness:
  "GreetStream (new_stream [GreetStreamRequest ''a'', GreetStreamRequest ''b''] ErrEnded (Some 1) ErrCanceled)
   = (Some ErrCanceled, (new_stream [] ErrEnded (Some 0) ErrCanceled)
        \<lparr>out_delivered := [GreetStreamResponse ''a''],
         events := [Received (GreetStreamRequest ''a''), Sent (GreetStreamResponse ''a''),
                    Received (GreetStreamRequest ''b''), SendFailed ErrCanceled]\<rparr>)"
  using GreetStream_send_error
    [of "new_stream [GreetStreamRequest ''a'', GreetStreamRequest ''b''] ErrEnded (Some 1) ErrCanceled" 1]
  by (simp add: new_stream_def)

text \<open>
  C3. Stream discipline of \<open>GreetStream\<close>: whatever the transport does, the handler's
  operations end with exactly one failed operation (the end-of-stream marker, a receive
  error or a send error), and no receive or send follows it.
\<close>

theorem GreetStream_stops_after_failure:
  "\<exists>pre e. events (snd (GreetStream s)) = events s @ pre @ [e] \<and> is_failure e
          \<and> (\<forall>e' \<in> set pre. \<not> is_failure e')"
  unfolding GreetStream_bidi_echo by (rule bidi_echo_new_events)

theorem GreetStream_stops_after_failure_witness:
  "\<exists>pre e. events (snd (GreetStream (new_stream [GreetStreamRequest ''a''] ErrCanceled None ErrCanceled)))
      = [] @ pre @ [e] \<and> is_failure e \<and> (\<forall>e' \<in> set pre. \<not> is_failure e')"
  using GreetStream_stops_after_failure
    [of "new_stream [GreetStreamRequest ''a''] ErrCanceled None ErrCanceled"]
  by (simp add: new_stream_def)

text \<open>
  C4. \<open>GreetClientStream\<close>: the handler receives every request, in order, until the
  inbound direction closes; on the end-of-stream marker it answers with the names joined by
  commas, on any other closing error it returns that error and no response.
\<close>

theorem GreetClientStream_joins:
  "GreetClientStream s =
     (if IsEnded (in_close s)
      then Inr (GreetClientStreamResponse (Join (map GreetClientStreamRequest_Name (in_pending s)) '',''))
      else Inl (in_close s),
      s\<lparr>in_pending := [], events := events s @ map Received (in_pending s) @ [RecvFailed (in_close s)],
        cs_msg := None, cs_err := Some (in_close s)\<rparr>)"
  by (simp add: GreetClientStream_def GreetClientStream_loop_collect collect_run Err_def)

text \<open>
  C5. \<open>GreetServerStream\<close>: when the peer takes five responses, the handler sends exactly
  five, each carrying the request's name, and returns \<open>nil\<close>.
\<close>

theorem GreetServerStream_sends_five:
  "accepts (out_accept s) 5 \<Longrightarrow>
   GreetServerStream req s =
     (None, s\<lparr>out_delivered := out_delivered s @
                 replicate 5 (GreetServerStreamResponse (GreetServerStreamRequest_Name req)),
              out_accept := map_option (\<lambda>k. k - 5) (out_accept s),
              events := events s @
                 replicate 5 (Sent (GreetServerStreamResponse (GreetServerStreamRequest_Name req)))\<rparr>)"
  by (simp add: GreetServerStream_def GreetServerStream_loop_send_repeat send_repeat_complete)

theorem GreetServerStream_sends_five_witness:
  "GreetServerStream (GreetServerStreamRequest ''ping'') (new_stream [] ErrEnded (Some 7) ErrCanceled)
   = (None, (new_stream [] ErrEnded (Some 2) ErrCanceled)
        \<lparr>out_delivered := replicate 5 (GreetServerStreamResponse ''ping''),
         events := replicate 5 (Sent (GreetServerStreamResponse ''ping''))\<rparr>)"
  using GreetServerStream_sends_five
    [of "new_stream [] ErrEnded (Some 7) ErrCanceled" "GreetServerStreamRequest ''ping''"]
  by (simp add: new_stream_def)

text \<open>
  C6. \<open>GreetServerStream\<close> when the peer goes away after \<open>k < 5\<close> responses: the next
  send fails, no further send is attempted, and the send error is returned.
\<close>

theorem GreetServerStream_send_error:
  "out_accept s = Some k \<Longrightarrow> k < 5 \<Longrightarrow>
   GreetServerStream req s =
     (Some (out_error s),
      s\<lparr>out_delivered := out_delivered s @
          replicate k (GreetServerStreamResponse (GreetServerStreamRequest_Name req)),
        out_accept := Some 0,
        events := events s @ replicate k (Sent (GreetServerStreamResponse (GreetServerStreamRequest_Name req)))
                  @ [SendFailed (out_error s)]\<rparr>)"
  by (simp add: GreetServerStream_def GreetServerStream_loop_send_repeat send_repeat_fails)

theorem GreetServerStream_send_error_witness:
  "GreetServerStream (GreetServerStreamRequest ''ping'') (new_stream [] ErrEnded (Some 2) ErrCanceled)
   = (Some ErrCanceled, (new_stream [] ErrEnded (Some 0) ErrCanceled)
        \<lparr>out_delivered := replicate 2 (GreetServerStreamResponse ''ping''),
         events := replicate 2 (Sent (GreetServerStreamResponse ''ping'')) @ [SendFailed ErrCanceled]\<rparr>)"
  using GreetServerStream_send_error
    [of "new_stream [] ErrEnded (Some 2) ErrCanceled" 2 "GreetServerStreamRequest ''ping''"]
  by (simp add: new_stream_def)

text \<open>
  C7. The group/version server is the default server with prefixed greetings: on the same
  stream \<open>GreetStream_g1v1\<close> ends with the same outcome as \<open>GreetStream\<close>, and its
  responses are those of \<open>GreetStream\<close> with \<open>GroupVersionIdentifier\<close> in front.
\<close>

theorem GreetStream_g1v1_prefixed:
  "out_delivered s = [] \<Longrightarrow>
   fst (GreetStream_g1v1 s) = fst (GreetStream s) \<and>
   out_delivered (snd (GreetStream_g1v1 s)) =
     map (\<lambda>r. GreetStreamResponse (GroupVersionIdentifier @ GreetStreamResponse_Greeting r))
       (out_delivered (snd (GreetStream s)))"
proof -
  let ?f = "\<lambda>r. GreetStreamResponse (GreetStreamRequest_Name r)"
  let ?h = "\<lambda>r. GreetStreamResponse (GroupVersionIdentifier @ GreetStreamResponse_Greeting r)"
  assume "out_delivered s = []"
  moreover have "GreetStream_g1v1 s = bidi_echo (\<lambda>x. ?h (?f x)) s"
    by (simp add: GreetStream_g1v1_bidi_echo)
  ultimately show ?thesis
    using bidi_echo_outcome_indep [of "\<lambda>x. ?h (?f x)" s ?f]
          bidi_echo_delivered_map [of ?h ?f s]
    by (simp add: GreetStream_bidi_echo)
qed

theorem GreetStream_g1v1_prefixed_witness:
  "fst (GreetStream_g1v1 (new_stream [GreetStreamRequest ''a''] ErrEnded None ErrCanceled)) = None \<and>
   out_delivered (snd (GreetStream_g1v1 (new_stream [GreetStreamRequest ''a''] ErrEnded None ErrCanceled)))
     = [GreetStreamResponse ''g1v1a'']"
proof -
  let ?s = "new_stream [GreetStreamRequest ''a''] ErrEnded None ErrCanceled
              :: (GreetStreamRequest, GreetStreamResponse) call_stream"
  have "out_delivered ?s = []" by (simp add: new_stream_def)
  from GreetStream_g1v1_prefixed [OF this] show ?thesis
    by (simp add: GreetStream_bidi_echo bidi_echo_complete new_stream_def GroupVersionIdentifier_def)
qed

text \<open>
  C22. Bounds of \<open>GreetStream\<close>: whatever the transport does, the handler sends at most
  one response per pending request and makes at most two stream operations per request plus
  the final receive, so its log grows by at most \<open>2 n + 1\<close> events for \<open>n\<close> requests.
\<close>

theorem GreetStream_bounds:
  "length (out_delivered (snd (GreetStream s))) \<le> length (out_delivered s) + length (in_pending s) \<and>
   length (events (snd (GreetStream s))) \<le> length (events s) + 2 * length (in_pending s) + 1"
proof (cases "accepts (out_accept s) (length (in_pending s))")
  case True
  then show ?thesis by (simp add: GreetStream_bidi_echo bidi_echo_complete)
next
  case False
  then obtain k where "out_accept s = Some k" "k < length (in_pending s)" by (auto dest: accepts_not)
  then show ?thesis by (simp add: GreetStream_bidi_echo bidi_echo_send_fails)
qed

text \<open>
  C23. Bounds of \<open>GreetServerStream\<close>: whatever the transport does, the handler attempts at
  most five sends, so at most five responses are delivered and at most five events logged.
\<close>

theorem GreetServerStream_at_most_five:
  "length (out_delivered (snd (GreetServerStream req s))) \<le> length (out_delivered s) + 5 \<and>
   length (events (snd (GreetServerStream req s))) \<le> length (events s) + 5"
proof (cases "accepts (out_accept s) 5")
  case True
  then show ?thesis
    by (simp add: GreetServerStream_def GreetServerStream_loop_send_repeat send_repeat_complete)
next
  case False
  then obtain k where "out_accept s = Some k" "k < 5" by (auto dest: accepts_not)
  then show ?thesis
    by (simp add: GreetServerStream_def GreetServerStream_loop_send_repeat send_repeat_fails)
qed

text \<open>
  C24. \<open>GreetStream\<close> leaves its loop normally only at the end of the inbound direction: when
  it returns \<open>nil\<close>, no client message is left pending and every one of them was received,
  in order.
\<close>

theorem GreetStream_nil_drains:
  "fst (GreetStream s) = None \<Longrightarrow>
   in_pending (snd (GreetStream s)) = [] \<and>
   received_of (events (snd (GreetStream s))) = received_of (events s) @ in_pending s"
proof (cases "accepts (out_accept s) (length (in_pending s))")
  case True
  then show ?thesis by (simp add: GreetStream_bidi_echo bidi_echo_complete)
next
  case False
  then obtain k where "out_accept s = Some k" "k < length (in_pending s)" by (auto dest: accepts_not)
  moreover assume "fst (GreetStream s) = None"
  ultimately show ?thesis by (simp add: GreetStream_bidi_echo bidi_echo_send_fails)
qed

theorem GreetStream_nil_drains_witness:
  "fst (GreetStream (new_stream [GreetStreamRequest ''a''] ErrEnded None ErrCanceled)) = None \<and>
   in_pending (snd (GreetStream (new_stream [GreetStreamRequest ''a''] ErrEnded None ErrCanceled))) = []"
proof -
  let ?s = "new_stream [GreetStreamRequest ''a''] ErrEnded None ErrCanceled
              :: (GreetStreamRequest, GreetStreamResponse) call_stream"
  have "fst (GreetStream ?s) = None"
    by (simp add: GreetStream_bidi_echo bidi_echo_complete new_stream_def)
  with GreetStream_nil_drains [OF this] show ?thesis by simp
qed

text \<open>
  C27. The sources' end-of-stream test is the spec's tagged receive: both \<open>GreetStream\<close>
  methods, which test \<open>triple.IsEnded\<close> on the error of \<open>Recv\<close>, are the echo loop
  written against the tagged result \<open>RValue | EndOfStream | RError\<close>, so they never
  mistake a transport error for the end of the stream or the converse.
\<close>

theorem GreetStream_tagged_receive:
  "GreetStream s = echo_tagged (\<lambda>r. GreetStreamResponse (GreetStreamRequest_Name r)) s \<and>
   GreetStream_g1v1 s =
     echo_tagged (\<lambda>r. GreetStreamResponse (GroupVersionIdentifier @ GreetStreamRequest_Name r)) s"
  by (simp add: GreetStream_bidi_echo GreetStream_g1v1_bidi_echo bidi_echo_tagged)

end
