(* ===== verification/Dispatch.thy ===== *)
theory Dispatch
  imports Stream
begin

text \<open>
  The dispatch loop of the triple server (dubbo-go's, not under src/; the model follows
  the spec's section on the dispatch state machine): a handler is bound to one of four call
  shapes; for a call, the dispatcher builds the stream view of that shape over the call's
  transport, reads the single input of a unary or server-streaming call, invokes the handler
  once, sends the single output of a unary or client-streaming call, and ends the call as
  completed or failed. The lifecycle of a call (\<open>Init\<close>, \<open>Active\<close>, \<open>Done\<close>,
  \<open>Aborted\<close>) is an inductive step relation, cancellation included.
\<close>

subsection \<open>Handlers and outcomes\<close>

datatype ('i, 'o) handler =
    Unary "'i \<Rightarrow> terr + 'o"
  | ServerStream "'i \<Rightarrow> ('i, 'o) call_stream \<Rightarrow> terr option \<times> ('i, 'o) call_stream"
  | ClientStream "('i, 'o) client_stream \<Rightarrow> (terr + 'o) \<times> ('i, 'o) client_stream"
  | BidiStream "('i, 'o) call_stream \<Rightarrow> terr option \<times> ('i, 'o) call_stream"

text \<open>What the caller observes: the outputs of a completed call, or the one error of a failed one.\<close>

datatype 'o call_outcome = Completed "'o list" | Failed terr

text \<open>
  The transport of one call: the client's messages, how the inbound direction ends, how many
  sends the client takes (\<open>None\<close>: all) and the error of a refused send.
\<close>

record ('i, 'o) transport =
  t_inputs :: "'i list"
  t_close :: terr
  t_accept :: "nat option"
  t_error :: terr

definition stream_of :: "('i, 'o) transport \<Rightarrow> ('i, 'o) call_stream" where
  "stream_of t = new_stream (t_inputs t) (t_close t) (t_accept t) (t_error t)"

definition client_stream_of :: "('i, 'o) transport \<Rightarrow> ('i, 'o) client_stream" where
  "client_stream_of t = new_client_stream (t_inputs t) (t_close t) (t_accept t) (t_error t)"

text \<open>Send the single output of a unary or client-streaming call.\<close>

definition reply ::
  "'o \<Rightarrow> ('i, 'o, 'z) call_stream_scheme \<Rightarrow> 'o call_outcome \<times> ('i, 'o) event list" where
  "reply y s = (case Send y s of
                  (Some e, s1) \<Rightarrow> (Failed e, events s1)
                | (None, s1) \<Rightarrow> (Completed [y], events s1))"

definition dispatch ::
  "('i, 'o) handler \<Rightarrow> ('i, 'o) transport \<Rightarrow> 'o call_outcome \<times> ('i, 'o) event list" where
  "dispatch h t =
     (case h of
        Unary f \<Rightarrow>
          (case Recv (stream_of t) of
             (Inl e, s1) \<Rightarrow> (Failed e, events s1)
           | (Inr x, s1) \<Rightarrow> (case f x of Inl e \<Rightarrow> (Failed e, events s1) | Inr y \<Rightarrow> reply y s1))
      | ServerStream f \<Rightarrow>
          (case Recv (stream_of t) of
             (Inl e, s1) \<Rightarrow> (Failed e, events s1)
           | (Inr x, s1) \<Rightarrow>
               (case f x s1 of
                  (None, s2) \<Rightarrow> (Completed (out_delivered s2), events s2)
                | (Some e, s2) \<Rightarrow> (Failed e, events s2)))
      | ClientStream f \<Rightarrow>
          (case f (client_stream_of t) of
             (Inl e, s1) \<Rightarrow> (Failed e, events s1)
           | (Inr y, s1) \<Rightarrow> reply y s1)
      | BidiStream f \<Rightarrow>
          (case f (stream_of t) of
             (None, s1) \<Rightarrow> (Completed (out_delivered s1), events s1)
           | (Some e, s1) \<Rightarrow> (Failed e, events s1)))"

text \<open>The call shape of a handler, as the service definition declares it.\<close>

datatype call_shape = UnaryShape | ServerStreamShape | ClientStreamShape | BidiStreamShape

fun handler_shape :: "('i, 'o) handler \<Rightarrow> call_shape" where
  "handler_shape (Unary f) = UnaryShape"
| "handler_shape (ServerStream f) = ServerStreamShape"
| "handler_shape (ClientStream f) = ClientStreamShape"
| "handler_shape (BidiStream f) = BidiStreamShape"

subsection \<open>The lifecycle of a call\<close>

datatype call_phase = Init | Active | Done | Aborted terr

fun terminal :: "call_phase \<Rightarrow> bool" where
  "terminal Done = True"
| "terminal (Aborted e) = True"
| "terminal _ = False"

inductive call_step :: "call_phase \<Rightarrow> call_phase \<Rightarrow> bool" where
  start: "call_step Init Active"
| complete: "call_step Active Done"
| fail: "call_step Active (Aborted e)"
| fail_input: "call_step Init (Aborted e)"
| cancel: "\<not> terminal p \<Longrightarrow> call_step p (Aborted ErrCanceled)"

inductive_cases call_step_DoneE: "call_step Done q"
inductive_cases call_step_AbortedE: "call_step (Aborted e) q"

inductive call_reach :: "call_phase \<Rightarrow> bool" where
  init: "call_reach Init"
| step: "call_reach p \<Longrightarrow> call_step p q \<Longrightarrow> call_reach q"

text \<open>A run of a call: each phase is a step from the one before.\<close>

fun call_run :: "call_phase \<Rightarrow> call_phase list \<Rightarrow> bool" where
  "call_run p [] = True"
| "call_run p (q # qs) = (call_step p q \<and> call_run q qs)"

text \<open>Cancelling a call's context: a live call is aborted, a finished one is left alone.\<close>

definition cancel_call :: "call_phase \<Rightarrow> call_phase" where
  "cancel_call p = (if terminal p then p else Aborted ErrCanceled)"

fun phase_of :: "'o call_outcome \<Rightarrow> call_phase" where
  "phase_of (Completed ys) = Done"
| "phase_of (Failed e) = Aborted e"

text \<open>
  The phases a dispatch passes through: a unary or server-streaming call whose single input
  cannot be read fails before its handler is invoked; every other call becomes active when
  its handler is invoked and ends in the phase of its outcome.
\<close>

fun reads_input :: "('i, 'o) handler \<Rightarrow> bool" where
  "reads_input (Unary f) = True"
| "reads_input (ServerStream f) = True"
| "reads_input (ClientStream f) = False"
| "reads_input (BidiStream f) = False"

definition dispatch_phases :: "('i, 'o) handler \<Rightarrow> ('i, 'o) transport \<Rightarrow> call_phase list" where
  "dispatch_phases h t =
     (if reads_input h \<and> t_inputs t = [] then [Aborted (t_close t)]
      else [Active, phase_of (fst (dispatch h t))])"

text \<open>How many more steps a phase can take: the measure that bounds every run.\<close>

fun phase_rank :: "call_phase \<Rightarrow> nat" where
  "phase_rank Init = 2"
| "phase_rank Active = 1"
| "phase_rank _ = 0"

text \<open>
  A dispatch follows the lifecycle when its phases form a run from \<open>Init\<close> of at most two
  steps with exactly one terminal phase, the last, which is the phase of the observed outcome.
\<close>

definition follows_lifecycle :: "call_phase list \<Rightarrow> 'o call_outcome \<Rightarrow> bool" where
  "follows_lifecycle ps r \<longleftrightarrow>
     call_run Init ps \<and> length ps \<le> 2 \<and> length (filter terminal ps) = 1 \<and> last ps = phase_of r"

subsection \<open>Facts about the lifecycle\<close>

lemma terminal_no_step: "terminal p \<Longrightarrow> \<not> call_step p q"
  by (cases p) (auto elim: call_step.cases)

lemma call_run_terminal_last:
  "call_run p qs \<Longrightarrow> i < length qs \<Longrightarrow> terminal (qs ! i) \<Longrightarrow> i = length qs - 1"
proof (induction qs arbitrary: p i)
  case Nil
  then show ?case by simp
next
  case (Cons q qs)
  show ?case
  proof (cases i)
    case 0
    with Cons.prems have "terminal q" "call_run q qs" by auto
    then have "qs = []" by (cases qs) (auto dest: terminal_no_step)
    with 0 show ?thesis by simp
  next
    case (Suc j)
    with Cons.prems Cons.IH [of q j] show ?thesis by auto
  qed
qed

lemma call_step_rank: "call_step p q \<Longrightarrow> phase_rank q < phase_rank p"
  by (induction rule: call_step.induct) (auto elim: terminal.elims)

lemma call_run_length: "call_run p qs \<Longrightarrow> length qs \<le> phase_rank p"
proof (induction qs arbitrary: p)
  case (Cons q qs)
  then have "call_step p q" "length qs \<le> phase_rank q" by auto
  then show ?case by (auto dest: call_step_rank)
qed simp

lemma call_run_append_step:
  "call_run p (qs @ [q]) \<longleftrightarrow> call_run p qs \<and> call_step (last (p # qs)) q"
  by (induction qs arbitrary: p) auto

lemma outcome_reachable: "call_reach (phase_of r)"
proof -
  have active: "call_reach Active" by (rule call_reach.step [OF call_reach.init call_step.start])
  show ?thesis
  proof (cases r)
    case (Completed ys)
    then show ?thesis using call_reach.step [OF active call_step.complete] by simp
  next
    case (Failed e)
    then show ?thesis using call_reach.step [OF active call_step.fail] by simp
  qed
qed

subsection \<open>Dispatch per call shape\<close>

lemma dispatch_Unary:
  "dispatch (Unary f) t =
     (case t_inputs t of
        [] \<Rightarrow> (Failed (t_close t), [RecvFailed (t_close t)])
      | x # xs \<Rightarrow>
          (case f x of
             Inl e \<Rightarrow> (Failed e, [Received x])
           | Inr y \<Rightarrow> (if t_accept t = Some 0 then (Failed (t_error t), [Received x, SendFailed (t_error t)])
                      else (Completed [y], [Received x, Sent y]))))"
  by (auto simp: dispatch_def stream_of_def new_stream_def Recv_def reply_def Send_def
           split: list.splits option.splits nat.splits sum.splits)

lemma dispatch_ServerStream:
  "t_inputs t = x # xs \<Longrightarrow>
   dispatch (ServerStream f) t =
     (case f x ((stream_of t)\<lparr>in_pending := xs, events := [Received x]\<rparr>) of
        (None, s2) \<Rightarrow> (Completed (out_delivered s2), events s2)
      | (Some e, s2) \<Rightarrow> (Failed e, events s2))"
  by (simp add: dispatch_def stream_of_def new_stream_def Recv_def)

lemma dispatch_ClientStream:
  "dispatch (ClientStream f) t =
     (case f (client_stream_of t) of
        (Inl e, s1) \<Rightarrow> (Failed e, events s1)
      | (Inr y, s1) \<Rightarrow> reply y s1)"
  by (simp add: dispatch_def)

lemma dispatch_BidiStream:
  "dispatch (BidiStream f) t =
     (case f (stream_of t) of
        (None, s1) \<Rightarrow> (Completed (out_delivered s1), events s1)
      | (Some e, s1) \<Rightarrow> (Failed e, events s1))"
  by (simp add: dispatch_def)

lemma dispatch_no_input:
  "reads_input h \<Longrightarrow> t_inputs t = [] \<Longrightarrow> fst (dispatch h t) = Failed (t_close t)"
  by (cases h) (simp_all add: dispatch_def stream_of_def new_stream_def Recv_def)

subsection \<open>The dispatcher follows the lifecycle\<close>

lemma dispatch_phases_run:
  "call_run Init (dispatch_phases h t) \<and> last (dispatch_phases h t) = phase_of (fst (dispatch h t))"
proof (cases "reads_input h \<and> t_inputs t = []")
  case True
  then show ?thesis
    by (simp add: dispatch_phases_def dispatch_no_input call_step.fail_input)
next
  case False
  then show ?thesis
    by (cases "fst (dispatch h t)") (auto simp: dispatch_phases_def intro: call_step.intros)
qed

lemma phase_of_terminal [simp]: "terminal (phase_of r)"
  by (cases r) simp_all

lemma call_run_one_terminal:
  "call_run p qs \<Longrightarrow> length (filter terminal qs) \<le> 1"
proof (induction qs arbitrary: p)
  case (Cons q qs)
  show ?case
  proof (cases "terminal q")
    case True
    with Cons.prems have "qs = []" by (cases qs) (auto dest: terminal_no_step)
    then show ?thesis by simp
  next
    case False
    with Cons.prems Cons.IH [of q] show ?thesis by simp
  qed
qed simp

lemma dispatch_follows_lifecycle: "follows_lifecycle (dispatch_phases h t) (fst (dispatch h t))"
proof -
  let ?ps = "dispatch_phases h t"
  have run: "call_run Init ?ps" and last: "last ?ps = phase_of (fst (dispatch h t))"
    using dispatch_phases_run [of h t] by auto
  have ne: "?ps \<noteq> []" by (simp add: dispatch_phases_def)
  then have "terminal (last ?ps)" by (simp add: last)
  with ne have "last ?ps \<in> set (filter terminal ?ps)" by simp
  then have "1 \<le> length (filter terminal ?ps)"
    by (cases "filter terminal ?ps") simp_all
  with call_run_one_terminal [OF run] have "length (filter terminal ?ps) = 1" by simp
  moreover have "length ?ps \<le> 2" using call_run_length [OF run] by simp
  ultimately show ?thesis using run last by (simp add: follows_lifecycle_def)
qed

text \<open>
  Liveness of the abstract lifecycle: every run from \<open>Init\<close> can be continued (by
  cancellation if need be) to one that ends in a terminal phase.
\<close>

lemma call_run_finishes:
  "call_run Init qs \<Longrightarrow> \<exists>rs. call_run Init (qs @ rs) \<and> terminal (last (Init # qs @ rs))"
proof (cases "terminal (last (Init # qs))")
  case True
  moreover assume "call_run Init qs"
  ultimately show ?thesis by (intro exI [of _ "[]"]) simp
next
  case False
  then have "call_step (last (Init # qs)) (Aborted ErrCanceled)" by (rule call_step.cancel)
  moreover assume "call_run Init qs"
  ultimately show ?thesis
    by (intro exI [of _ "[Aborted ErrCanceled]"]) (simp add: call_run_append_step del: call_run.simps)
qed

end
