(* ===== verification/CallSpec.thy ===== *)
theory CallSpec
  imports Greet Dispatch
begin

text \<open>
  Abstract contracts of the four call shapes, stated over the call's transport alone (the
  client's messages, how the inbound direction ends, how many responses the client takes)
  with no stream in them: what the spec's dispatch section promises the caller. The greet
  service of the spec's design notes is one service parameterised by the prefix of its
  bound identity; \<open>spec_Greet\<close> and its three siblings are that service. The lemmas show
  that the reference loops of \<open>Greet\<close>, driven by the dispatcher, meet the contracts; the
  theory \<open>GreetServer\<close> concludes that both implementations of \<open>main.go\<close> refine the
  parameterised service.
\<close>

subsection \<open>Contracts of the call shapes\<close>

text \<open>Unary, the handler never failing: one output for the one input, if the client takes it.\<close>

definition unary_contract :: "('i \<Rightarrow> 'o) \<Rightarrow> ('i, 'o) transport \<Rightarrow> 'o call_outcome" where
  "unary_contract f t =
     (case t_inputs t of
        [] \<Rightarrow> Failed (t_close t)
      | x # xs \<Rightarrow> (if t_accept t = Some 0 then Failed (t_error t) else Completed [f x]))"

text \<open>
  Bidirectional echo: one output per input, in order; the call fails with the send error if
  the client stops taking responses, and with the closing error unless the inbound direction
  ended with the end-of-stream marker.
\<close>

definition echo_contract :: "('i \<Rightarrow> 'o) \<Rightarrow> ('i, 'o) transport \<Rightarrow> 'o call_outcome" where
  "echo_contract f t =
     (if \<not> accepts (t_accept t) (length (t_inputs t)) then Failed (t_error t)
      else if IsEnded (t_close t) then Completed (map f (t_inputs t))
      else Failed (t_close t))"

text \<open>
  Client streaming: one output computed from all inputs, and only when the inbound direction
  ended with the end-of-stream marker; a hang-up fails the call.
\<close>

definition collect_contract :: "('i list \<Rightarrow> 'o) \<Rightarrow> ('i, 'o) transport \<Rightarrow> 'o call_outcome" where
  "collect_contract f t =
     (if \<not> IsEnded (t_close t) then Failed (t_close t)
      else if t_accept t = Some 0 then Failed (t_error t)
      else Completed [f (t_inputs t)])"

text \<open>Server streaming: \<open>n\<close> outputs derived from the one input, if the client takes them.\<close>

definition repeat_contract :: "nat \<Rightarrow> ('i \<Rightarrow> 'o) \<Rightarrow> ('i, 'o) transport \<Rightarrow> 'o call_outcome" where
  "repeat_contract n f t =
     (case t_inputs t of
        [] \<Rightarrow> Failed (t_close t)
      | x # xs \<Rightarrow> (if accepts (t_accept t) n then Completed (replicate n (f x)) else Failed (t_error t)))"

subsection \<open>The greet service parameterised by its prefix\<close>

definition spec_Greet :: "string \<Rightarrow> (GreetRequest, GreetResponse) transport \<Rightarrow> GreetResponse call_outcome" where
  "spec_Greet p = unary_contract (\<lambda>r. GreetResponse (p @ GreetRequest_Name r))"

definition spec_GreetStream ::
  "string \<Rightarrow> (GreetStreamRequest, GreetStreamResponse) transport \<Rightarrow> GreetStreamResponse call_outcome" where
  "spec_GreetStream p = echo_contract (\<lambda>r. GreetStreamResponse (p @ GreetStreamRequest_Name r))"

definition spec_GreetClientStream ::
  "string \<Rightarrow> (GreetClientStreamRequest, GreetClientStreamResponse) transport \<Rightarrow>
   GreetClientStreamResponse call_outcome" where
  "spec_GreetClientStream p =
     collect_contract (\<lambda>rs. GreetClientStreamResponse (Join (map (\<lambda>r. p @ GreetClientStreamRequest_Name r) rs) '',''))"

definition spec_GreetServerStream ::
  "string \<Rightarrow> (GreetServerStreamRequest, GreetServerStreamResponse) transport \<Rightarrow>
   GreetServerStreamResponse call_outcome" where
  "spec_GreetServerStream p =
     repeat_contract 5 (\<lambda>r. GreetServerStreamResponse (p @ GreetServerStreamRequest_Name r))"

subsection \<open>The dispatched reference loops meet the contracts\<close>

lemma dispatch_unary_contract:
  "fst (dispatch (Unary (\<lambda>x. Inr (f x))) t) = unary_contract f t"
  by (simp add: dispatch_Unary unary_contract_def split: list.split)

lemma dispatch_echo_contract:
  "fst (dispatch (BidiStream (bidi_echo f)) t) = echo_contract f t"
proof (cases "accepts (t_accept t) (length (t_inputs t))")
  case True
  then show ?thesis
    by (simp add: dispatch_BidiStream bidi_echo_complete stream_of_def new_stream_def echo_contract_def)
next
  case False
  then obtain k where "t_accept t = Some k" "k < length (t_inputs t)" by (auto dest: accepts_not)
  with False show ?thesis
    by (simp add: dispatch_BidiStream bidi_echo_send_fails stream_of_def new_stream_def echo_contract_def)
qed

lemma dispatch_repeat_contract:
  "fst (dispatch (ServerStream (\<lambda>x. send_repeat 0 n (f x))) t) = repeat_contract n f t"
proof (cases "t_inputs t")
  case Nil
  then show ?thesis
    by (simp add: dispatch_no_input repeat_contract_def)
next
  case (Cons x xs)
  show ?thesis
  proof (cases "accepts (t_accept t) n")
    case True
    with Cons show ?thesis
      by (simp add: dispatch_ServerStream send_repeat_complete stream_of_def new_stream_def
                    repeat_contract_def)
  next
    case False
    then obtain k where "t_accept t = Some k" "k < n" by (auto dest: accepts_not)
    with Cons False show ?thesis
      by (simp add: dispatch_ServerStream send_repeat_fails stream_of_def new_stream_def
                    repeat_contract_def)
  qed
qed

text \<open>
  The client-streaming handlers: collect every request, then answer unless \<open>Err()\<close>
  reports an error other than the end-of-stream marker.
\<close>

lemma dispatch_collect_contract:
  assumes h: "\<And>s. h s =
    (let (reqs, s1) = collect g [] s
     in if Err s1 \<noteq> None \<and> \<not> IsEnded (the (Err s1)) then (Inl (the (Err s1)), s1)
        else (Inr (mk reqs), s1))"
  shows "fst (dispatch (ClientStream h) t) = collect_contract (\<lambda>xs. mk (map g xs)) t"
  by (simp add: dispatch_ClientStream h collect_run Err_def client_stream_of_def new_client_stream_def
                reply_def Send_def collect_contract_def split: option.split nat.split)

end
