(* ===== verification/Registry.thy ===== *)
theory Registry
  imports Prelude "HOL-Library.Multiset"
begin

text \<open>
  The service registry behind \<open>server.NewServer\<close> and the generated
  \<open>RegisterGreetServiceHandler\<close> (neither is under src/; the model follows the spec's
  section on the registry): services are keyed by their identity (name, group, version),
  \<open>register\<close> is an atomic insert-if-absent that refuses a second descriptor for an
  identity, and \<open>resolve\<close> matches all four keys exactly, with no fallback between
  group/version variants. The handler type is a parameter: the registry never looks inside.
\<close>

subsection \<open>Identities, descriptors and the registry\<close>

record ServiceIdentity =
  svc_name :: string
  svc_group :: string
  svc_version :: string

record 'h ServiceDescriptor =
  desc_identity :: ServiceIdentity
  desc_methods :: "(string \<times> 'h) list"

datatype reg_error = DuplicateIdentity | NotFound

type_synonym 'h registry = "ServiceIdentity \<rightharpoonup> 'h ServiceDescriptor"

definition register :: "'h ServiceDescriptor \<Rightarrow> 'h registry \<Rightarrow> reg_error + 'h registry" where
  "register d r =
     (case r (desc_identity d) of
        Some _ \<Rightarrow> Inl DuplicateIdentity
      | None \<Rightarrow> Inr (r(desc_identity d \<mapsto> d)))"

definition resolve ::
  "'h registry \<Rightarrow> string \<Rightarrow> string \<Rightarrow> string \<Rightarrow> string \<Rightarrow> reg_error + 'h" where
  "resolve r name grp ver method =
     (case r \<lparr>svc_name = name, svc_group = grp, svc_version = ver\<rparr> of
        None \<Rightarrow> Inl NotFound
      | Some d \<Rightarrow> (case map_of (desc_methods d) method of
                    None \<Rightarrow> Inl NotFound
                  | Some h \<Rightarrow> Inr h))"

text \<open>Registering several descriptors at startup, stopping at the first refusal.\<close>

fun register_all :: "'h ServiceDescriptor list \<Rightarrow> 'h registry \<Rightarrow> reg_error + 'h registry" where
  "register_all [] r = Inr r"
| "register_all (d # ds) r = (case register d r of Inl e \<Rightarrow> Inl e | Inr r' \<Rightarrow> register_all ds r')"

text \<open>The registry is well formed when every descriptor is stored under its own identity.\<close>

definition registry_wf :: "'h registry \<Rightarrow> bool" where
  "registry_wf r \<longleftrightarrow> (\<forall>i d. r i = Some d \<longrightarrow> desc_identity d = i)"

text \<open>Resolution as a relation on identities: what a registry promises its callers.\<close>

definition serves :: "'h registry \<Rightarrow> ServiceIdentity \<Rightarrow> string \<Rightarrow> 'h \<Rightarrow> bool" where
  "serves r i m h \<longleftrightarrow> (\<exists>d. r i = Some d \<and> map_of (desc_methods d) m = Some h)"

subsection \<open>Basic facts\<close>

lemma ServiceIdentity_eta [simp]:
  "\<lparr>svc_name = svc_name i, svc_group = svc_group i, svc_version = svc_version i\<rparr> = i"
  by simp

lemma register_Inr:
  "register d r = Inr r' \<longleftrightarrow> r (desc_identity d) = None \<and> r' = r(desc_identity d \<mapsto> d)"
  by (auto simp: register_def split: option.splits)

lemma register_Inl:
  "register d r = Inl e \<longleftrightarrow> r (desc_identity d) \<noteq> None \<and> e = DuplicateIdentity"
  by (auto simp: register_def split: option.splits)

lemma resolve_serves:
  "resolve r (svc_name i) (svc_group i) (svc_version i) m = Inr h \<longleftrightarrow> serves r i m h"
  by (auto simp: resolve_def serves_def split: option.splits)

lemma registry_wf_empty: "registry_wf Map.empty"
  by (simp add: registry_wf_def)

lemma register_wf: "registry_wf r \<Longrightarrow> register d r = Inr r' \<Longrightarrow> registry_wf r'"
  by (auto simp: registry_wf_def register_Inr)

lemma register_all_wf: "registry_wf r \<Longrightarrow> register_all ds r = Inr r' \<Longrightarrow> registry_wf r'"
  by (induction ds arbitrary: r) (auto split: sum.splits dest: register_wf)


lemma resolve_empty [simp]: "resolve Map.empty n g v m = Inl NotFound"
  by (simp add: resolve_def)

lemma resolve_register_self:
  "register d r = Inr r' \<Longrightarrow> desc_identity d = \<lparr>svc_name = n, svc_group = g, svc_version = v\<rparr> \<Longrightarrow>
   resolve r' n g v m = (case map_of (desc_methods d) m of None \<Rightarrow> Inl NotFound | Some h \<Rightarrow> Inr h)"
  by (auto simp: register_Inr resolve_def)

lemma resolve_register_other:
  "register d r = Inr r' \<Longrightarrow> desc_identity d \<noteq> \<lparr>svc_name = n, svc_group = g, svc_version = v\<rparr> \<Longrightarrow>
   resolve r' n g v m = resolve r n g v m"
  by (auto simp: register_Inr resolve_def)

text \<open>Two registrations of different identities commute: concurrent startup order does not matter.\<close>

lemma register_commute:
  "desc_identity d1 \<noteq> desc_identity d2 \<Longrightarrow>
   (case register d1 r of Inl e \<Rightarrow> Inl e | Inr r1 \<Rightarrow> register d2 r1) =
   (case register d2 r of Inl e \<Rightarrow> Inl e | Inr r2 \<Rightarrow> register d1 r2)"
  by (auto simp: register_def fun_upd_twist split: option.splits)

subsection \<open>Registrations in any order\<close>

text \<open>
  A sequence of registrations, as concurrent registrations at startup end up serialised by the
  atomic insert-if-absent: it succeeds exactly when the identities are distinct and not yet
  taken, and then adds every descriptor under its identity; otherwise it fails with
  \<open>DuplicateIdentity\<close>. Hence the order in which the registrations win does not matter.
\<close>

lemma register_all_closed:
  "register_all ds r =
     (if distinct (map desc_identity ds) \<and> (\<forall>d \<in> set ds. r (desc_identity d) = None)
      then Inr (r ++ map_of (map (\<lambda>d. (desc_identity d, d)) ds))
      else Inl DuplicateIdentity)"
proof (induction ds arbitrary: r)
  case (Cons d ds)
  show ?case
  proof (cases "r (desc_identity d)")
    case None
    have keys: "map_of (map (\<lambda>d. (desc_identity d, d)) ds) (desc_identity d) = None"
      if "desc_identity d \<notin> desc_identity ` set ds"
      using that by (simp add: map_of_eq_None_iff image_image)
    from None show ?thesis
      by (auto simp: register_def Cons.IH keys fun_eq_iff map_add_def intro: rev_image_eqI
               split: option.split)
  next
    case (Some d')
    then show ?thesis by (simp add: register_def)
  qed
qed simp

lemma register_all_perm:
  "mset ds = mset ds' \<Longrightarrow> register_all ds r = register_all ds' r"
proof -
  assume m: "mset ds = mset ds'"
  then have ids: "mset (map desc_identity ds) = mset (map desc_identity ds')" by simp
  have set_eq: "set ds = set ds'" using m by (rule mset_eq_setD)
  have dist: "distinct (map desc_identity ds) \<longleftrightarrow> distinct (map desc_identity ds')"
    using ids by (rule mset_eq_imp_distinct_iff)
  have "distinct (map desc_identity ds) \<Longrightarrow>
        map_of (map (\<lambda>d. (desc_identity d, d)) ds) = map_of (map (\<lambda>d. (desc_identity d, d)) ds')"
    using dist set_eq by (subst map_of_inject_set) (auto simp: o_def)
  then show ?thesis
    using set_eq dist by (simp add: register_all_closed)
qed

end
