(* ===== verification/GreetServer.thy ===== *)
theory GreetServer
  imports CallSpec Registry
begin

text \<open>
  How \<open>main\<close> of \<open>rpc/triple/stream/go-server/cmd/main.go\<close> wires the handlers into the
  server: the generated interface \<open>GreetServiceHandler\<close> (a record of the four methods),
  the two implementations \<open>GreetTripleServer\<close> and \<open>GreetTripleServerGroup1Version1\<close>,
  the generated \<open>RegisterGreetServiceHandler\<close> (a descriptor of the four methods under the
  identity \<open>greet.GreetService\<close> with a group and a version), and \<open>main\<close> itself, which
  creates the server, registers \<open>GreetTripleServer\<close> under the default identity and serves.
  \<open>main\<close> ends in the server ready to serve, or in the panic of a failed registration;
  what \<open>srv.Serve()\<close> then does with each call is the theory \<open>Serve\<close>. The error of
  \<open>server.NewServer\<close> and its panic, and the failure of \<open>Serve\<close> itself, are not modelled:
  the server options are constants of the source, and the model's \<open>NewServer\<close> is the
  server they describe.
\<close>

subsection \<open>The handler interface and its implementations\<close>

record GreetServiceHandler =
  h_Greet :: "GreetRequest \<Rightarrow> terr + GreetResponse"
  h_GreetStream :: "bidi_stream \<Rightarrow> terr option \<times> bidi_stream"
  h_GreetClientStream :: "cs_stream \<Rightarrow> (terr + GreetClientStreamResponse) \<times> cs_stream"
  h_GreetServerStream :: "GreetServerStreamRequest \<Rightarrow> ss_stream \<Rightarrow> terr option \<times> ss_stream"

definition GreetTripleServer :: GreetServiceHandler where
  "GreetTripleServer =
     \<lparr>h_Greet = Greet, h_GreetStream = GreetStream,
      h_GreetClientStream = GreetClientStream, h_GreetServerStream = GreetServerStream\<rparr>"

definition GreetTripleServerGroup1Version1 :: GreetServiceHandler where
  "GreetTripleServerGroup1Version1 =
     \<lparr>h_Greet = Greet_g1v1, h_GreetStream = GreetStream_g1v1,
      h_GreetClientStream = GreetClientStream_g1v1, h_GreetServerStream = GreetServerStream_g1v1\<rparr>"

subsection \<open>Registration\<close>

text \<open>One registry entry per method, tagged with the method's message types.\<close>

datatype greet_method =
    GM_Greet "(GreetRequest, GreetResponse) handler"
  | GM_GreetStream "(GreetStreamRequest, GreetStreamResponse) handler"
  | GM_GreetClientStream "(GreetClientStreamRequest, GreetClientStreamResponse) handler"
  | GM_GreetServerStream "(GreetServerStreamRequest, GreetServerStreamResponse) handler"

record Server =
  srv_protocol :: string
  srv_port :: nat
  srv_services :: "greet_method registry"

definition GreetService_descriptor ::
  "GreetServiceHandler \<Rightarrow> string \<Rightarrow> string \<Rightarrow> greet_method ServiceDescriptor" where
  "GreetService_descriptor impl grp ver =
     \<lparr>desc_identity = \<lparr>svc_name = ''greet.GreetService'', svc_group = grp, svc_version = ver\<rparr>,
      desc_methods =
        [(''Greet'', GM_Greet (Unary (h_Greet impl))),
         (''GreetStream'', GM_GreetStream (BidiStream (h_GreetStream impl))),
         (''GreetClientStream'', GM_GreetClientStream (ClientStream (h_GreetClientStream impl))),
         (''GreetServerStream'', GM_GreetServerStream (ServerStream (h_GreetServerStream impl)))]\<rparr>"

definition RegisterGreetServiceHandler ::
  "Server \<Rightarrow> GreetServiceHandler \<Rightarrow> string \<Rightarrow> string \<Rightarrow> reg_error + Server" where
  "RegisterGreetServiceHandler srv impl grp ver =
     (case register (GreetService_descriptor impl grp ver) (srv_services srv) of
        Inl e \<Rightarrow> Inl e
      | Inr r \<Rightarrow> Inr (srv\<lparr>srv_services := r\<rparr>))"

subsection \<open>\<open>main\<close>\<close>

text \<open>\<open>server.NewServer(WithServerProtocol(WithTriple(), WithPort(20000)))\<close>: a server with no services.\<close>

definition NewServer :: Server where
  "NewServer = \<lparr>srv_protocol = ''tri'', srv_port = 20000, srv_services = Map.empty\<rparr>"

datatype main_state = Panic reg_error | Serving Server

definition main :: main_state where
  "main =
     (case RegisterGreetServiceHandler NewServer GreetTripleServer '''' '''' of
        Inl e \<Rightarrow> Panic e
      | Inr srv \<Rightarrow> Serving srv)"

subsection \<open>Evaluation of \<open>main\<close>\<close>

definition main_server :: Server where
  "main_server = NewServer\<lparr>srv_services := [\<lparr>svc_name = ''greet.GreetService'', svc_group = [], svc_version = []\<rparr>
                     \<mapsto> GreetService_descriptor GreetTripleServer [] []]\<rparr>"

lemma main_eq: "main = Serving main_server"
  by (simp add: main_def main_server_def RegisterGreetServiceHandler_def register_def
                GreetService_descriptor_def NewServer_def)

lemma resolve_main:
  "resolve (srv_services main_server) n g v m =
     (if n = ''greet.GreetService'' \<and> g = [] \<and> v = [] then
        (case map_of (desc_methods (GreetService_descriptor GreetTripleServer [] [])) m of
           None \<Rightarrow> Inl NotFound | Some h \<Rightarrow> Inr h)
      else Inl NotFound)"
  by (auto simp: main_server_def resolve_def NewServer_def GreetService_descriptor_def)


lemma main_server_services:
  "srv_services main_server \<lparr>svc_name = ''greet.GreetService'', svc_group = [], svc_version = []\<rparr> =
     Some (GreetService_descriptor GreetTripleServer [] [])"
  by (simp add: main_server_def NewServer_def)

lemma main_Serving: "main = Serving srv \<Longrightarrow> srv = main_server"
  by (simp add: main_eq)

lemma resolve_main_default [simp]:
  "resolve (srv_services main_server) ''greet.GreetService'' [] [] ''Greet'' = Inr (GM_Greet (Unary Greet))"
  "resolve (srv_services main_server) ''greet.GreetService'' [] [] ''GreetStream'' =
     Inr (GM_GreetStream (BidiStream GreetStream))"
  "resolve (srv_services main_server) ''greet.GreetService'' [] [] ''GreetClientStream'' =
     Inr (GM_GreetClientStream (ClientStream GreetClientStream))"
  "resolve (srv_services main_server) ''greet.GreetService'' [] [] ''GreetServerStream'' =
     Inr (GM_GreetServerStream (ServerStream GreetServerStream))"
  by (simp_all add: resolve_main GreetService_descriptor_def GreetTripleServer_def)

subsection \<open>Dispatch of the registered handlers\<close>

text \<open>The handlers as the reference loops, as functions.\<close>

lemma greet_handlers_reference:
  "Greet = (\<lambda>r. Inr (GreetResponse (GreetRequest_Name r)))"
  "Greet_g1v1 = (\<lambda>r. Inr (GreetResponse (GroupVersionIdentifier @ GreetRequest_Name r)))"
  "GreetStream = bidi_echo (\<lambda>r. GreetStreamResponse (GreetStreamRequest_Name r))"
  "GreetStream_g1v1 = bidi_echo (\<lambda>r. GreetStreamResponse (GroupVersionIdentifier @ GreetStreamRequest_Name r))"
  "GreetServerStream = (\<lambda>r. send_repeat 0 5 (GreetServerStreamResponse (GreetServerStreamRequest_Name r)))"
  "GreetServerStream_g1v1 =
     (\<lambda>r. send_repeat 0 5 (GreetServerStreamResponse (GroupVersionIdentifier @ GreetServerStreamRequest_Name r)))"
  by (simp_all add: fun_eq_iff Greet_def Greet_g1v1_def GreetStream_bidi_echo GreetStream_g1v1_bidi_echo
                    GreetServerStream_def GreetServerStream_loop_send_repeat
                    GreetServerStream_g1v1_def GreetServerStream_g1v1_loop_send_repeat)

lemma dispatch_GreetStream:
  "fst (dispatch (BidiStream GreetStream) t) =
     (if accepts (t_accept t) (length (t_inputs t)) then
        (if IsEnded (t_close t) then Completed (map (\<lambda>r. GreetStreamResponse (GreetStreamRequest_Name r)) (t_inputs t))
         else Failed (t_close t))
      else Failed (t_error t))"
  by (simp add: greet_handlers_reference dispatch_echo_contract echo_contract_def)

subsection \<open>Properties of the server\<close>

text \<open>
  C12. After \<open>main\<close>, the server resolves the four methods of \<open>greet.GreetService\<close>
  under the default identity (empty group and version) to the handlers of
  \<open>GreetTripleServer\<close>, each bound to its call shape.
\<close>

theorem main_serves_greet_service:
  "main = Serving srv \<Longrightarrow>
   resolve (srv_services srv) ''greet.GreetService'' [] [] ''Greet'' = Inr (GM_Greet (Unary Greet)) \<and>
   resolve (srv_services srv) ''greet.GreetService'' [] [] ''GreetStream'' =
     Inr (GM_GreetStream (BidiStream GreetStream)) \<and>
   resolve (srv_services srv) ''greet.GreetService'' [] [] ''GreetClientStream'' =
     Inr (GM_GreetClientStream (ClientStream GreetClientStream)) \<and>
   resolve (srv_services srv) ''greet.GreetService'' [] [] ''GreetServerStream'' =
     Inr (GM_GreetServerStream (ServerStream GreetServerStream))"
  by (drule main_Serving) simp

theorem main_serves_greet_service_witness:
  "main = Serving main_server \<and>
   resolve (srv_services main_server) ''greet.GreetService'' [] [] ''Greet'' = Inr (GM_Greet (Unary Greet))"
  using main_serves_greet_service [OF main_eq] main_eq by simp

text \<open>
  C13. Exact identity match: after \<open>main\<close>, any other group or version of
  \<open>greet.GreetService\<close> (the \<open>g1\<close>/\<open>v1\<close> identity of the group/version server
  included) resolves to \<open>NotFound\<close>, never to the default handlers.
\<close>

theorem main_exact_identity:
  "main = Serving srv \<Longrightarrow> (g, v) \<noteq> ([], []) \<Longrightarrow>
   resolve (srv_services srv) ''greet.GreetService'' g v m = Inl NotFound"
  by (drule main_Serving) (auto simp: resolve_main)

theorem main_exact_identity_witness:
  "resolve (srv_services main_server) ''greet.GreetService'' ''g1'' ''v1'' ''Greet'' = Inl NotFound"
  using main_exact_identity [OF main_eq, of "''g1''" "''v1''" "''Greet''"] by simp

text \<open>
  C14. Unary call through \<open>main\<close>'s server: the handler resolved for \<open>Greet\<close>, given the
  single input \<open>x\<close>, completes with exactly one output, the greeting \<open>x\<close>.
\<close>

theorem unary_greet_echo:
  "main = Serving srv \<Longrightarrow>
   resolve (srv_services srv) ''greet.GreetService'' [] [] ''Greet'' = Inr (GM_Greet h) \<Longrightarrow>
   dispatch h \<lparr>t_inputs = [GreetRequest x], t_close = c, t_accept = None, t_error = e\<rparr> =
     (Completed [GreetResponse x], [Received (GreetRequest x), Sent (GreetResponse x)])"
  by (drule main_Serving) (clarsimp simp: dispatch_Unary Greet_def)

theorem unary_greet_echo_witness:
  "dispatch (Unary Greet) \<lparr>t_inputs = [GreetRequest ''dubbo''], t_close = ErrEnded, t_accept = None,
                           t_error = ErrCanceled\<rparr> =
     (Completed [GreetResponse ''dubbo''], [Received (GreetRequest ''dubbo''), Sent (GreetResponse ''dubbo'')])"
  using unary_greet_echo [OF main_eq, of "Unary Greet" "''dubbo''" ErrEnded ErrCanceled] by simp

text \<open>
  C15. Server-streaming call through \<open>main\<close>'s server: for the input \<open>x\<close> (e.g.
  \<open>"ping"\<close>) the call completes with exactly five outputs, each the greeting \<open>x\<close>.
\<close>

theorem server_stream_five:
  "main = Serving srv \<Longrightarrow>
   resolve (srv_services srv) ''greet.GreetService'' [] [] ''GreetServerStream'' = Inr (GM_GreetServerStream h) \<Longrightarrow>
   accepts a 5 \<Longrightarrow>
   fst (dispatch h \<lparr>t_inputs = [GreetServerStreamRequest x], t_close = c, t_accept = a, t_error = e\<rparr>) =
     Completed (replicate 5 (GreetServerStreamResponse x))"
  by (drule main_Serving) (clarsimp simp: dispatch_ServerStream GreetServerStream_def GreetServerStream_loop_send_repeat
                send_repeat_complete stream_of_def new_stream_def)

theorem server_stream_five_witness:
  "fst (dispatch (ServerStream GreetServerStream)
          \<lparr>t_inputs = [GreetServerStreamRequest ''ping''], t_close = ErrEnded, t_accept = None,
           t_error = ErrCanceled\<rparr>) =
   Completed (replicate 5 (GreetServerStreamResponse ''ping''))"
  using server_stream_five [OF main_eq, of "ServerStream GreetServerStream" None "''ping''" ErrEnded ErrCanceled]
  by simp


text \<open>
  C16. Client-streaming call through \<open>main\<close>'s server: with the inputs \<open>xs\<close> (e.g.
  \<open>a\<close>, \<open>b\<close>, \<open>c\<close>) and then end-of-stream, every input is received first, and
  only then is the single output, the names joined by commas, sent once.
\<close>

theorem client_stream_output_after_inputs:
  "main = Serving srv \<Longrightarrow>
   resolve (srv_services srv) ''greet.GreetService'' [] [] ''GreetClientStream'' = Inr (GM_GreetClientStream h) \<Longrightarrow>
   dispatch h \<lparr>t_inputs = xs, t_close = ErrEnded, t_accept = None, t_error = e\<rparr> =
     (Completed [GreetClientStreamResponse (Join (map GreetClientStreamRequest_Name xs) '','')],
      map Received xs @ [RecvFailed ErrEnded,
                         Sent (GreetClientStreamResponse (Join (map GreetClientStreamRequest_Name xs) '',''))])"
  by (drule main_Serving)
     (clarsimp simp: dispatch_ClientStream GreetClientStream_def GreetClientStream_loop_collect collect_run
        Err_def client_stream_of_def new_client_stream_def reply_def Send_def)

theorem client_stream_output_after_inputs_witness:
  "dispatch (ClientStream GreetClientStream)
     \<lparr>t_inputs = [GreetClientStreamRequest ''a'', GreetClientStreamRequest ''b'', GreetClientStreamRequest ''c''],
      t_close = ErrEnded, t_accept = None, t_error = ErrCanceled\<rparr> =
   (Completed [GreetClientStreamResponse ''a,b,c''],
    [Received (GreetClientStreamRequest ''a''), Received (GreetClientStreamRequest ''b''),
     Received (GreetClientStreamRequest ''c''), RecvFailed ErrEnded, Sent (GreetClientStreamResponse ''a,b,c'')])"
  using client_stream_output_after_inputs [OF main_eq, of "ClientStream GreetClientStream"
          "[GreetClientStreamRequest ''a'', GreetClientStreamRequest ''b'', GreetClientStreamRequest ''c'']" ErrCanceled]
  by simp

text \<open>
  C17. Cancellation of a bidirectional call through \<open>main\<close>'s server: when the call's
  context is cancelled (the inbound direction ends with the cancellation error), the call
  fails, never completes, however many messages were exchanged before; the error is the
  cancellation, or the send error if the peer had already gone.
\<close>

theorem bidi_cancel_fails:
  "main = Serving srv \<Longrightarrow>
   resolve (srv_services srv) ''greet.GreetService'' [] [] ''GreetStream'' = Inr (GM_GreetStream h) \<Longrightarrow>
   t_close t = ErrCanceled \<Longrightarrow>
   fst (dispatch h t) = Failed (if accepts (t_accept t) (length (t_inputs t)) then ErrCanceled else t_error t)"
  by (drule main_Serving) (clarsimp simp: dispatch_GreetStream)

theorem bidi_cancel_fails_witness:
  "fst (dispatch (BidiStream GreetStream)
     \<lparr>t_inputs = [GreetStreamRequest ''a'', GreetStreamRequest ''b''], t_close = ErrCanceled,
      t_accept = None, t_error = ErrDeadline\<rparr>) = Failed ErrCanceled"
  using bidi_cancel_fails [OF main_eq, of "BidiStream GreetStream"
          "\<lparr>t_inputs = [GreetStreamRequest ''a'', GreetStreamRequest ''b''], t_close = ErrCanceled,
             t_accept = None, t_error = ErrDeadline\<rparr>"]
  by simp

text \<open>
  C18. A second registration under an identity already taken is refused: registering
  \<open>GreetTripleServerGroup1Version1\<close> under the default identity on \<open>main\<close>'s server
  yields \<open>DuplicateIdentity\<close>, and the first registration stays the one resolved.
\<close>

theorem duplicate_registration_rejected:
  "main = Serving srv \<Longrightarrow>
   RegisterGreetServiceHandler srv GreetTripleServerGroup1Version1 [] [] = Inl DuplicateIdentity \<and>
   resolve (srv_services srv) ''greet.GreetService'' [] [] ''Greet'' = Inr (GM_Greet (Unary Greet))"
  by (drule main_Serving)
     (simp add: RegisterGreetServiceHandler_def register_def main_server_services
                GreetService_descriptor_def [of GreetTripleServerGroup1Version1])

theorem duplicate_registration_rejected_witness:
  "RegisterGreetServiceHandler main_server GreetTripleServerGroup1Version1 [] [] = Inl DuplicateIdentity"
  using duplicate_registration_rejected [OF main_eq] by simp

text \<open>
  C19. Group/version routing: registering \<open>GreetTripleServerGroup1Version1\<close> under group
  \<open>g1\<close> and version \<open>v1\<close> on \<open>main\<close>'s server succeeds; calls under the default identity
  still reach exactly the handlers they reached before, and calls under \<open>g1\<close>/\<open>v1\<close>
  reach the group/version handlers.
\<close>

theorem group_version_routing:
  "main = Serving srv \<Longrightarrow>
   \<exists>srv2. RegisterGreetServiceHandler srv GreetTripleServerGroup1Version1 ''g1'' ''v1'' = Inr srv2 \<and>
     (\<forall>m. resolve (srv_services srv2) ''greet.GreetService'' [] [] m =
          resolve (srv_services srv) ''greet.GreetService'' [] [] m) \<and>
     resolve (srv_services srv2) ''greet.GreetService'' ''g1'' ''v1'' ''Greet'' = Inr (GM_Greet (Unary Greet_g1v1)) \<and>
     resolve (srv_services srv2) ''greet.GreetService'' ''g1'' ''v1'' ''GreetStream'' =
       Inr (GM_GreetStream (BidiStream GreetStream_g1v1))"
proof -
  assume "main = Serving srv"
  then have srv: "srv = main_server" by (rule main_Serving)
  let ?d = "GreetService_descriptor GreetTripleServerGroup1Version1 ''g1'' ''v1''"
  let ?r = "(srv_services main_server)(desc_identity ?d \<mapsto> ?d)"
  have reg: "register ?d (srv_services main_server) = Inr ?r"
    by (simp add: register_def main_server_def NewServer_def GreetService_descriptor_def)
  have keep: "resolve ?r ''greet.GreetService'' [] [] m = resolve (srv_services main_server) ''greet.GreetService'' [] [] m"
    for m by (rule resolve_register_other [OF reg]) (simp add: GreetService_descriptor_def)
  have new: "resolve ?r ''greet.GreetService'' ''g1'' ''v1'' m =
               (case map_of (desc_methods ?d) m of None \<Rightarrow> Inl NotFound | Some h \<Rightarrow> Inr h)"
    for m by (rule resolve_register_self [OF reg]) (simp add: GreetService_descriptor_def)
  have "RegisterGreetServiceHandler srv GreetTripleServerGroup1Version1 ''g1'' ''v1'' =
          Inr (main_server\<lparr>srv_services := ?r\<rparr>)"
    by (simp add: srv RegisterGreetServiceHandler_def reg)
  moreover have "resolve ?r ''greet.GreetService'' ''g1'' ''v1'' ''Greet'' = Inr (GM_Greet (Unary Greet_g1v1))"
    unfolding new by (simp add: GreetService_descriptor_def GreetTripleServerGroup1Version1_def)
  moreover have "resolve ?r ''greet.GreetService'' ''g1'' ''v1'' ''GreetStream'' =
                   Inr (GM_GreetStream (BidiStream GreetStream_g1v1))"
    unfolding new by (simp add: GreetService_descriptor_def GreetTripleServerGroup1Version1_def)
  ultimately show ?thesis
    using keep srv by (intro exI [of _ "main_server\<lparr>srv_services := ?r\<rparr>"]) simp
qed

theorem group_version_routing_witness:
  "\<exists>srv2. RegisterGreetServiceHandler main_server GreetTripleServerGroup1Version1 ''g1'' ''v1'' = Inr srv2 \<and>
     resolve (srv_services srv2) ''greet.GreetService'' ''g1'' ''v1'' ''Greet'' = Inr (GM_Greet (Unary Greet_g1v1))"
  using group_version_routing [OF main_eq] by blast

text \<open>
  C20. \<open>GreetTripleServer\<close> refines the greet service of the spec with the empty prefix:
  for every transport, dispatching each of its four methods yields the outcome the
  stream-free contract of that call shape prescribes (one greeting per unary call, one echo
  per message in order, one joined greeting after end-of-stream, five greetings per
  server-streaming call), on every error path as well.
\<close>

theorem GreetTripleServer_refines_spec:
  "fst (dispatch (Unary (h_Greet GreetTripleServer)) t1) = spec_Greet [] t1 \<and>
   fst (dispatch (BidiStream (h_GreetStream GreetTripleServer)) t2) = spec_GreetStream [] t2 \<and>
   fst (dispatch (ClientStream (h_GreetClientStream GreetTripleServer)) t3) = spec_GreetClientStream [] t3 \<and>
   fst (dispatch (ServerStream (h_GreetServerStream GreetTripleServer)) t4) = spec_GreetServerStream [] t4"
proof (intro conjI)
  show "fst (dispatch (Unary (h_Greet GreetTripleServer)) t1) = spec_Greet [] t1"
    by (simp add: GreetTripleServer_def greet_handlers_reference dispatch_unary_contract spec_Greet_def)
  show "fst (dispatch (BidiStream (h_GreetStream GreetTripleServer)) t2) = spec_GreetStream [] t2"
    by (simp add: GreetTripleServer_def greet_handlers_reference dispatch_echo_contract spec_GreetStream_def)
  show "fst (dispatch (ClientStream (h_GreetClientStream GreetTripleServer)) t3) = spec_GreetClientStream [] t3"
    by (simp add: GreetTripleServer_def spec_GreetClientStream_def
          dispatch_collect_contract [OF GreetClientStream_def [unfolded GreetClientStream_loop_collect]])
  show "fst (dispatch (ServerStream (h_GreetServerStream GreetTripleServer)) t4) = spec_GreetServerStream [] t4"
    by (simp add: GreetTripleServer_def greet_handlers_reference dispatch_repeat_contract spec_GreetServerStream_def)
qed

text \<open>
  C21. \<open>GreetTripleServerGroup1Version1\<close> refines the same parameterised service with
  the prefix \<open>GroupVersionIdentifier\<close>: the duplicated handler bodies of the source are
  exactly the spec's one service bound to the \<open>g1v1\<close> identity.
\<close>

theorem GreetTripleServerGroup1Version1_refines_spec:
  "fst (dispatch (Unary (h_Greet GreetTripleServerGroup1Version1)) t1) = spec_Greet GroupVersionIdentifier t1 \<and>
   fst (dispatch (BidiStream (h_GreetStream GreetTripleServerGroup1Version1)) t2) =
     spec_GreetStream GroupVersionIdentifier t2 \<and>
   fst (dispatch (ClientStream (h_GreetClientStream GreetTripleServerGroup1Version1)) t3) =
     spec_GreetClientStream GroupVersionIdentifier t3 \<and>
   fst (dispatch (ServerStream (h_GreetServerStream GreetTripleServerGroup1Version1)) t4) =
     spec_GreetServerStream GroupVersionIdentifier t4"
proof (intro conjI)
  show "fst (dispatch (Unary (h_Greet GreetTripleServerGroup1Version1)) t1) = spec_Greet GroupVersionIdentifier t1"
    by (simp add: GreetTripleServerGroup1Version1_def greet_handlers_reference dispatch_unary_contract
                  spec_Greet_def)
  show "fst (dispatch (BidiStream (h_GreetStream GreetTripleServerGroup1Version1)) t2) =
          spec_GreetStream GroupVersionIdentifier t2"
    by (simp add: GreetTripleServerGroup1Version1_def greet_handlers_reference dispatch_echo_contract
                  spec_GreetStream_def)
  show "fst (dispatch (ClientStream (h_GreetClientStream GreetTripleServerGroup1Version1)) t3) =
          spec_GreetClientStream GroupVersionIdentifier t3"
    by (simp add: GreetTripleServerGroup1Version1_def spec_GreetClientStream_def o_def
          dispatch_collect_contract [OF GreetClientStream_g1v1_def [unfolded GreetClientStream_g1v1_loop_collect]])
  show "fst (dispatch (ServerStream (h_GreetServerStream GreetTripleServerGroup1Version1)) t4) =
          spec_GreetServerStream GroupVersionIdentifier t4"
    by (simp add: GreetTripleServerGroup1Version1_def greet_handlers_reference dispatch_repeat_contract
                  spec_GreetServerStream_def)
qed

end
