(* ===== verification/Serve.thy ===== *)
theory Serve
  imports GreetServer
begin

text \<open>
  \<open>srv.Serve()\<close> of \<open>main\<close> (dubbo-go's accept loop, not in the sources; the model follows
  the spec's data flow and concurrency sections): an inbound call names a service identity and
  a method and carries the client's request payloads (every greet request holds one string);
  the server resolves the method, wraps the payloads in the method's request type, dispatches
  the handler over the call's transport, and reports the outcome and the call's operations
  with their payloads. Each call runs on its own task and shares nothing but the read-only
  registry, so what the network sees of concurrent calls is an interleaving of their logs,
  each operation tagged with its call.
\<close>

subsection \<open>Calls on the wire\<close>

record inbound_call =
  ic_service :: string
  ic_group :: string
  ic_version :: string
  ic_method :: string
  ic_inputs :: "string list"   \<comment> \<open>the payloads of the client's requests, in send order\<close>
  ic_close :: terr             \<comment> \<open>how the client's direction ends\<close>
  ic_accept :: "nat option"    \<comment> \<open>how many responses the client takes\<close>
  ic_error :: terr             \<comment> \<open>the error of a refused send\<close>

datatype wire_event = WRecv string | WRecvFailed terr | WSent string | WSendFailed terr

datatype call_report = Rejected reg_error | Ended "string call_outcome"

fun wire_event_of :: "('i \<Rightarrow> string) \<Rightarrow> ('o \<Rightarrow> string) \<Rightarrow> ('i, 'o) event \<Rightarrow> wire_event" where
  "wire_event_of fi fo (Received m) = WRecv (fi m)"
| "wire_event_of fi fo (RecvFailed e) = WRecvFailed e"
| "wire_event_of fi fo (Sent m) = WSent (fo m)"
| "wire_event_of fi fo (SendFailed e) = WSendFailed e"

text \<open>
  Run a resolved handler: \<open>mk\<close> decodes a payload into the method's request type, \<open>fi\<close> and
  \<open>fo\<close> read the payload of a request and of a response back.
\<close>

definition run_wire ::
  "(string \<Rightarrow> 'i) \<Rightarrow> ('i \<Rightarrow> string) \<Rightarrow> ('o \<Rightarrow> string) \<Rightarrow> ('i, 'o) handler \<Rightarrow> inbound_call \<Rightarrow>
   call_report \<times> wire_event list" where
  "run_wire mk fi fo h c =
     (case dispatch h \<lparr>t_inputs = map mk (ic_inputs c), t_close = ic_close c,
                       t_accept = ic_accept c, t_error = ic_error c\<rparr> of
        (Completed ys, ev) \<Rightarrow> (Ended (Completed (map fo ys)), map (wire_event_of fi fo) ev)
      | (Failed e, ev) \<Rightarrow> (Ended (Failed e), map (wire_event_of fi fo) ev))"

text \<open>One call: resolution, then the dispatch of the resolved handler at its message types.\<close>

definition serve_call :: "Server \<Rightarrow> inbound_call \<Rightarrow> call_report \<times> wire_event list" where
  "serve_call srv c =
     (case resolve (srv_services srv) (ic_service c) (ic_group c) (ic_version c) (ic_method c) of
        Inl e \<Rightarrow> (Rejected e, [])
      | Inr (GM_Greet h) \<Rightarrow>
          run_wire GreetRequest GreetRequest_Name GreetResponse_Greeting h c
      | Inr (GM_GreetStream h) \<Rightarrow>
          run_wire GreetStreamRequest GreetStreamRequest_Name GreetStreamResponse_Greeting h c
      | Inr (GM_GreetClientStream h) \<Rightarrow>
          run_wire GreetClientStreamRequest GreetClientStreamRequest_Name GreetClientStreamResponse_Greeting h c
      | Inr (GM_GreetServerStream h) \<Rightarrow>
          run_wire GreetServerStreamRequest GreetServerStreamRequest_Name GreetServerStreamResponse_Greeting h c)"

subsection \<open>Concurrent calls\<close>

text \<open>
  A trace of the network is an interleaving of the calls' logs when every tagged operation is
  the next pending operation of its call and, at the end, every log is used up.
\<close>

fun interleaves :: "'e list list \<Rightarrow> (nat \<times> 'e) list \<Rightarrow> bool" where
  "interleaves ls [] \<longleftrightarrow> (\<forall>l \<in> set ls. l = [])"
| "interleaves ls ((i, e) # tr) \<longleftrightarrow>
     i < length ls \<and> ls ! i \<noteq> [] \<and> hd (ls ! i) = e \<and> interleaves (ls[i := tl (ls ! i)]) tr"

definition call_view :: "nat \<Rightarrow> (nat \<times> 'e) list \<Rightarrow> 'e list" where
  "call_view i tr = map snd (filter (\<lambda>(j, e). j = i) tr)"

subsection \<open>Lemmas\<close>

lemma interleaves_call_view:
  "interleaves ls tr \<Longrightarrow> i < length ls \<Longrightarrow> call_view i tr = ls ! i"
proof (induction tr arbitrary: ls)
  case Nil
  then show ?case by (simp add: call_view_def) (metis nth_mem)
next
  case (Cons je tr)
  obtain j e where je: "je = (j, e)" by fastforce
  with Cons.prems have j: "j < length ls" "ls ! j \<noteq> []" "hd (ls ! j) = e"
    and tr: "interleaves (ls[j := tl (ls ! j)]) tr" by auto
  from Cons.IH [OF tr] Cons.prems(2)
  have IH: "call_view i tr = ls[j := tl (ls ! j)] ! i" by simp
  show ?case
  proof (cases "j = i")
    case True
    with IH j je show ?thesis by (simp add: call_view_def) (metis list.collapse)
  next
    case False
    with IH je show ?thesis by (simp add: call_view_def)
  qed
qed

lemma wire_echo_log:
  "map (wire_event_of fi fo) (echo_log f (map mk xs)) =
     concat (map (\<lambda>x. [WRecv (fi (mk x)), WSent (fo (f (mk x)))]) xs)"
  by (induction xs) simp_all

lemma run_wire_echo:
  "accepts (ic_accept c) (length (ic_inputs c)) \<Longrightarrow>
   snd (run_wire mk fi fo (BidiStream (bidi_echo f)) c) =
     concat (map (\<lambda>x. [WRecv (fi (mk x)), WSent (fo (f (mk x)))]) (ic_inputs c)) @
     [WRecvFailed (ic_close c)]"
  by (simp add: run_wire_def dispatch_BidiStream bidi_echo_complete stream_of_def new_stream_def
                wire_echo_log split: call_outcome.split)

lemma resolve_main_NotFound:
  "\<not> (n = ''greet.GreetService'' \<and> g = [] \<and> v = [] \<and>
      m \<in> {''Greet'', ''GreetStream'', ''GreetClientStream'', ''GreetServerStream''}) \<Longrightarrow>
   resolve (srv_services main_server) n g v m = Inl NotFound"
  by (auto simp: resolve_main GreetService_descriptor_def)

subsection \<open>Properties of concurrent calls\<close>

text \<open>
  C30. A call that \<open>main\<close>'s server cannot resolve (another service identity, a group or
  version, or a method the greet service does not have) is rejected with \<open>NotFound\<close> and,
  however the network interleaves the calls, no operation of it appears on any stream: the
  dispatcher never opens its stream.
\<close>

theorem main_unresolved_call_silent:
  assumes "main = Serving srv"
    and "interleaves (map (\<lambda>c. snd (serve_call srv c)) cs) tr"
    and "i < length cs"
    and "\<not> (ic_service (cs ! i) = ''greet.GreetService'' \<and> ic_group (cs ! i) = [] \<and> ic_version (cs ! i) = [] \<and>
            ic_method (cs ! i) \<in> {''Greet'', ''GreetStream'', ''GreetClientStream'', ''GreetServerStream''})"
  shows "fst (serve_call srv (cs ! i)) = Rejected NotFound \<and> call_view i tr = []"
proof -
  from assms(1) have srv: "srv = main_server" by (rule main_Serving)
  have rejected: "serve_call srv (cs ! i) = (Rejected NotFound, [])"
    using srv assms(4) by (simp add: serve_call_def resolve_main_NotFound)
  have "call_view i tr = snd (serve_call srv (cs ! i))"
    using interleaves_call_view [OF assms(2)] assms(3) by simp
  with rejected show ?thesis by simp
qed

theorem main_unresolved_call_silent_witness:
  "fst (serve_call main_server
      \<lparr>ic_service = ''greet.GreetService'', ic_group = [], ic_version = [], ic_method = ''Hello'',
       ic_inputs = [''b''], ic_close = ErrEnded, ic_accept = None, ic_error = ErrCanceled\<rparr>) = Rejected NotFound \<and>
   call_view 1 [(0, WRecv ''a''), (0, WSent ''a'')] = []"
  using main_unresolved_call_silent [OF main_eq,
          of "[\<lparr>ic_service = ''greet.GreetService'', ic_group = [], ic_version = [], ic_method = ''Greet'',
                ic_inputs = [''a''], ic_close = ErrEnded, ic_accept = None, ic_error = ErrCanceled\<rparr>,
               \<lparr>ic_service = ''greet.GreetService'', ic_group = [], ic_version = [], ic_method = ''Hello'',
                ic_inputs = [''b''], ic_close = ErrEnded, ic_accept = None, ic_error = ErrCanceled\<rparr>]"
             "[(0, WRecv ''a''), (0, WSent ''a'')]" 1]
  by (simp add: serve_call_def greet_handlers_reference run_wire_def dispatch_Unary resolve_main_NotFound)

end
