(* ===== verification/JsonLex.thy ===== *)
theory JsonLex
  imports Prelude
begin

text \<open>
  JSON strings as Go's \<open>encoding/json\<close> writes and reads them (Go 1.22 or later), on the
  byte strings of Go. Writing (\<open>appendString\<close> with HTML escaping, what \<open>json.Marshal\<close>
  does): \<open>"\<close> and \<open>\\\<close> are backslash-escaped, \<open>\b \f \n \r \t\<close> get their short
  escapes, the other control bytes and \<open><\<close>, \<open>>\<close>, \<open>&\<close> become \<open>\u00XX\<close> with lower-case hex
  digits, U+2028 and U+2029 become \<open>\u2028\<close> and \<open>\u2029\<close>, and every other byte is copied.
  Reading (the scanner's escape states and the decoder's \<open>unquote\<close>): the short escapes and
  \<open>\/\<close> (the scanner refuses \<open>\'\<close>, which \<open>unquote\<close> alone would accept), and
  \<open>\uXXXX\<close> with the code point written back in UTF-8: a high surrogate followed by a
  \<open>\uXXXX\<close> low surrogate is one code point (\<open>utf16.DecodeRune\<close>), any other surrogate
  becomes U+FFFD; a raw control byte is a syntax error. Outside the model: strings that are
  not valid UTF-8 (Go writes and reads U+FFFD for a bad byte; here it is copied). Every
  string of the sources is valid UTF-8. The lexers of numbers
  (\<open>-?(0|[1-9][0-9]*)(.[0-9]+)?([eE][+-]?[0-9]+)?\<close>), of the literals and of an object's
  key with its colon, with the lemmas that each consumes input, serve the scanner of
  \<open>JsonScan\<close>.
\<close>

subsection \<open>Writing\<close>

definition hexdig :: "nat \<Rightarrow> char" where
  "hexdig n = (if n < 10 then char_of (48 + n) else char_of (87 + n))"

definition escape_byte :: "char \<Rightarrow> string" where
  "escape_byte c =
     (if c = CHR 0x22 then [CHR 0x5C, CHR 0x22]
      else if c = CHR 0x5C then [CHR 0x5C, CHR 0x5C]
      else if c = CHR 0x08 then [CHR 0x5C, CHR ''b'']
      else if c = CHR 0x0C then [CHR 0x5C, CHR ''f'']
      else if c = CHR 0x0A then [CHR 0x5C, CHR ''n'']
      else if c = CHR 0x0D then [CHR 0x5C, CHR ''r'']
      else if c = CHR 0x09 then [CHR 0x5C, CHR ''t'']
      else if of_char c < (0x20::nat) \<or> c = CHR ''<'' \<or> c = CHR ''>'' \<or> c = CHR ''&'' then
        [CHR 0x5C, CHR ''u'', CHR ''0'', CHR ''0'', hexdig (of_char c div 16), hexdig (of_char c mod 16)]
      else [c])"

fun json_escape :: "string \<Rightarrow> string" where
  "json_escape [] = []"
| "json_escape (c # cs) =
     (if c = CHR 0xE2 \<and> take 2 cs = [CHR 0x80, CHR 0xA8] then [CHR 0x5C] @ ''u2028'' @ json_escape (drop 2 cs)
      else if c = CHR 0xE2 \<and> take 2 cs = [CHR 0x80, CHR 0xA9] then [CHR 0x5C] @ ''u2029'' @ json_escape (drop 2 cs)
      else escape_byte c @ json_escape cs)"

definition json_string :: "string \<Rightarrow> string" where
  "json_string s = CHR 0x22 # json_escape s @ [CHR 0x22]"

subsection \<open>Reading\<close>

definition hexval :: "char \<Rightarrow> nat option" where
  "hexval c =
     (let n = of_char c in
      if 48 \<le> n \<and> n \<le> 57 then Some (n - 48)
      else if 97 \<le> n \<and> n \<le> 102 then Some (n - 87)
      else if 65 \<le> n \<and> n \<le> 70 then Some (n - 55)
      else None)"

definition hex4 :: "string \<Rightarrow> nat option" where
  "hex4 s =
     (if length s < 4 then None
      else (case (hexval (s ! 0), hexval (s ! 1), hexval (s ! 2), hexval (s ! 3)) of
              (Some a, Some b, Some c, Some d) \<Rightarrow> Some (((a * 16 + b) * 16 + c) * 16 + d)
            | _ \<Rightarrow> None))"

text \<open>A code point in UTF-8 (\<open>utf8.EncodeRune\<close>).\<close>

definition utf8_encode :: "nat \<Rightarrow> string" where
  "utf8_encode n =
     (if n < 0x80 then [char_of n]
      else if n < 0x800 then [char_of (0xC0 + n div 64), char_of (0x80 + n mod 64)]
      else if n < 0x10000 then
        [char_of (0xE0 + n div 4096), char_of (0x80 + (n div 64) mod 64), char_of (0x80 + n mod 64)]
      else [char_of (0xF0 + n div 262144), char_of (0x80 + (n div 4096) mod 64),
            char_of (0x80 + (n div 64) mod 64), char_of (0x80 + n mod 64)])"

text \<open>
  The decoder's \<open>getu4\<close> on what follows a \<open>\uXXXX\<close> escape: the code unit of a second
  \<open>\uXXXX\<close>, if there is one.
\<close>

definition next_u4 :: "string \<Rightarrow> nat option" where
  "next_u4 s = (case s of b # u # r \<Rightarrow> if b = CHR 0x5C \<and> u = CHR ''u'' then hex4 r else None | _ \<Rightarrow> None)"

definition short_escape :: "char \<Rightarrow> char option" where
  "short_escape e =
     (if e = CHR 0x22 \<or> e = CHR 0x5C \<or> e = CHR ''/'' then Some e
      else if e = CHR ''b'' then Some (CHR 0x08)
      else if e = CHR ''f'' then Some (CHR 0x0C)
      else if e = CHR ''n'' then Some (CHR 0x0A)
      else if e = CHR ''r'' then Some (CHR 0x0D)
      else if e = CHR ''t'' then Some (CHR 0x09)
      else None)"

text \<open>
  The body of a string literal after its opening quote: the decoded bytes and the input after
  the closing quote, or \<open>None\<close> for a syntax error.
\<close>

function parse_str :: "string \<Rightarrow> string \<Rightarrow> (string \<times> string) option" where
  "parse_str acc [] = None"
| "parse_str acc (c # cs) =
     (if c = CHR 0x22 then Some (acc, cs)
      else if c = CHR 0x5C then
        (case cs of
           [] \<Rightarrow> None
         | e # cs' \<Rightarrow>
             (case short_escape e of
                Some b \<Rightarrow> parse_str (acc @ [b]) cs'
              | None \<Rightarrow>
                  if e = CHR ''u'' then
                    (case hex4 cs' of
                       None \<Rightarrow> None
                     | Some n \<Rightarrow>
                         if 0xD800 \<le> n \<and> n < 0xE000 then
                           (case next_u4 (drop 4 cs') of
                              Some m \<Rightarrow>
                                if n < 0xDC00 \<and> 0xDC00 \<le> m \<and> m < 0xE000 then
                                  parse_str (acc @ utf8_encode (0x10000 + (n - 0xD800) * 0x400 + (m - 0xDC00)))
                                    (drop 10 cs')
                                else parse_str (acc @ utf8_encode 0xFFFD) (drop 4 cs')
                            | None \<Rightarrow> parse_str (acc @ utf8_encode 0xFFFD) (drop 4 cs'))
                         else parse_str (acc @ utf8_encode n) (drop 4 cs'))
                  else None))
      else if of_char c < (0x20::nat) then None
      else parse_str (acc @ [c]) cs)"
  by pat_completeness auto
termination
  by (relation "measure (\<lambda>(acc, s). length s)") auto

definition is_ws :: "char \<Rightarrow> bool" where
  "is_ws c \<longleftrightarrow> c = CHR 0x20 \<or> c = CHR 0x09 \<or> c = CHR 0x0A \<or> c = CHR 0x0D"

definition skip_ws :: "string \<Rightarrow> string" where
  "skip_ws s = dropWhile is_ws s"

subsection \<open>Numbers and literals\<close>

definition is_digit :: "char \<Rightarrow> bool" where
  "is_digit c \<longleftrightarrow> c \<in> set ''0123456789''"

text \<open>At least one digit, then the input after the digits.\<close>

definition lex_digits :: "string \<Rightarrow> string option" where
  "lex_digits s = (case s of d # _ \<Rightarrow> if is_digit d then Some (dropWhile is_digit s) else None | [] \<Rightarrow> None)"

text \<open>The optional fraction and exponent of a number.\<close>

definition lex_frac_exp :: "string \<Rightarrow> string option" where
  "lex_frac_exp s =
     (case (case s of c # t \<Rightarrow> if c = CHR ''.'' then lex_digits t else Some s | [] \<Rightarrow> Some s) of
        None \<Rightarrow> None
      | Some r \<Rightarrow>
          (case r of
             e # t \<Rightarrow>
               if e = CHR ''e'' \<or> e = CHR ''E'' then
                 lex_digits (case t of g # u \<Rightarrow> if g = CHR ''+'' \<or> g = CHR ''-'' then u else t | [] \<Rightarrow> [])
               else Some r
           | [] \<Rightarrow> Some r))"

text \<open>
  A number, \<open>-?(0|[1-9][0-9]*)(\.[0-9]+)?([eE][+-]?[0-9]+)?\<close>: after a leading \<open>0\<close> no
  digit may follow (the next byte is left to the caller, which refuses a digit there).
\<close>

definition lex_number :: "string \<Rightarrow> string option" where
  "lex_number s =
     (case (case s of c # t \<Rightarrow> if c = CHR ''-'' then t else s | [] \<Rightarrow> []) of
        [] \<Rightarrow> None
      | c # t \<Rightarrow>
          if c = CHR ''0'' then lex_frac_exp t
          else if is_digit c then lex_frac_exp (dropWhile is_digit t)
          else None)"

definition lex_lit :: "string \<Rightarrow> string \<Rightarrow> string option" where
  "lex_lit w s = (if take (length w) s = w then Some (drop (length w) s) else None)"

text \<open>An object key and the colon after it: the key's bytes and the input after the colon.\<close>

definition obj_key :: "string \<Rightarrow> (string \<times> string) option" where
  "obj_key s =
     (case skip_ws s of
        c # r \<Rightarrow>
          if c \<noteq> CHR 0x22 then None
          else (case parse_str [] r of
                  None \<Rightarrow> None
                | Some (k, r1) \<Rightarrow> (case skip_ws r1 of
                                     d # r2 \<Rightarrow> if d = CHR '':'' then Some (k, r2) else None
                                   | [] \<Rightarrow> None))
      | [] \<Rightarrow> None)"

subsection \<open>Writing then reading a string\<close>

lemma hexval_hexdig: "n < 16 \<Longrightarrow> hexval (hexdig n) = Some n"
  by (auto simp: hexval_def hexdig_def Let_def)

lemma utf8_encode_ascii: "n < 0x80 \<Longrightarrow> utf8_encode n = [char_of n]"
  by (simp add: utf8_encode_def)

lemma utf8_encode_2028: "utf8_encode 0x2028 = [CHR 0xE2, CHR 0x80, CHR 0xA8]"
  using char_of_char [of "CHR 0xE2"] char_of_char [of "CHR 0x80"] char_of_char [of "CHR 0xA8"]
  by (simp add: utf8_encode_def)

lemma utf8_encode_2029: "utf8_encode 0x2029 = [CHR 0xE2, CHR 0x80, CHR 0xA9]"
  using char_of_char [of "CHR 0xE2"] char_of_char [of "CHR 0x80"] char_of_char [of "CHR 0xA9"]
  by (simp add: utf8_encode_def)

lemma parse_str_u00:
  "n < 0x80 \<Longrightarrow>
   parse_str acc (CHR 0x5C # CHR ''u'' # CHR ''0'' # CHR ''0'' # hexdig (n div 16) # hexdig (n mod 16) # r) =
   parse_str (acc @ [char_of n]) r"
proof -
  assume n: "n < 0x80"
  then have "n div 16 < 16" by simp
  moreover have "hexval (CHR ''0'') = Some 0" by (simp add: hexval_def)
  ultimately have "hex4 (CHR ''0'' # CHR ''0'' # hexdig (n div 16) # hexdig (n mod 16) # r) = Some n"
    by (simp add: hex4_def hexval_hexdig)
  with n show ?thesis by (simp add: short_escape_def utf8_encode_ascii)
qed

lemma parse_str_escape_byte:
  "parse_str acc (escape_byte c @ r) = parse_str (acc @ [c]) r"
proof (cases "c = CHR 0x22 \<or> c = CHR 0x5C \<or> c = CHR 0x08 \<or> c = CHR 0x0C \<or> c = CHR 0x0A \<or>
              c = CHR 0x0D \<or> c = CHR 0x09")
  case True
  then show ?thesis by (auto simp: escape_byte_def short_escape_def)
next
  case other: False
  show ?thesis
  proof (cases "of_char c < (0x20::nat) \<or> c = CHR ''<'' \<or> c = CHR ''>'' \<or> c = CHR ''&''")
    case True
    then have "of_char c < (0x80::nat)" by auto
    from parse_str_u00 [OF this, of acc r] True other show ?thesis
      by (simp add: escape_byte_def)
  next
    case False
    with other show ?thesis by (simp add: escape_byte_def)
  qed
qed

lemma take2_eq: "take 2 cs = [a, b] \<Longrightarrow> cs = a # b # drop 2 cs"
  by (cases cs rule: remdups_adj.cases) auto

text \<open>Reading back what was written: the string, and the input after its closing quote.\<close>

lemma parse_str_json_escape:
  "parse_str acc (json_escape s @ CHR 0x22 # r) = Some (acc @ s, r)"
proof (induction s arbitrary: acc rule: json_escape.induct)
  case 1
  then show ?case by simp
next
  case (2 c cs)
  have u: "hex4 (''2028'' @ r') = Some 0x2028" "hex4 (''2029'' @ r') = Some 0x2029" for r'
    by (simp_all add: hex4_def hexval_def)
  show ?case
  proof (cases "c = CHR 0xE2 \<and> take 2 cs = [CHR 0x80, CHR 0xA8]")
    case True
    then have "cs = CHR 0x80 # CHR 0xA8 # drop 2 cs" by (auto intro: take2_eq)
    with True "2.IH"(1) [of "acc @ [CHR 0xE2, CHR 0x80, CHR 0xA8]"] u show ?thesis
      by (simp add: short_escape_def utf8_encode_2028)
  next
    case n1: False
    show ?thesis
    proof (cases "c = CHR 0xE2 \<and> take 2 cs = [CHR 0x80, CHR 0xA9]")
      case True
      then have "cs = CHR 0x80 # CHR 0xA9 # drop 2 cs" by (auto intro: take2_eq)
      with True n1 "2.IH"(2) [of "acc @ [CHR 0xE2, CHR 0x80, CHR 0xA9]"] u show ?thesis
        by (simp add: short_escape_def utf8_encode_2029)
    next
      case False
      have "json_escape (c # cs) = escape_byte c @ json_escape cs"
        unfolding json_escape.simps(2) if_not_P [OF n1] if_not_P [OF False] ..
      with n1 False "2.IH"(3) show ?thesis
        by (simp del: json_escape.simps add: parse_str_escape_byte)
    qed
  qed
qed

subsection \<open>What the readers consume\<close>

lemma parse_str_step:
  "parse_str acc s = Some (x, r) \<Longrightarrow>
   length r < length s \<or> (\<exists>acc' t. parse_str acc' t = Some (x, r) \<and> length t < length s)"
proof (cases s)
  case (Cons c cs)
  assume p: "parse_str acc s = Some (x, r)"
  show ?thesis
  proof (cases "c = CHR 0x22 \<or> c \<noteq> CHR 0x5C")
    case True
    with p Cons show ?thesis by (auto split: if_splits)
  next
    case False
    with p Cons show ?thesis
      by (auto split: if_splits list.splits option.splits) fastforce+
  qed
qed simp

lemma parse_str_shorter: "parse_str acc s = Some (x, r) \<Longrightarrow> length r < length s"
proof (induction "length s" arbitrary: acc s rule: less_induct)
  case less
  from parse_str_step [OF less.prems] show ?case
    using less.hyps by (meson less_trans)
qed

lemma skip_ws_Cons_shorter: "skip_ws s = c # r \<Longrightarrow> length r < length s"
proof -
  assume "skip_ws s = c # r"
  moreover have "length (dropWhile is_ws s) \<le> length s" by (rule length_dropWhile_le)
  ultimately show ?thesis by (simp add: skip_ws_def)
qed

lemma skip_ws_non_ws [simp]: "\<not> is_ws c \<Longrightarrow> skip_ws (c # s) = c # s"
  by (simp add: skip_ws_def)

lemma skip_ws_Nil [simp]: "skip_ws [] = []"
  by (simp add: skip_ws_def)

subsection \<open>What the lexers consume\<close>

lemma length_skip_ws_le: "length (skip_ws s) \<le> length s"
  by (simp add: skip_ws_def length_dropWhile_le)

lemma lex_digits_shorter: "lex_digits s = Some r \<Longrightarrow> length r < length s"
  by (auto simp: lex_digits_def split: list.splits if_splits intro: le_less_trans [OF length_dropWhile_le])

lemma lex_frac_exp_le: "lex_frac_exp s = Some r \<Longrightarrow> length r \<le> length s"
  by (auto simp: lex_frac_exp_def split: list.splits if_splits option.splits
           dest!: lex_digits_shorter)

lemma lex_number_shorter: "lex_number s = Some r \<Longrightarrow> length r < length s"
proof -
  have "length (dropWhile is_digit t) \<le> length t" for t by (rule length_dropWhile_le)
  then show "lex_number s = Some r \<Longrightarrow> length r < length s"
    by (fastforce simp: lex_number_def split: list.splits if_splits dest!: lex_frac_exp_le
                  intro: le_less_trans)
qed

lemma lex_lit_le: "lex_lit w s = Some r \<Longrightarrow> length r \<le> length s"
  by (auto simp: lex_lit_def split: if_splits)

lemma obj_key_shorter: "obj_key s = Some (k, r) \<Longrightarrow> length r < length s"
  by (auto simp: obj_key_def split: list.splits if_splits option.splits
           dest!: skip_ws_Cons_shorter parse_str_shorter)

end
