(* ===== verification/JsonScan.thy ===== *)
theory JsonScan
  imports JsonLex
begin

text \<open>
  JSON values of every kind, as Go's \<open>encoding/json\<close> reads them: the scanner that checks a
  whole input before anything is decoded (\<open>checkValid\<close>, a state machine over a stack of
  open arrays and objects, here the mutually recursive \<open>scan_value\<close>/\<open>scan_after\<close>,
  terminating because every step consumes input), and the kind of a value at the start of
  the input (\<open>value_kind\<close>, with the bytes of a string), which the decoder of
  \<open>JsonValue\<close> reads members with. The lemmas show that both consume input.
\<close>

subsection \<open>The scanner\<close>

datatype ctx = InArray | InObject

text \<open>
  \<open>scan_value stk s\<close> reads one value at the start of \<open>s\<close> inside the open containers
  \<open>stk\<close> (innermost first); \<open>scan_after stk s\<close> continues after a complete value: with no
  open container the value is done and the rest is returned, otherwise a comma starts the next
  element or member and a closing bracket of the right kind closes the innermost container.
\<close>

function scan_value :: "ctx list \<Rightarrow> string \<Rightarrow> string option"
  and scan_after :: "ctx list \<Rightarrow> string \<Rightarrow> string option" where
  "scan_value stk s =
     (case skip_ws s of
        [] \<Rightarrow> None
      | c # r \<Rightarrow>
          if c = CHR 0x22 then
            (case parse_str [] r of None \<Rightarrow> None | Some (_, r1) \<Rightarrow> scan_after stk r1)
          else if c = CHR ''{'' then
            (case skip_ws r of
               [] \<Rightarrow> None
             | d # r1 \<Rightarrow>
                 if d = CHR ''}'' then scan_after stk r1
                 else (case obj_key r of None \<Rightarrow> None | Some (_, r2) \<Rightarrow> scan_value (InObject # stk) r2))
          else if c = CHR ''['' then
            (case skip_ws r of
               [] \<Rightarrow> None
             | d # r1 \<Rightarrow> if d = CHR '']'' then scan_after stk r1 else scan_value (InArray # stk) r)
          else if c = CHR ''t'' then
            (case lex_lit ''rue'' r of None \<Rightarrow> None | Some r1 \<Rightarrow> scan_after stk r1)
          else if c = CHR ''f'' then
            (case lex_lit ''alse'' r of None \<Rightarrow> None | Some r1 \<Rightarrow> scan_after stk r1)
          else if c = CHR ''n'' then
            (case lex_lit ''ull'' r of None \<Rightarrow> None | Some r1 \<Rightarrow> scan_after stk r1)
          else
            (case lex_number (c # r) of None \<Rightarrow> None | Some r1 \<Rightarrow> scan_after stk r1))"
| "scan_after [] s = Some s"
| "scan_after (k # stk) s =
     (case skip_ws s of
        [] \<Rightarrow> None
      | c # r \<Rightarrow>
          if c = CHR '','' then
            (if k = InArray then scan_value (k # stk) r
             else (case obj_key r of None \<Rightarrow> None | Some (_, r1) \<Rightarrow> scan_value (k # stk) r1))
          else if c = CHR '']'' \<and> k = InArray then scan_after stk r
          else if c = CHR ''}'' \<and> k = InObject then scan_after stk r
          else None)"
  by pat_completeness auto

termination
  by (relation "measure (\<lambda>x. case x of Inl (stk, s) \<Rightarrow> length s | Inr (stk, s) \<Rightarrow> length s)")
     (auto dest!: skip_ws_Cons_shorter parse_str_shorter obj_key_shorter lex_number_shorter lex_lit_le)

subsection \<open>Kinds of values\<close>

datatype jkind = KString string | KNumber | KBool | KNull | KObject | KArray

text \<open>The word \<open>UnmarshalTypeError\<close> uses for a value of that kind.\<close>

fun kind_name :: "jkind \<Rightarrow> string" where
  "kind_name (KString s) = ''string''"
| "kind_name KNumber = ''number''"
| "kind_name KBool = ''bool''"
| "kind_name KNull = ''null''"
| "kind_name KObject = ''object''"
| "kind_name KArray = ''array''"

text \<open>The kind of a value other than a string, from its first byte.\<close>

definition lead_kind :: "char \<Rightarrow> jkind" where
  "lead_kind c =
     (if c = CHR ''{'' then KObject else if c = CHR ''['' then KArray
      else if c = CHR ''t'' \<or> c = CHR ''f'' then KBool else if c = CHR ''n'' then KNull else KNumber)"

definition value_kind :: "string \<Rightarrow> (jkind \<times> string) option" where
  "value_kind s =
     (case skip_ws s of
        [] \<Rightarrow> None
      | c # r \<Rightarrow>
          if c = CHR 0x22 then
            (case parse_str [] r of None \<Rightarrow> None | Some (v, r1) \<Rightarrow> Some (KString v, r1))
          else (case scan_value [] s of None \<Rightarrow> None | Some r1 \<Rightarrow> Some (lead_kind c, r1)))"

declare scan_value.simps [simp del]

subsection \<open>The scanner consumes input\<close>

lemma scan_value_step:
  "scan_value stk s = Some r \<Longrightarrow>
   \<exists>t stk'. (scan_after stk' t = Some r \<or> scan_value stk' t = Some r) \<and> length t < length s"
  apply (subst (asm) scan_value.simps)
  apply (cases "skip_ws s")
   apply simp
  apply (frule skip_ws_Cons_shorter)
  apply (simp split: if_splits option.splits prod.splits list.splits)
           apply (fastforce dest: parse_str_shorter obj_key_shorter skip_ws_Cons_shorter lex_lit_le
                                  lex_number_shorter)+
  done

lemma scan_after_step:
  "scan_after (k # stk) s = Some r \<Longrightarrow>
   \<exists>t stk'. (scan_after stk' t = Some r \<or> scan_value stk' t = Some r) \<and> length t < length s"
  apply (cases "skip_ws s")
   apply simp
  apply (frule skip_ws_Cons_shorter)
  apply (simp split: if_splits option.splits prod.splits list.splits)
     apply (fastforce dest: obj_key_shorter)+
  done

lemma scan_shorter:
  "(scan_value stk s = Some r \<longrightarrow> length r < length s) \<and>
   (scan_after stk s = Some r \<longrightarrow> length r \<le> length s)"
proof (induction "length s" arbitrary: stk s r rule: less_induct)
  case less
  have step: "length r < length s"
    if "scan_after stk' t = Some r \<or> scan_value stk' t = Some r" "length t < length s" for stk' t
    using that less.hyps [OF that(2), of stk' r] by auto
  show ?case
  proof (intro conjI impI)
    assume "scan_value stk s = Some r"
    then show "length r < length s" using scan_value_step step by blast
  next
    assume a: "scan_after stk s = Some r"
    show "length r \<le> length s"
    proof (cases stk)
      case Nil
      with a show ?thesis by simp
    next
      case (Cons k stk')
      with a show ?thesis using scan_after_step step by (meson less_imp_le)
    qed
  qed
qed

lemma scan_value_shorter: "scan_value stk s = Some r \<Longrightarrow> length r < length s"
  using scan_shorter by blast

lemma value_kind_shorter: "value_kind s = Some (k, r) \<Longrightarrow> length r < length s"
  by (auto simp: value_kind_def split: list.splits if_splits option.splits prod.splits
           dest!: skip_ws_Cons_shorter parse_str_shorter scan_value_shorter)

end
