(* ===== verification/JsonObject.thy ===== *)
theory JsonObject
  imports JsonLex
begin

text \<open>
  JSON objects whose members are all strings: the reader (\<open>parse_members\<close>,
  \<open>parse_object\<close>, \<open>json_decode_object\<close> for a whole input) and the writer
  (\<open>json_object\<close>, members in the given order, as \<open>json.Marshal\<close> writes them), with the
  lemma that the reader gives back what the writer wrote and that every reader consumes input.
\<close>

subsection \<open>Objects\<close>

function parse_members ::
  "(string \<times> string) list \<Rightarrow> string \<Rightarrow> ((string \<times> string) list \<times> string) option" where
  "parse_members acc s =
     (case skip_ws s of
        [] \<Rightarrow> None
      | c # r \<Rightarrow>
          if c \<noteq> CHR 0x22 then None else
          (case parse_str [] r of
             None \<Rightarrow> None
           | Some (k, r1) \<Rightarrow>
               (case skip_ws r1 of
                  [] \<Rightarrow> None
                | d # r2 \<Rightarrow>
                    if d \<noteq> CHR '':'' then None else
                    (case skip_ws r2 of
                       [] \<Rightarrow> None
                     | e # r3 \<Rightarrow>
                         if e \<noteq> CHR 0x22 then None else
                         (case parse_str [] r3 of
                            None \<Rightarrow> None
                          | Some (v, r4) \<Rightarrow>
                              (case skip_ws r4 of
                                 [] \<Rightarrow> None
                               | f # r5 \<Rightarrow>
                                   if f = CHR '','' then parse_members (acc @ [(k, v)]) r5
                                   else if f = CHR ''}'' then Some (acc @ [(k, v)], r5)
                                   else None))))))"
  by pat_completeness auto
termination
  by (relation "measure (\<lambda>(acc, s). length s)")
     (auto dest!: skip_ws_Cons_shorter parse_str_shorter)

declare parse_members.simps [simp del]

definition parse_object :: "string \<Rightarrow> ((string \<times> string) list \<times> string) option" where
  "parse_object s =
     (case skip_ws s of
        c # r \<Rightarrow>
          if c \<noteq> CHR ''{'' then None
          else (case skip_ws r of
                  d # r' \<Rightarrow> if d = CHR ''}'' then Some ([], r') else parse_members [] r
                | [] \<Rightarrow> None)
      | [] \<Rightarrow> None)"

text \<open>A whole input that is one object, white space around it allowed (\<open>checkValid\<close>).\<close>

definition json_decode_object :: "string \<Rightarrow> (string \<times> string) list option" where
  "json_decode_object s =
     (case parse_object s of
        Some (kvs, r) \<Rightarrow> if skip_ws r = [] then Some kvs else None
      | None \<Rightarrow> None)"

definition json_member :: "string \<times> string \<Rightarrow> string" where
  "json_member kv = json_string (fst kv) @ '':'' @ json_string (snd kv)"

definition json_object :: "(string \<times> string) list \<Rightarrow> string" where
  "json_object kvs = ''{'' @ Join (map json_member kvs) '','' @ ''}''"

subsection \<open>Reading back what was written\<close>

lemma parse_str_json_string:
  "parse_str [] (json_escape k @ CHR 0x22 # r) = Some (k, r)"
  using parse_str_json_escape [of "[]" k r] by simp

lemma json_member_eq:
  "json_member kv = CHR 0x22 # json_escape (fst kv) @ CHR 0x22 # CHR '':'' # CHR 0x22 # json_escape (snd kv) @ [CHR 0x22]"
  by (simp add: json_member_def json_string_def)

lemma parse_members_member_last:
  "parse_members acc (json_member kv @ CHR ''}'' # r) = Some (acc @ [kv], r)"
  by (subst parse_members.simps) (simp add: json_member_eq is_ws_def parse_str_json_string)

lemma parse_members_member_next:
  "parse_members acc (json_member kv @ CHR '','' # r) = parse_members (acc @ [kv]) r"
  by (subst parse_members.simps) (simp add: json_member_eq is_ws_def parse_str_json_string)

lemma parse_members_json:
  "parse_members acc (Join (map json_member (kv # kvs)) '','' @ ''}'' @ r) = Some (acc @ kv # kvs, r)"
proof (induction kvs arbitrary: kv acc)
  case Nil
  show ?case using parse_members_member_last [of acc kv r] by simp
next
  case (Cons kv2 kvs)
  have "Join (map json_member (kv # kv2 # kvs)) '','' @ ''}'' @ r =
          json_member kv @ CHR '','' # (Join (map json_member (kv2 # kvs)) '','' @ ''}'' @ r)"
    by simp
  then show ?case
    by (simp only: parse_members_member_next Cons.IH) simp
qed

lemma Join_Cons_prefix: "\<exists>z. Join (x # xs) sep = x @ z"
  by (cases xs) auto

lemma parse_object_json_object: "parse_object (json_object kvs @ r) = Some (kvs, r)"
proof (cases kvs)
  case Nil
  then show ?thesis by (simp add: parse_object_def json_object_def is_ws_def)
next
  case (Cons kv kvs')
  obtain z where "Join (map json_member (kv # kvs')) '','' = json_member kv @ z"
    using Join_Cons_prefix by (simp only: list.map) blast
  then obtain y where y: "Join (map json_member (kv # kvs')) '','' @ ''}'' @ r = CHR 0x22 # y"
    by (simp add: json_member_def json_string_def)
  then have "parse_members [] (CHR 0x22 # y) = Some (kvs, r)"
    using parse_members_json [of "[]" kv kvs' r] Cons by simp
  moreover have "json_object kvs @ r = CHR ''{'' # CHR 0x22 # y"
    using y Cons by (simp add: json_object_def)
  ultimately show ?thesis
    by (simp add: parse_object_def is_ws_def)
qed

lemma json_decode_json_object: "json_decode_object (json_object kvs) = Some kvs"
  using parse_object_json_object [of kvs "[]"] by (simp add: json_decode_object_def)

subsection \<open>The readers consume input\<close>

lemma parse_members_shorter:
  "parse_members acc s = Some (kvs, r) \<Longrightarrow> length r < length s"
proof (induction "length s" arbitrary: acc s kvs rule: less_induct)
  case less
  from less.prems show ?case
    apply (subst (asm) parse_members.simps)
    apply (auto split: list.splits option.splits if_splits prod.splits
                dest!: skip_ws_Cons_shorter parse_str_shorter)
    apply (frule less.hyps [rotated])
     apply linarith+
    done
qed

lemma parse_object_shorter:
  "parse_object s = Some (kvs, r) \<Longrightarrow> length r < length s"
  by (auto simp: parse_object_def split: list.splits if_splits
           dest!: skip_ws_Cons_shorter parse_members_shorter)

end
