(* ===== verification/JsonValue.thy ===== *)
theory JsonValue
  imports JsonScan JsonObject
begin

text \<open>
  The members of a JSON object with the kinds of their values, as Go's decoder meets them
  when it fills a struct: a string member with its bytes, any other member only with its kind
  (what \<open>UnmarshalTypeError\<close> names). The writer \<open>json_text\<close> prints a \<open>jvalue\<close> of any
  kind the way \<open>json.Marshal\<close> prints the corresponding Go value (integers for numbers). The
  lemmas show that the scanner accepts a written value and stops right after it, and that
  the decoder reads back each member of a written object with the kind of its value.
\<close>

subsection \<open>Objects\<close>

function decode_members ::
  "(string \<times> jkind) list \<Rightarrow> string \<Rightarrow> ((string \<times> jkind) list \<times> string) option" where
  "decode_members acc s =
     (case obj_key s of
        None \<Rightarrow> None
      | Some (k, r) \<Rightarrow>
          (case value_kind r of
             None \<Rightarrow> None
           | Some (v, r1) \<Rightarrow>
               (case skip_ws r1 of
                  [] \<Rightarrow> None
                | f # r2 \<Rightarrow>
                    if f = CHR '','' then decode_members (acc @ [(k, v)]) r2
                    else if f = CHR ''}'' then Some (acc @ [(k, v)], r2)
                    else None)))"
  by pat_completeness auto
termination
  by (relation "measure (\<lambda>(acc, s). length s)")
     (auto dest!: obj_key_shorter skip_ws_Cons_shorter value_kind_shorter)

declare decode_members.simps [simp del]

definition decode_object :: "string \<Rightarrow> ((string \<times> jkind) list \<times> string) option" where
  "decode_object s =
     (case skip_ws s of
        c # r \<Rightarrow>
          if c \<noteq> CHR ''{'' then None
          else (case skip_ws r of
                  d # r' \<Rightarrow> if d = CHR ''}'' then Some ([], r') else decode_members [] r
                | [] \<Rightarrow> None)
      | [] \<Rightarrow> None)"

subsection \<open>Writing values\<close>

datatype jvalue =
    JNull
  | JBool bool
  | JNumber int
  | JString string
  | JArray "jvalue list"
  | JObject "(string \<times> jvalue) list"

definition digit_char :: "nat \<Rightarrow> char" where
  "digit_char d = ''0123456789'' ! d"

fun nat_text :: "nat \<Rightarrow> string" where
  "nat_text n = (if n < 10 then [digit_char n] else nat_text (n div 10) @ [digit_char (n mod 10)])"

declare nat_text.simps [simp del]

fun json_text :: "jvalue \<Rightarrow> string" where
  "json_text JNull = ''null''"
| "json_text (JBool b) = (if b then ''true'' else ''false'')"
| "json_text (JNumber i) = (if i < 0 then CHR ''-'' # nat_text (nat (- i)) else nat_text (nat i))"
| "json_text (JString s) = json_string s"
| "json_text (JArray vs) = ''['' @ Join (map json_text vs) '','' @ '']''"
| "json_text (JObject kvs) =
     ''{'' @ Join (map (\<lambda>kv. json_string (fst kv) @ '':'' @ json_text (snd kv)) kvs) '','' @ ''}''"

definition json_member_text :: "string \<times> jvalue \<Rightarrow> string" where
  "json_member_text kv = json_string (fst kv) @ '':'' @ json_text (snd kv)"

fun kind_of :: "jvalue \<Rightarrow> jkind" where
  "kind_of JNull = KNull"
| "kind_of (JBool b) = KBool"
| "kind_of (JNumber i) = KNumber"
| "kind_of (JString s) = KString s"
| "kind_of (JArray vs) = KArray"
| "kind_of (JObject kvs) = KObject"

text \<open>A number ends where the next byte cannot continue it.\<close>

definition num_end :: "string \<Rightarrow> bool" where
  "num_end r = (case r of [] \<Rightarrow> True | c # _ \<Rightarrow> \<not> is_digit c \<and> c \<noteq> CHR ''.'' \<and> c \<noteq> CHR ''e'' \<and> c \<noteq> CHR ''E'')"

subsection \<open>Digits\<close>


lemma digit_char_digit: "d < 10 \<Longrightarrow> is_digit (digit_char d)"
  unfolding is_digit_def digit_char_def by (rule nth_mem) simp

lemma digit_char_zero: "d < 10 \<Longrightarrow> digit_char d = CHR ''0'' \<longleftrightarrow> d = 0"
proof (cases d)
  case (Suc m)
  assume "d < 10"
  with Suc have "m < 9" by simp
  then have "''123456789'' ! m \<in> set ''123456789''" by (intro nth_mem) simp
  with Suc show ?thesis by (auto simp: digit_char_def)
qed (simp add: digit_char_def)

lemma nat_text_digits: "c \<in> set (nat_text n) \<Longrightarrow> is_digit c"
proof (induction n rule: nat_text.induct)
  case (1 n)
  then show ?case
    by (subst (asm) nat_text.simps) (auto split: if_splits intro: digit_char_digit)
qed

lemma nat_text_Cons: "\<exists>c t. nat_text n = c # t \<and> is_digit c \<and> (0 < n \<longrightarrow> c \<noteq> CHR ''0'') \<and> (n = 0 \<longrightarrow> t = [])"
proof (induction n rule: nat_text.induct)
  case (1 n)
  show ?case
  proof (cases "n < 10")
    case True
    then show ?thesis by (subst nat_text.simps) (simp add: digit_char_digit digit_char_zero)
  next
    case False
    with "1.IH" obtain c t where "nat_text (n div 10) = c # t" "is_digit c" "c \<noteq> CHR ''0''"
      by fastforce
    with False show ?thesis by (subst nat_text.simps) simp
  qed
qed

lemma dropWhile_digits: "(\<forall>c \<in> set t. is_digit c) \<Longrightarrow> num_end r \<Longrightarrow> dropWhile is_digit (t @ r) = r"
  by (induction t) (auto simp: num_end_def split: list.splits)

lemma lex_frac_exp_end: "num_end r \<Longrightarrow> lex_frac_exp r = Some r"
  by (auto simp: lex_frac_exp_def num_end_def split: list.splits)

lemma nat_text_0: "nat_text 0 = ''0''"
  by (simp add: nat_text.simps digit_char_def)

lemma lex_number_nat_text: "num_end r \<Longrightarrow> lex_number (nat_text n @ r) = Some r"
proof (cases "n = 0")
  case True
  assume "num_end r"
  with True show ?thesis by (simp add: nat_text_0 lex_number_def lex_frac_exp_end)
next
  case False
  assume r: "num_end r"
  obtain c t where ct: "nat_text n = c # t" "is_digit c" "c \<noteq> CHR ''0''"
    using nat_text_Cons [of n] False by auto
  have t: "\<forall>c \<in> set t. is_digit c" using nat_text_digits [of _ n] ct(1) by simp
  have "c \<noteq> CHR ''-''" using ct(2) by (auto simp: is_digit_def)
  moreover have "dropWhile is_digit r = r" using dropWhile_digits [of "[]" r] r by simp
  ultimately show ?thesis using ct t r
    by (simp add: lex_number_def dropWhile_digits lex_frac_exp_end)
qed

subsection \<open>The scanner stops after a written value\<close>

lemma lex_number_minus:
  "(case x of c # _ \<Rightarrow> c \<noteq> CHR ''-'' | [] \<Rightarrow> True) \<Longrightarrow> lex_number (CHR ''-'' # x) = lex_number x"
  by (simp add: lex_number_def split: list.splits)

lemma json_text_first:
  "\<exists>c t. json_text v = c # t \<and> \<not> is_ws c \<and> c \<noteq> CHR '']'' \<and> c \<noteq> CHR ''}'' \<and>
         (c = CHR 0x22 \<longleftrightarrow> (\<exists>s. v = JString s)) \<and> ((\<forall>s. v \<noteq> JString s) \<longrightarrow> lead_kind c = kind_of v)"
proof (cases v)
  case (JNumber i)
  show ?thesis
  proof (cases "i < 0")
    case True
    with JNumber show ?thesis by (simp add: is_ws_def lead_kind_def)
  next
    case False
    obtain c t where ct: "nat_text (nat i) = c # t" "is_digit c"
      using nat_text_Cons by blast
    from \<open>is_digit c\<close> have "c \<in> set ''0123456789''" by (simp add: is_digit_def)
    then have "\<not> is_ws c \<and> c \<noteq> CHR '']'' \<and> c \<noteq> CHR ''}'' \<and> c \<noteq> CHR 0x22 \<and> lead_kind c = KNumber"
      by (simp add: is_ws_def lead_kind_def) (elim disjE; simp)
    with ct JNumber False show ?thesis by simp
  qed
next
  case JNull then show ?thesis by (simp add: is_ws_def lead_kind_def)
next
  case (JBool b) then show ?thesis by (simp add: is_ws_def lead_kind_def)
next
  case (JString s) then show ?thesis by (simp add: is_ws_def json_string_def)
next
  case (JArray vs) then show ?thesis by (simp add: is_ws_def lead_kind_def)
next
  case (JObject kvs) then show ?thesis by (simp add: is_ws_def lead_kind_def)
qed

lemma obj_key_member:
  "obj_key (json_string k @ CHR '':'' # r) = Some (k, r)"
  by (simp add: obj_key_def json_string_def is_ws_def parse_str_json_string)

lemma scan_elems:
  assumes "\<And>v stk r. v \<in> set vs \<Longrightarrow> num_end r \<Longrightarrow> scan_value stk (json_text v @ r) = scan_after stk r"
    and "vs \<noteq> []"
  shows "scan_value (InArray # stk) (Join (map json_text vs) '','' @ CHR '']'' # r) = scan_after stk r"
  using assms
proof (induction vs)
  case (Cons v vs)
  have hd: "scan_value (InArray # stk) (json_text v @ r') = scan_after (InArray # stk) r'" if "num_end r'" for r'
    using Cons.prems(1) [of v r' "InArray # stk"] that by simp
  show ?case
  proof (cases vs)
    case Nil
    with hd [of "CHR '']'' # r"] show ?thesis by (simp add: num_end_def is_digit_def is_ws_def)
  next
    case (Cons v2 vs2)
    with hd [of "CHR '','' # Join (map json_text vs) '','' @ CHR '']'' # r"] Cons.IH Cons.prems(1)
    show ?thesis by (simp add: num_end_def is_digit_def is_ws_def)
  qed
qed simp

lemma scan_members:
  assumes "\<And>kv stk r. kv \<in> set kvs \<Longrightarrow> num_end r \<Longrightarrow>
             scan_value stk (json_text (snd kv) @ r) = scan_after stk r"
    and "kvs \<noteq> []"
  shows "(case obj_key (Join (map json_member_text kvs) '','' @ CHR ''}'' # r) of
            None \<Rightarrow> None | Some (_, r1) \<Rightarrow> scan_value (InObject # stk) r1) = scan_after stk r"
  using assms
proof (induction kvs)
  case (Cons kv kvs)
  have hd: "(case obj_key (json_member_text kv @ r') of
               None \<Rightarrow> None | Some (_, r1) \<Rightarrow> scan_value (InObject # stk) r1) = scan_after (InObject # stk) r'"
    if "num_end r'" for r'
    using Cons.prems(1) [of kv r' "InObject # stk"] that
    by (simp add: json_member_text_def obj_key_member)
  show ?case
  proof (cases kvs)
    case Nil
    with hd [of "CHR ''}'' # r"] show ?thesis by (simp add: num_end_def is_digit_def is_ws_def)
  next
    case (Cons kv2 kvs2)
    with hd [of "CHR '','' # Join (map json_member_text kvs) '','' @ CHR ''}'' # r"] Cons.IH Cons.prems(1)
    show ?thesis by (simp add: num_end_def is_digit_def is_ws_def)
  qed
qed simp

lemma json_text_JObject:
  "json_text (JObject kvs) = ''{'' @ Join (map json_member_text kvs) '','' @ ''}''"
  by (simp add: json_member_text_def [abs_def])

lemma Join_map_first:
  "xs \<noteq> [] \<Longrightarrow> \<exists>z. Join (map f xs) sep = f (hd xs) @ z"
  by (cases xs) (auto simp: Join_Cons_prefix)

lemma scan_value_json_text:
  "num_end r \<Longrightarrow> scan_value stk (json_text v @ r) = scan_after stk r"
proof (induction v arbitrary: stk r rule: json_text.induct)
  case 1
  then show ?case by (simp add: scan_value.simps is_ws_def lex_lit_def)
next
  case (2 b)
  then show ?case by (simp add: scan_value.simps is_ws_def lex_lit_def)
next
  case (3 i)
  obtain c t where ct: "nat_text (nat (- i)) = c # t" "is_digit c" using nat_text_Cons by blast
  then have "c \<noteq> CHR ''-''" by (auto simp: is_digit_def)
  with ct have "lex_number (CHR ''-'' # nat_text (nat (- i)) @ r) = lex_number (nat_text (nat (- i)) @ r)"
    by (intro lex_number_minus) simp
  with "3.prems" have "lex_number (CHR ''-'' # nat_text (nat (- i)) @ r) = Some r"
    by (simp add: lex_number_nat_text)
  moreover obtain c' t' where "nat_text (nat i) = c' # t'" "is_digit c'" using nat_text_Cons by blast
  moreover from this(2) have "c' \<in> set ''0123456789''" by (simp add: is_digit_def)
  ultimately show ?case using "3.prems" lex_number_nat_text [of r "nat i"]
    by (auto simp: scan_value.simps is_ws_def)
next
  case (4 s)
  then show ?case by (simp add: scan_value.simps json_string_def is_ws_def parse_str_json_string)
next
  case (5 vs)
  show ?case
  proof (cases vs)
    case Nil
    then show ?thesis by (simp add: scan_value.simps is_ws_def)
  next
    case (Cons v vs')
    obtain c t where ct: "json_text v = c # t" "\<not> is_ws c" "c \<noteq> CHR '']''"
      using json_text_first by blast
    obtain z where "Join (map json_text vs) '','' = json_text v @ z"
      using Join_map_first [of vs json_text] Cons by auto
    with ct Cons scan_elems [of vs stk r] "5.IH" show ?thesis
      by (simp add: scan_value.simps is_ws_def)
  qed
next
  case (6 kvs)
  show ?case
  proof (cases kvs)
    case Nil
    then show ?thesis by (simp add: scan_value.simps is_ws_def)
  next
    case (Cons kv kvs')
    obtain z where "Join (map json_member_text kvs) '','' = json_member_text kv @ z"
      using Join_map_first [of kvs json_member_text] Cons by auto
    with Cons scan_members [of kvs stk r] "6.IH" show ?thesis
      by (simp add: scan_value.simps is_ws_def json_text_JObject json_member_text_def json_string_def
               del: json_text.simps)
  qed
qed

subsection \<open>The decoder reads back a written object\<close>

lemma value_kind_json_text:
  "num_end r \<Longrightarrow> value_kind (json_text v @ r) = Some (kind_of v, r)"
proof (cases "\<exists>s. v = JString s")
  case True
  then obtain s where "v = JString s" by blast
  then show ?thesis
    by (simp add: value_kind_def json_string_def is_ws_def parse_str_json_string)
next
  case False
  assume r: "num_end r"
  obtain c t where ct: "json_text v = c # t" "\<not> is_ws c" "c \<noteq> CHR 0x22" "lead_kind c = kind_of v"
    using json_text_first [of v] False by blast
  have "scan_value [] (json_text v @ r) = Some r"
    using scan_value_json_text [OF r, of "[]" v] by simp
  with ct show ?thesis by (simp add: value_kind_def)
qed

lemma decode_members_json:
  "kvs \<noteq> [] \<Longrightarrow>
   decode_members acc (Join (map json_member_text kvs) '','' @ CHR ''}'' # r) =
     Some (acc @ map (\<lambda>kv. (fst kv, kind_of (snd kv))) kvs, r)"
proof (induction kvs arbitrary: acc)
  case (Cons kv kvs)
  have step: "decode_members acc (json_member_text kv @ r') =
                (case skip_ws r' of
                   [] \<Rightarrow> None
                 | f # r2 \<Rightarrow>
                     if f = CHR '','' then decode_members (acc @ [(fst kv, kind_of (snd kv))]) r2
                     else if f = CHR ''}'' then Some (acc @ [(fst kv, kind_of (snd kv))], r2) else None)"
    if "num_end r'" for r'
    using that
    by (subst decode_members.simps)
       (simp add: json_member_text_def obj_key_member value_kind_json_text del: json_text.simps)
  show ?case
  proof (cases kvs)
    case Nil
    with step [of "CHR ''}'' # r"] show ?thesis by (simp add: num_end_def is_digit_def is_ws_def)
  next
    case (Cons kv2 kvs2)
    with step [of "CHR '','' # Join (map json_member_text kvs) '','' @ CHR ''}'' # r"] Cons.IH
    show ?thesis by (simp add: num_end_def is_digit_def is_ws_def)
  qed
qed simp

lemma decode_object_json_text:
  "decode_object (json_text (JObject kvs) @ r) = Some (map (\<lambda>kv. (fst kv, kind_of (snd kv))) kvs, r)"
proof (cases kvs)
  case Nil
  then show ?thesis by (simp add: decode_object_def is_ws_def)
next
  case (Cons kv kvs')
  obtain z where "Join (map json_member_text kvs) '','' = json_member_text kv @ z"
    using Join_map_first [of kvs json_member_text] Cons by auto
  with Cons decode_members_json [of kvs "[]" r] show ?thesis
    by (simp add: decode_object_def is_ws_def json_text_JObject json_member_text_def json_string_def
             del: json_text.simps)
qed

end
