(* ===== verification/BookingTools.thy ===== *)
theory BookingTools
  imports Prelude
begin

text \<open>
  The tools of the booking-flight agent, \<open>llm/book-flight/go-server/tools/bookingflight/booking_tools.go\<close>:
  \<open>SearchFlightTicket\<close>, \<open>PurchaseFlightTicket\<close> and \<open>FinishPlaceholder\<close>, each with
  its \<open>Call\<close> method, and the static flight table \<open>flightInformation\<close>. A flight is a
  Go \<open>map[string]string\<close>, modelled as an association list read with Go's map index
  (the empty string for a missing key). JSON decoding and encoding are \<open>encoding/json\<close>,
  which the tools only call: they are the fields of an interface record
  \<open>json_codec\<close>, and every lemma holds for every codec. Non-ASCII text of the source is
  written as its UTF-8 bytes, as a Go string holds it.
\<close>

subsection \<open>Data\<close>

type_synonym flight = "(gostring \<times> gostring) list"

text \<open>Go's \<open>m[k]\<close> on a \<open>map[string]string\<close>: the zero value \<open>""\<close> when the key is absent.\<close>

definition go_index :: "flight \<Rightarrow> gostring \<Rightarrow> gostring" where
  "go_index m k = (case map_of m k of Some v \<Rightarrow> v | None \<Rightarrow> [])"

record serachFlightTicketData =
  Origin :: gostring
  Destination :: gostring
  Date :: gostring
  DepartureTimeStart :: gostring
  DepartureTimeEnd :: gostring

record purchaseFlightTicketData =
  FlightNumber :: gostring

text \<open>
  What the tools use of \<open>encoding/json\<close>: \<open>json.Unmarshal\<close> into each request struct
  (\<open>Inl\<close> carries the error's text) and \<open>json.Marshal\<close> of the table and of one flight.
\<close>

record json_codec =
  unmarshal_search :: "gostring \<Rightarrow> gostring + serachFlightTicketData"
  unmarshal_purchase :: "gostring \<Rightarrow> gostring + purchaseFlightTicketData"
  marshal_table :: "flight list \<Rightarrow> gostring"
  marshal_flight :: "flight \<Rightarrow> gostring"

text \<open>A tool's result: Go's \<open>(string, error)\<close>, the error as its text or \<open>nil\<close>.\<close>

type_synonym tool_result = "gostring \<times> gostring option"

subsection \<open>The string constants of the source (UTF-8)\<close>

definition Beijing :: gostring where "Beijing = [CHR 0xE5, CHR 0x8C, CHR 0x97, CHR 0xE4, CHR 0xBA, CHR 0xAC]"
definition Shanghai :: gostring where "Shanghai = [CHR 0xE4, CHR 0xB8, CHR 0x8A, CHR 0xE6, CHR 0xB5, CHR 0xB7]"
definition FirstClass :: gostring where "FirstClass = [CHR 0xE5, CHR 0xA4, CHR 0xB4, CHR 0xE7, CHR 0xAD, CHR 0x89, CHR 0xE8, CHR 0x88, CHR 0xB1]"
definition Economy :: gostring where "Economy = [CHR 0xE6, CHR 0x99, CHR 0xAE, CHR 0xE9, CHR 0x80, CHR 0x9A, CHR 0xE8, CHR 0x88, CHR 0xB1]"
definition NothingFound :: gostring where "NothingFound = [CHR 0xE6, CHR 0x9C, CHR 0xAA, CHR 0xE6, CHR 0x9F, CHR 0xA5, CHR 0xE8, CHR 0xAF, CHR 0xA2, CHR 0xE5, CHR 0x88, CHR 0xB0, CHR 0xE7, CHR 0x9B, CHR 0xB8, CHR 0xE5, CHR 0x85, CHR 0xB3, CHR 0xE5, CHR 0x86, CHR 0x85, CHR 0xE5, CHR 0xAE, CHR 0xB9]"

subsection \<open>The flight table\<close>

definition flightInformation :: "flight list" where
  "flightInformation = [
      [(''flight_number'', ''MU5100''),
       (''origin'', Beijing),
       (''destination'', Shanghai),
       (''departure_time'', ''2024-06-01 07:00''),
       (''arrival_time'', ''2024-06-01 09:15''),
       (''price'', ''900.00''),
       (''seat_type'', FirstClass)],
      [(''flight_number'', ''MU6865''),
       (''origin'', Beijing),
       (''destination'', Shanghai),
       (''departure_time'', ''2024-06-01 07:20''),
       (''arrival_time'', ''2024-06-01 09:25''),
       (''price'', ''1160.00''),
       (''seat_type'', FirstClass)],
      [(''flight_number'', ''HM7601''),
       (''origin'', Beijing),
       (''destination'', Shanghai),
       (''departure_time'', ''2024-06-01 07:30''),
       (''arrival_time'', ''2024-06-01 09:55''),
       (''price'', ''1080.00''),
       (''seat_type'', Economy)],
      [(''flight_number'', ''CA1515''),
       (''origin'', Beijing),
       (''destination'', Shanghai),
       (''departure_time'', ''2024-06-01 15:45''),
       (''arrival_time'', ''2024-06-01 17:55''),
       (''price'', ''1080.00''),
       (''seat_type'', Economy)],
      [(''flight_number'', ''GS9012''),
       (''origin'', Beijing),
       (''destination'', Shanghai),
       (''departure_time'', ''2024-06-01 19:00''),
       (''arrival_time'', ''2024-06-01 23:00''),
       (''price'', ''1250.00''),
       (''seat_type'', FirstClass)],
      [(''flight_number'', ''GS9013''),
       (''origin'', Beijing),
       (''destination'', Shanghai),
       (''departure_time'', ''2024-06-01 18:30''),
       (''arrival_time'', ''2024-06-01 22:00''),
       (''price'', ''1200.00''),
       (''seat_type'', FirstClass)]]"

subsection \<open>\<open>SearchFlightTicket\<close>\<close>

text \<open>Only the origin is checked, as the source's comment says; the other fields are ignored.\<close>

definition searchFlightTicket :: "json_codec \<Rightarrow> serachFlightTicketData \<Rightarrow> tool_result" where
  "searchFlightTicket c data =
     (if Origin data \<noteq> Beijing then (NothingFound, None)
      else (marshal_table c flightInformation, None))"

definition SearchFlightTicket_Call :: "json_codec \<Rightarrow> gostring \<Rightarrow> tool_result" where
  "SearchFlightTicket_Call c input =
     (case unmarshal_search c input of
        Inl err \<Rightarrow> (''Error: '' @ err, Some err)
      | Inr data \<Rightarrow> searchFlightTicket c data)"

subsection \<open>\<open>PurchaseFlightTicket\<close>\<close>

text \<open>The \<open>for _, info := range flightInfo\<close> loop, returning at the first match.\<close>

fun purchase_loop :: "json_codec \<Rightarrow> gostring \<Rightarrow> flight list \<Rightarrow> tool_result option" where
  "purchase_loop c n [] = None"
| "purchase_loop c n (info # rest) =
     (if n = go_index info ''flight_number'' then Some (marshal_flight c info, None)
      else purchase_loop c n rest)"

definition purchaseFlightTicket :: "json_codec \<Rightarrow> purchaseFlightTicketData \<Rightarrow> tool_result" where
  "purchaseFlightTicket c data =
     (case purchase_loop c (FlightNumber data) flightInformation of
        Some r \<Rightarrow> r
      | None \<Rightarrow> (''The flight was not found: '' @ FlightNumber data, None))"

definition PurchaseFlightTicket_Call :: "json_codec \<Rightarrow> gostring \<Rightarrow> tool_result" where
  "PurchaseFlightTicket_Call c input =
     (case unmarshal_purchase c input of
        Inl err \<Rightarrow> (''Error: '' @ err, Some err)
      | Inr data \<Rightarrow> purchaseFlightTicket c data)"

subsection \<open>\<open>FinishPlaceholder\<close>\<close>

definition FinishPlaceholder_Call :: "gostring \<Rightarrow> tool_result" where
  "FinishPlaceholder_Call input = (''FINISH'', None)"

subsection \<open>The flight table\<close>

definition flight_numbers :: "gostring list" where
  "flight_numbers = map (\<lambda>info. go_index info ''flight_number'') flightInformation"

lemma flight_numbers_eval:
  "flight_numbers = [''MU5100'', ''MU6865'', ''HM7601'', ''CA1515'', ''GS9012'', ''GS9013'']"
  by (simp add: flight_numbers_def flightInformation_def go_index_def)

lemma distinct_flight_numbers: "distinct flight_numbers"
  by (simp add: flight_numbers_eval)

subsection \<open>The purchase loop is a search for the first match\<close>

lemma purchase_loop_find:
  "purchase_loop c n infos =
     map_option (\<lambda>info. (marshal_flight c info, None))
       (find (\<lambda>info. n = go_index info ''flight_number'') infos)"
  by (induction infos) auto

lemma find_distinct_key:
  "distinct (map f xs) \<Longrightarrow> x \<in> set xs \<Longrightarrow> find (\<lambda>y. f x = f y) xs = Some x"
  by (induction xs) (auto simp: rev_image_eqI)

lemma purchase_loop_table_found:
  "info \<in> set flightInformation \<Longrightarrow>
   purchase_loop c (go_index info ''flight_number'') flightInformation = Some (marshal_flight c info, None)"
proof -
  assume info: "info \<in> set flightInformation"
  have "distinct (map (\<lambda>i. go_index i ''flight_number'') flightInformation)"
    using distinct_flight_numbers by (simp add: flight_numbers_def)
  from find_distinct_key [OF this info]
  show ?thesis by (simp add: purchase_loop_find)
qed

lemma purchase_loop_table_none:
  "n \<notin> set flight_numbers \<Longrightarrow> purchase_loop c n flightInformation = None"
  by (auto simp: purchase_loop_find find_None_iff flight_numbers_def)

subsection \<open>Properties of the tools\<close>

lemma go_index_table_fields:
  "list_all (\<lambda>info. go_index info ''origin'' = Beijing \<and> go_index info ''destination'' = Shanghai)
     flightInformation"
  by (simp add: flightInformation_def go_index_def)

text \<open>
  C8. \<open>SearchFlightTicket.Call\<close> on decoded request data: the whole flight table,
  marshalled, when the origin is Beijing, and the fixed not-found text otherwise; no other
  field of the request is consulted, and the error is always \<open>nil\<close>.
\<close>

theorem SearchFlightTicket_Call_origin:
  "unmarshal_search c input = Inr data \<Longrightarrow>
   SearchFlightTicket_Call c input =
     (if Origin data = Beijing then marshal_table c flightInformation else NothingFound, None)"
  by (simp add: SearchFlightTicket_Call_def searchFlightTicket_def)

theorem SearchFlightTicket_Call_origin_witness:
  "SearchFlightTicket_Call
     \<lparr>unmarshal_search = (\<lambda>s. Inr \<lparr>Origin = s, Destination = [], Date = [],
                                   DepartureTimeStart = [], DepartureTimeEnd = []\<rparr>),
      unmarshal_purchase = (\<lambda>s. Inl s), marshal_table = (\<lambda>t. ''table''), marshal_flight = (\<lambda>f. ''one'')\<rparr>
     ''Shanghai'' = (NothingFound, None)"
  using SearchFlightTicket_Call_origin
    [of "\<lparr>unmarshal_search = (\<lambda>s. Inr \<lparr>Origin = s, Destination = [], Date = [],
                                   DepartureTimeStart = [], DepartureTimeEnd = []\<rparr>),
      unmarshal_purchase = (\<lambda>s. Inl s), marshal_table = (\<lambda>t. ''table''), marshal_flight = (\<lambda>f. ''one'')\<rparr>"
        "''Shanghai''"]
  by (simp add: Beijing_def)

text \<open>
  C9. \<open>PurchaseFlightTicket.Call\<close> for a flight number of the table: the result is that
  flight, marshalled, with a \<open>nil\<close> error (the flight numbers are distinct, so the
  first match is the only one).
\<close>

theorem PurchaseFlightTicket_Call_found:
  "unmarshal_purchase c input = Inr data \<Longrightarrow> info \<in> set flightInformation \<Longrightarrow>
   go_index info ''flight_number'' = FlightNumber data \<Longrightarrow>
   PurchaseFlightTicket_Call c input = (marshal_flight c info, None)"
  using purchase_loop_table_found [of info c]
  by (simp add: PurchaseFlightTicket_Call_def purchaseFlightTicket_def)

theorem PurchaseFlightTicket_Call_found_witness:
  "PurchaseFlightTicket_Call
     \<lparr>unmarshal_search = (\<lambda>s. Inl s), unmarshal_purchase = (\<lambda>s. Inr \<lparr>FlightNumber = s\<rparr>),
      marshal_table = (\<lambda>t. ''table''), marshal_flight = (\<lambda>f. go_index f ''price'')\<rparr>
     ''CA1515'' = (''1080.00'', None)"
proof -
  let ?c = "\<lparr>unmarshal_search = (\<lambda>s. Inl s), unmarshal_purchase = (\<lambda>s. Inr \<lparr>FlightNumber = s\<rparr>),
      marshal_table = (\<lambda>t. ''table''), marshal_flight = (\<lambda>f. go_index f ''price'')\<rparr>"
  let ?info = "flightInformation ! 3"
  have "?info \<in> set flightInformation" by (simp add: flightInformation_def)
  moreover have "go_index ?info ''flight_number'' = ''CA1515''"
    by (simp add: flightInformation_def go_index_def)
  ultimately have "PurchaseFlightTicket_Call ?c ''CA1515'' = (marshal_flight ?c ?info, None)"
    using PurchaseFlightTicket_Call_found [of ?c "''CA1515''" "\<lparr>FlightNumber = ''CA1515''\<rparr>" ?info]
    by simp
  then show ?thesis by (simp add: flightInformation_def go_index_def)
qed

text \<open>
  C10. \<open>PurchaseFlightTicket.Call\<close> for a number that no flight has: the not-found message
  naming the number, with a \<open>nil\<close> error (a missing flight is not an error of the tool).
\<close>

theorem PurchaseFlightTicket_Call_not_found:
  "unmarshal_purchase c input = Inr data \<Longrightarrow> FlightNumber data \<notin> set flight_numbers \<Longrightarrow>
   PurchaseFlightTicket_Call c input = (''The flight was not found: '' @ FlightNumber data, None)"
  by (simp add: PurchaseFlightTicket_Call_def purchaseFlightTicket_def purchase_loop_table_none)

theorem PurchaseFlightTicket_Call_not_found_witness:
  "PurchaseFlightTicket_Call
     \<lparr>unmarshal_search = (\<lambda>s. Inl s), unmarshal_purchase = (\<lambda>s. Inr \<lparr>FlightNumber = s\<rparr>),
      marshal_table = (\<lambda>t. ''table''), marshal_flight = (\<lambda>f. ''one'')\<rparr>
     [] = (''The flight was not found: '', None)"
  using PurchaseFlightTicket_Call_not_found
    [of "\<lparr>unmarshal_search = (\<lambda>s. Inl s), unmarshal_purchase = (\<lambda>s. Inr \<lparr>FlightNumber = s\<rparr>),
      marshal_table = (\<lambda>t. ''table''), marshal_flight = (\<lambda>f. ''one'')\<rparr>" "[]" "\<lparr>FlightNumber = []\<rparr>"]
  by (simp add: flight_numbers_eval)

text \<open>
  C11. A request that does not decode: both \<open>Call\<close>s return the text
  \<open>"Error: "\<close> followed by the decoding error, together with that error.
\<close>

theorem Call_decode_error:
  "(unmarshal_search c input = Inl e \<longrightarrow> SearchFlightTicket_Call c input = (''Error: '' @ e, Some e)) \<and>
   (unmarshal_purchase c input = Inl e \<longrightarrow> PurchaseFlightTicket_Call c input = (''Error: '' @ e, Some e))"
  by (simp add: SearchFlightTicket_Call_def PurchaseFlightTicket_Call_def)

theorem Call_decode_error_witness:
  "SearchFlightTicket_Call
     \<lparr>unmarshal_search = (\<lambda>s. Inl ''unexpected end of JSON input''), unmarshal_purchase = (\<lambda>s. Inl s),
      marshal_table = (\<lambda>t. ''table''), marshal_flight = (\<lambda>f. ''one'')\<rparr> ''{''
   = (''Error: unexpected end of JSON input'', Some ''unexpected end of JSON input'')"
  using Call_decode_error
    [of "\<lparr>unmarshal_search = (\<lambda>s. Inl ''unexpected end of JSON input''), unmarshal_purchase = (\<lambda>s. Inl s),
      marshal_table = (\<lambda>t. ''table''), marshal_flight = (\<lambda>f. ''one'')\<rparr>" "''{''"
        "''unexpected end of JSON input''"]
  by simp

end
