(* ===== verification/GoJson.thy ===== *)
theory GoJson
  imports JsonValue BookingTools "HOL-Library.List_Lexorder" "HOL-Library.Char_ord"
begin

text \<open>
  The part of Go's \<open>encoding/json\<close> that the booking tools exchange: JSON objects whose
  members are all strings. \<open>json.Marshal\<close> of a \<open>map[string]string\<close> writes the members
  in the byte order of their keys (\<open>strings.Compare\<close>, here the lexicographic order of
  \<open>List_Lexorder\<close> over \<open>Char_ord\<close>), and of a slice of maps the elements in order.
  \<open>json.Unmarshal\<close> into a struct of string fields first checks that the whole input is
  one JSON value of any kind (\<open>JsonScan\<close>); \<open>null\<close> leaves the struct alone, any other
  value that is not an object is refused with the type error for the struct's Go type; the
  members of an object are assigned to the field whose JSON name equals the key, exactly or up
  to ASCII case (the decoder's \<open>foldName\<close>): a string is stored, \<open>null\<close> is skipped, any
  other kind is a type error naming the struct and the field (the first one is returned once
  every member is read); later members override earlier ones, and members with unknown keys
  are skipped whatever their value. \<open>go_json\<close> is this codec as a value of the interface
  \<open>json_codec\<close> of \<open>BookingTools\<close>. Outside the model: Unicode case folding of non-ASCII
  keys, and the texts of Go's syntax errors (one fixed text stands for all of them).
\<close>

subsection \<open>Arrays of objects\<close>

function parse_elems ::
  "(string \<times> string) list list \<Rightarrow> string \<Rightarrow> ((string \<times> string) list list \<times> string) option" where
  "parse_elems acc s =
     (case parse_object s of
        None \<Rightarrow> None
      | Some (obj, r) \<Rightarrow>
          (case skip_ws r of
             [] \<Rightarrow> None
           | c # r' \<Rightarrow>
               if c = CHR '','' then parse_elems (acc @ [obj]) r'
               else if c = CHR '']'' then Some (acc @ [obj], r')
               else None))"
  by pat_completeness auto
termination
  by (relation "measure (\<lambda>(acc, s). length s)") (auto dest!: parse_object_shorter skip_ws_Cons_shorter)

declare parse_elems.simps [simp del]

text \<open>A whole input that is one array of objects.\<close>

definition json_decode_list :: "string \<Rightarrow> (string \<times> string) list list option" where
  "json_decode_list s =
     (case skip_ws s of
        c # r \<Rightarrow>
          if c \<noteq> CHR ''['' then None
          else (case skip_ws r of
                  [] \<Rightarrow> None
                | d # r' \<Rightarrow>
                    if d = CHR '']'' then (if skip_ws r' = [] then Some [] else None)
                    else (case parse_elems [] r of
                            Some (objs, r2) \<Rightarrow> if skip_ws r2 = [] then Some objs else None
                          | None \<Rightarrow> None))
      | [] \<Rightarrow> None)"

subsection \<open>\<open>json.Marshal\<close>\<close>

text \<open>A Go map: its distinct keys, in byte order, each with its value.\<close>

definition map_entries :: "flight \<Rightarrow> (string \<times> string) list" where
  "map_entries m = map (\<lambda>k. (k, go_index m k)) (sort (remdups (map fst m)))"

definition marshal_map :: "flight \<Rightarrow> string" where
  "marshal_map m = json_object (map_entries m)"

definition marshal_list :: "flight list \<Rightarrow> string" where
  "marshal_list ms = ''['' @ Join (map marshal_map ms) '','' @ '']''"

subsection \<open>\<open>json.Unmarshal\<close> into a struct of strings\<close>

definition ascii_upper :: "char \<Rightarrow> char" where
  "ascii_upper c = (if CHR ''a'' \<le> c \<and> c \<le> CHR ''z'' then char_of (of_char c - 32 :: nat) else c)"

definition key_matches :: "string \<Rightarrow> string \<Rightarrow> bool" where
  "key_matches key name \<longleftrightarrow> map ascii_upper key = map ascii_upper name"

definition json_syntax_error :: gostring where
  "json_syntax_error = ''invalid character in JSON input''"

text \<open>
  The texts of \<open>UnmarshalTypeError\<close>: a value of the wrong kind for a field of a struct, and
  for the Go value itself.
\<close>

definition field_type_error :: "string \<Rightarrow> gostring \<Rightarrow> gostring \<Rightarrow> gostring" where
  "field_type_error kind sname fname =
     ''json: cannot unmarshal '' @ kind @ '' into Go struct field '' @ sname @ ''.'' @ fname @ '' of type string''"

definition value_type_error :: "string \<Rightarrow> gostring \<Rightarrow> gostring" where
  "value_type_error kind tname = ''json: cannot unmarshal '' @ kind @ '' into Go value of type '' @ tname"

text \<open>
  One member of the object, for a struct whose fields are the strings named \<open>names\<close> (their
  JSON names): an unknown key is skipped; a string is stored; \<open>null\<close> leaves the field alone;
  any other kind leaves it alone too and is remembered as an error unless one already is
  (the decoder's \<open>saveError\<close> keeps the first).
\<close>

definition store_member ::
  "gostring \<Rightarrow> string list \<Rightarrow> (string \<times> string \<Rightarrow> 'd \<Rightarrow> 'd) \<Rightarrow> string \<times> jkind \<Rightarrow>
   gostring option \<times> 'd \<Rightarrow> gostring option \<times> 'd" where
  "store_member sname names set_field kv st =
     (case find (key_matches (fst kv)) names of
        None \<Rightarrow> st
      | Some f \<Rightarrow>
          (case snd kv of
             KString x \<Rightarrow> (fst st, set_field (fst kv, x) (snd st))
           | KNull \<Rightarrow> st
           | k \<Rightarrow> (case fst st of
                     None \<Rightarrow> Some (field_type_error (kind_name k) sname f)
                   | Some e \<Rightarrow> Some e, snd st)))"

text \<open>
  \<open>json.Unmarshal(input, &data)\<close> for a struct of string fields: the whole input is checked
  first (\<open>checkValid\<close>: one value, nothing but white space after it); \<open>null\<close> leaves the
  struct alone; an object is decoded member by member, the first type error returned once all
  members are read; any other value is refused with a type error for the Go type \<open>tname\<close>.
\<close>

definition unmarshal_into ::
  "gostring \<Rightarrow> gostring \<Rightarrow> string list \<Rightarrow> (string \<times> string \<Rightarrow> 'd \<Rightarrow> 'd) \<Rightarrow> 'd \<Rightarrow> string \<Rightarrow> gostring + 'd" where
  "unmarshal_into tname sname names set_field zero s =
     (case scan_value [] s of
        None \<Rightarrow> Inl json_syntax_error
      | Some r \<Rightarrow>
          if skip_ws r \<noteq> [] then Inl json_syntax_error
          else (case value_kind s of
                  None \<Rightarrow> Inl json_syntax_error
                | Some (KNull, _) \<Rightarrow> Inr zero
                | Some (KObject, _) \<Rightarrow>
                    (case decode_object s of
                       None \<Rightarrow> Inl json_syntax_error
                     | Some (kvs, _) \<Rightarrow>
                         (case fold (store_member sname names set_field) kvs (None, zero) of
                            (None, d) \<Rightarrow> Inr d
                          | (Some e, _) \<Rightarrow> Inl e))
                | Some (k, _) \<Rightarrow> Inl (value_type_error (kind_name k) tname)))"

text \<open>The JSON names of the fields, from the struct tags.\<close>

definition serachFlightTicketData_fields :: "string list" where
  "serachFlightTicketData_fields =
     [''origin'', ''destination'', ''date'', ''departure_time_start'', ''departure_time_end'']"

definition purchaseFlightTicketData_fields :: "string list" where
  "purchaseFlightTicketData_fields = [''flight_number'']"

definition set_purchase_field :: "string \<times> string \<Rightarrow> purchaseFlightTicketData \<Rightarrow> purchaseFlightTicketData" where
  "set_purchase_field kv d =
     (if key_matches (fst kv) ''flight_number'' then d\<lparr>FlightNumber := snd kv\<rparr> else d)"

definition set_search_field :: "string \<times> string \<Rightarrow> serachFlightTicketData \<Rightarrow> serachFlightTicketData" where
  "set_search_field kv d =
     (if key_matches (fst kv) ''origin'' then d\<lparr>Origin := snd kv\<rparr>
      else if key_matches (fst kv) ''destination'' then d\<lparr>Destination := snd kv\<rparr>
      else if key_matches (fst kv) ''date'' then d\<lparr>Date := snd kv\<rparr>
      else if key_matches (fst kv) ''departure_time_start'' then d\<lparr>DepartureTimeStart := snd kv\<rparr>
      else if key_matches (fst kv) ''departure_time_end'' then d\<lparr>DepartureTimeEnd := snd kv\<rparr>
      else d)"

definition go_json :: json_codec where
  "go_json =
     \<lparr>unmarshal_search =
        unmarshal_into ''bookingflight.serachFlightTicketData'' ''serachFlightTicketData''
          serachFlightTicketData_fields set_search_field
          \<lparr>Origin = [], Destination = [], Date = [], DepartureTimeStart = [], DepartureTimeEnd = []\<rparr>,
      unmarshal_purchase =
        unmarshal_into ''bookingflight.purchaseFlightTicketData'' ''purchaseFlightTicketData''
          purchaseFlightTicketData_fields set_purchase_field \<lparr>FlightNumber = []\<rparr>,
      marshal_table = marshal_list,
      marshal_flight = marshal_map\<rparr>"

subsection \<open>Reading back what \<open>json.Marshal\<close> writes\<close>

lemma unmarshal_into_json_text:
  "unmarshal_into tname sname names set_field zero (json_text v) =
     (case v of
        JNull \<Rightarrow> Inr zero
      | JObject kvs \<Rightarrow>
          (case fold (store_member sname names set_field) (map (\<lambda>kv. (fst kv, kind_of (snd kv))) kvs) (None, zero) of
             (None, d) \<Rightarrow> Inr d
           | (Some e, _) \<Rightarrow> Inl e)
      | _ \<Rightarrow> Inl (value_type_error (kind_name (kind_of v)) tname))"
proof -
  have scan: "scan_value [] (json_text v) = Some []"
    using scan_value_json_text [of "[]" "[]" v] by (simp add: num_end_def)
  have kind: "value_kind (json_text v) = Some (kind_of v, [])"
    using value_kind_json_text [of "[]" v] by (simp add: num_end_def)
  show ?thesis
  proof (cases v)
    case (JObject kvs)
    with scan kind decode_object_json_text [of kvs "[]"] show ?thesis
      by (simp add: unmarshal_into_def del: json_text.simps)
  qed (use scan kind in \<open>simp_all add: unmarshal_into_def del: json_text.simps\<close>)
qed

lemma json_object_json_text:
  "json_object kvs = json_text (JObject (map (\<lambda>kv. (fst kv, JString (snd kv))) kvs))"
  by (simp add: json_object_def json_member_def [abs_def] comp_def)

lemma fold_store_strings:
  "(\<And>kv d. find (key_matches (fst kv)) names = None \<Longrightarrow> set_field kv d = d) \<Longrightarrow>
   fold (store_member sname names set_field) (map (\<lambda>kv. (fst kv, KString (snd kv))) kvs) (e, d) =
     (e, fold set_field kvs d)"
  by (induction kvs arbitrary: d) (auto simp: store_member_def split: option.split)

lemma fold_store_error:
  "\<exists>d'. fold (store_member sname names set_field) kvs (Some e, d) = (Some e, d')"
  by (induction kvs arbitrary: d) (auto simp: store_member_def split: option.split jkind.split)

lemma unmarshal_into_json_object:
  "(\<And>kv d. find (key_matches (fst kv)) names = None \<Longrightarrow> set_field kv d = d) \<Longrightarrow>
   unmarshal_into tname sname names set_field zero (json_object kvs) = Inr (fold set_field kvs zero)"
  by (simp add: json_object_json_text unmarshal_into_json_text comp_def fold_store_strings del: json_text.simps)

lemma set_search_field_other:
  "find (key_matches (fst kv)) serachFlightTicketData_fields = None \<Longrightarrow> set_search_field kv d = d"
  by (simp add: set_search_field_def serachFlightTicketData_fields_def split: if_splits)

lemma set_purchase_field_other:
  "find (key_matches (fst kv)) purchaseFlightTicketData_fields = None \<Longrightarrow> set_purchase_field kv d = d"
  by (simp add: set_purchase_field_def purchaseFlightTicketData_fields_def split: if_splits)

lemma go_index_map_entries: "go_index (map_entries m) k = go_index m k"
proof (cases "k \<in> fst ` set m")
  case True
  then show ?thesis by (simp add: go_index_def map_entries_def map_of_map_restrict)
next
  case False
  then have "map_of m k = None" by (simp add: map_of_eq_None_iff)
  with False show ?thesis by (simp add: go_index_def map_entries_def map_of_map_restrict)
qed

lemma key_matches_refl [simp]: "key_matches k k"
  by (simp add: key_matches_def)

lemma key_matches_length: "key_matches k n \<Longrightarrow> length k = length n"
  unfolding key_matches_def by (metis length_map)

lemma parse_elems_object_next:
  "parse_elems acc (json_object obj @ CHR '','' # r) = parse_elems (acc @ [obj]) r"
  by (subst parse_elems.simps) (simp add: parse_object_json_object is_ws_def)

lemma parse_elems_object_last:
  "parse_elems acc (json_object obj @ CHR '']'' # r) = Some (acc @ [obj], r)"
  by (subst parse_elems.simps) (simp add: parse_object_json_object is_ws_def)

lemma parse_elems_json:
  "parse_elems acc (Join (map json_object (obj # objs)) '','' @ '']'' @ r) = Some (acc @ obj # objs, r)"
proof (induction objs arbitrary: obj acc)
  case Nil
  show ?case using parse_elems_object_last [of acc obj r] by simp
next
  case (Cons obj2 objs)
  have "Join (map json_object (obj # obj2 # objs)) '','' @ '']'' @ r =
          json_object obj @ CHR '','' # (Join (map json_object (obj2 # objs)) '','' @ '']'' @ r)"
    by simp
  then show ?case
    by (simp only: parse_elems_object_next Cons.IH) simp
qed

lemma json_decode_marshal_list: "json_decode_list (marshal_list ms) = Some (map map_entries ms)"
proof (cases ms)
  case Nil
  then show ?thesis by (simp add: json_decode_list_def marshal_list_def is_ws_def)
next
  case (Cons m ms')
  have objs: "map marshal_map ms = map json_object (map map_entries (m # ms'))"
    by (simp add: Cons marshal_map_def)
  obtain z where "Join (map json_object (map map_entries (m # ms'))) '','' = json_object (map_entries m) @ z"
    using Join_Cons_prefix by (simp only: list.map) blast
  then obtain y where y: "Join (map json_object (map map_entries (m # ms'))) '','' @ '']'' = CHR ''{'' # y"
    by (simp add: json_object_def)
  have "parse_elems [] (CHR ''{'' # y) = Some (map map_entries ms, [])"
    using parse_elems_json [of "[]" "map_entries m" "map map_entries ms'" "[]"] y Cons by simp
  then show ?thesis
    using y by (simp add: json_decode_list_def marshal_list_def objs is_ws_def)
qed

lemma fold_set_search_origin:
  "\<forall>kv \<in> set kvs. \<not> key_matches (fst kv) ''origin'' \<Longrightarrow>
   Origin (fold set_search_field kvs d) = Origin d"
  by (induction kvs arbitrary: d) (auto simp: set_search_field_def)

lemma fold_set_purchase_number:
  "\<forall>kv \<in> set kvs. \<not> key_matches (fst kv) ''flight_number'' \<Longrightarrow>
   FlightNumber (fold set_purchase_field kvs d) = FlightNumber d"
  by (induction kvs arbitrary: d) (auto simp: set_purchase_field_def)

text \<open>The two tools on the requests an agent sends as JSON objects.\<close>

lemma purchase_json_found:
  "info \<in> set flightInformation \<Longrightarrow>
   PurchaseFlightTicket_Call go_json (json_object [(''flight_number'', go_index info ''flight_number'')]) =
     (marshal_map info, None)"
proof -
  assume info: "info \<in> set flightInformation"
  have "unmarshal_purchase go_json (json_object [(''flight_number'', go_index info ''flight_number'')]) =
          Inr \<lparr>FlightNumber = go_index info ''flight_number''\<rparr>"
    by (simp add: go_json_def unmarshal_into_json_object [OF set_purchase_field_other] set_purchase_field_def)
  with purchase_loop_table_found [OF info, of go_json] show ?thesis
    by (simp add: PurchaseFlightTicket_Call_def purchaseFlightTicket_def go_json_def)
qed

lemma search_json_Beijing:
  "\<forall>kv \<in> set kvs. \<not> key_matches (fst kv) ''origin'' \<Longrightarrow>
   SearchFlightTicket_Call go_json (json_object ((''origin'', Beijing) # kvs)) =
     (marshal_list flightInformation, None)"
proof -
  assume others: "\<forall>kv \<in> set kvs. \<not> key_matches (fst kv) ''origin''"
  let ?zero = "\<lparr>Origin = [], Destination = [], Date = [], DepartureTimeStart = [], DepartureTimeEnd = []\<rparr>"
  let ?d = "fold set_search_field ((''origin'', Beijing) # kvs) ?zero"
  have "unmarshal_search go_json (json_object ((''origin'', Beijing) # kvs)) = Inr ?d"
    by (simp add: go_json_def unmarshal_into_json_object [OF set_search_field_other])
  moreover have "Origin ?d = Beijing"
    using fold_set_search_origin [OF others] by (simp add: set_search_field_def)
  ultimately show ?thesis
    by (simp add: SearchFlightTicket_Call_def searchFlightTicket_def go_json_def)
qed

lemma fold_store_unknown:
  "\<forall>kv \<in> set kvs. find (key_matches (fst kv)) names = None \<Longrightarrow>
   fold (store_member sname names set_field) kvs st = st"
  by (induction kvs arbitrary: st) (auto simp: store_member_def)

lemma find_search_origin: "find (key_matches ''origin'') serachFlightTicketData_fields = Some ''origin''"
  by (simp add: serachFlightTicketData_fields_def)

lemma find_purchase_number:
  "find (key_matches ''flight_number'') purchaseFlightTicketData_fields = Some ''flight_number''"
  by (simp add: purchaseFlightTicketData_fields_def)

lemma store_member_wrong_kind:
  "find (key_matches k) names = Some f \<Longrightarrow> (\<forall>s. v \<noteq> JString s) \<Longrightarrow> v \<noteq> JNull \<Longrightarrow>
   store_member sname names set_field (k, kind_of v) (None, d) =
     (Some (field_type_error (kind_name (kind_of v)) sname f), d)"
  by (cases v) (simp_all add: store_member_def)

lemma unmarshal_wrong_first:
  "find (key_matches k) names = Some f \<Longrightarrow> (\<forall>s. v \<noteq> JString s) \<Longrightarrow> v \<noteq> JNull \<Longrightarrow>
   unmarshal_into tname sname names set_field zero (json_text (JObject ((k, v) # kvs))) =
     Inl (field_type_error (kind_name (kind_of v)) sname f)"
proof -
  assume f: "find (key_matches k) names = Some f" and v: "\<forall>s. v \<noteq> JString s" "v \<noteq> JNull"
  obtain d' where "fold (store_member sname names set_field) (map (\<lambda>kv. (fst kv, kind_of (snd kv))) kvs)
                     (Some (field_type_error (kind_name (kind_of v)) sname f), zero) =
                   (Some (field_type_error (kind_name (kind_of v)) sname f), d')"
    using fold_store_error [of sname names set_field] by blast
  with f v show ?thesis
    by (simp add: unmarshal_into_json_text store_member_wrong_kind del: json_text.simps)
qed

text \<open>
  C25. Purchase through JSON, there and back: an agent that sends the JSON object
  \<open>{"flight_number": n}\<close> for the number \<open>n\<close> of a flight of the table receives, with a
  \<open>nil\<close> error, a JSON text that decodes to exactly that flight: its keys in byte order,
  each with the flight's value.
\<close>

theorem purchase_json_roundtrip:
  "info \<in> set flightInformation \<Longrightarrow>
   snd (PurchaseFlightTicket_Call go_json (json_object [(''flight_number'', go_index info ''flight_number'')])) = None \<and>
   json_decode_object (fst (PurchaseFlightTicket_Call go_json
                              (json_object [(''flight_number'', go_index info ''flight_number'')])))
     = Some (map_entries info) \<and>
   (\<forall>k. go_index (map_entries info) k = go_index info k)"
  by (simp add: purchase_json_found marshal_map_def json_decode_json_object go_index_map_entries)

theorem purchase_json_roundtrip_witness:
  "json_decode_object (fst (PurchaseFlightTicket_Call go_json
      (json_object [(''flight_number'', ''CA1515'')]))) = Some (map_entries (flightInformation ! 3))"
proof -
  have "flightInformation ! 3 \<in> set flightInformation" by (simp add: flightInformation_def)
  from purchase_json_roundtrip [OF this] show ?thesis
    by (simp add: flightInformation_def go_index_def)
qed

text \<open>
  C26. Search through JSON, there and back: a request whose origin is Beijing, whatever
  other members it carries (destination, date, departure window), as long as none of them
  renames the origin, is answered with a \<open>nil\<close> error and a JSON text that decodes to the
  whole flight table, flight by flight, in the table's order.
\<close>

theorem search_json_roundtrip:
  "\<forall>kv \<in> set kvs. \<not> key_matches (fst kv) ''origin'' \<Longrightarrow>
   snd (SearchFlightTicket_Call go_json (json_object ((''origin'', Beijing) # kvs))) = None \<and>
   json_decode_list (fst (SearchFlightTicket_Call go_json (json_object ((''origin'', Beijing) # kvs))))
     = Some (map map_entries flightInformation)"
  by (simp add: search_json_Beijing json_decode_marshal_list)

theorem search_json_roundtrip_witness:
  "json_decode_list (fst (SearchFlightTicket_Call go_json
      (json_object [(''origin'', Beijing), (''destination'', ''Paris'')]))) =
   Some (map map_entries flightInformation)"
proof -
  have "\<forall>kv \<in> set [(''destination'', ''Paris'')]. \<not> key_matches (fst kv) ''origin''"
    by (auto dest: key_matches_length)
  from search_json_roundtrip [OF this] show ?thesis by simp
qed

text \<open>
  C31. A member of the wrong kind for a field is refused with Go's type error: when the
  origin of a search, or the flight number of a purchase, is a number, a boolean, an array or
  an object, whatever members follow, the tool answers \<open>"Error: "\<close> and the text of
  \<open>UnmarshalTypeError\<close> naming the struct, the field and the kind of the value, and returns
  that error.
\<close>

theorem tools_field_type_error:
  "(\<forall>s. v \<noteq> JString s) \<Longrightarrow> v \<noteq> JNull \<Longrightarrow>
   SearchFlightTicket_Call go_json (json_text (JObject ((''origin'', v) # kvs))) =
     (''Error: json: cannot unmarshal '' @ kind_name (kind_of v) @
        '' into Go struct field serachFlightTicketData.origin of type string'',
      Some (''json: cannot unmarshal '' @ kind_name (kind_of v) @
        '' into Go struct field serachFlightTicketData.origin of type string'')) \<and>
   PurchaseFlightTicket_Call go_json (json_text (JObject ((''flight_number'', v) # kvs))) =
     (''Error: json: cannot unmarshal '' @ kind_name (kind_of v) @
        '' into Go struct field purchaseFlightTicketData.flight_number of type string'',
      Some (''json: cannot unmarshal '' @ kind_name (kind_of v) @
        '' into Go struct field purchaseFlightTicketData.flight_number of type string''))"
  by (simp add: SearchFlightTicket_Call_def PurchaseFlightTicket_Call_def go_json_def field_type_error_def
                unmarshal_wrong_first [OF find_search_origin] unmarshal_wrong_first [OF find_purchase_number]
           del: json_text.simps)

theorem tools_field_type_error_witness:
  "SearchFlightTicket_Call go_json
     (json_text (JObject [(''origin'', JNumber 2), (''destination'', JString ''Shanghai'')])) =
     (''Error: json: cannot unmarshal number into Go struct field serachFlightTicketData.origin of type string'',
      Some ''json: cannot unmarshal number into Go struct field serachFlightTicketData.origin of type string'') \<and>
   PurchaseFlightTicket_Call go_json
     (json_text (JObject [(''flight_number'', JNumber 2), (''destination'', JString ''Shanghai'')])) =
     (''Error: json: cannot unmarshal number into Go struct field purchaseFlightTicketData.flight_number of type string'',
      Some ''json: cannot unmarshal number into Go struct field purchaseFlightTicketData.flight_number of type string'')"
  using tools_field_type_error [of "JNumber 2" "[(''destination'', JString ''Shanghai'')]"]
  by (simp del: json_text.simps)

text \<open>
  C32. Members the request structs do not have are skipped whatever their value: a search
  from Beijing that also carries members with other keys, holding numbers, booleans,
  \<open>null\<close>, arrays or nested objects, is answered with the whole flight table and a
  \<open>nil\<close> error, as the search from Beijing alone.
\<close>

theorem search_unknown_members_ignored:
  "\<forall>kv \<in> set kvs. find (key_matches (fst kv)) serachFlightTicketData_fields = None \<Longrightarrow>
   SearchFlightTicket_Call go_json (json_text (JObject ((''origin'', JString Beijing) # kvs))) =
     (marshal_list flightInformation, None)"
proof -
  assume unknown: "\<forall>kv \<in> set kvs. find (key_matches (fst kv)) serachFlightTicketData_fields = None"
  then have "\<forall>kv \<in> set (map (\<lambda>kv. (fst kv, kind_of (snd kv))) kvs).
               find (key_matches (fst kv)) serachFlightTicketData_fields = None" by simp
  note skip = fold_store_unknown [OF this]
  show ?thesis
    by (simp add: SearchFlightTicket_Call_def searchFlightTicket_def go_json_def unmarshal_into_json_text
                  store_member_def find_search_origin skip set_search_field_def
             del: json_text.simps)
qed

theorem search_unknown_members_ignored_witness:
  "SearchFlightTicket_Call go_json
     (json_text (JObject [(''origin'', JString Beijing), (''passengers'', JNumber 2),
                          (''prefs'', JObject [(''seat'', JArray [JString ''window'', JBool True]),
                                              (''meal'', JNull)])])) =
     (marshal_list flightInformation, None)"
proof -
  have "\<forall>kv \<in> set [(''passengers'', JNumber 2),
                    (''prefs'', JObject [(''seat'', JArray [JString ''window'', JBool True]), (''meal'', JNull)])].
          find (key_matches (fst kv)) serachFlightTicketData_fields = None"
    by (auto simp: serachFlightTicketData_fields_def find_None_iff dest: key_matches_length)
  from search_unknown_members_ignored [OF this] show ?thesis by (simp del: json_text.simps)
qed

text \<open>
  C33. A request that is valid JSON but neither an object nor \<open>null\<close> (a string, a number,
  a boolean or an array) is refused by both tools with the type error for the request struct's
  Go type, as the tool's text after \<open>"Error: "\<close> and as its error.
\<close>

theorem tools_refuse_non_objects:
  "v \<noteq> JNull \<Longrightarrow> (\<forall>kvs. v \<noteq> JObject kvs) \<Longrightarrow>
   SearchFlightTicket_Call go_json (json_text v) =
     (''Error: json: cannot unmarshal '' @ kind_name (kind_of v) @
        '' into Go value of type bookingflight.serachFlightTicketData'',
      Some (''json: cannot unmarshal '' @ kind_name (kind_of v) @
        '' into Go value of type bookingflight.serachFlightTicketData'')) \<and>
   PurchaseFlightTicket_Call go_json (json_text v) =
     (''Error: json: cannot unmarshal '' @ kind_name (kind_of v) @
        '' into Go value of type bookingflight.purchaseFlightTicketData'',
      Some (''json: cannot unmarshal '' @ kind_name (kind_of v) @
        '' into Go value of type bookingflight.purchaseFlightTicketData''))"
  by (cases v)
     (simp_all add: SearchFlightTicket_Call_def PurchaseFlightTicket_Call_def go_json_def
                    unmarshal_into_json_text value_type_error_def del: json_text.simps)

theorem tools_refuse_non_objects_witness:
  "SearchFlightTicket_Call go_json (json_text (JArray [JString ''MU5100''])) =
     (''Error: json: cannot unmarshal array into Go value of type bookingflight.serachFlightTicketData'',
      Some ''json: cannot unmarshal array into Go value of type bookingflight.serachFlightTicketData'') \<and>
   PurchaseFlightTicket_Call go_json (json_text (JArray [JString ''MU5100''])) =
     (''Error: json: cannot unmarshal array into Go value of type bookingflight.purchaseFlightTicketData'',
      Some ''json: cannot unmarshal array into Go value of type bookingflight.purchaseFlightTicketData'')"
  using tools_refuse_non_objects [of "JArray [JString ''MU5100'']"] by (simp del: json_text.simps)

end
