(* ===== verification/AgentTools.thy ===== *)
theory AgentTools
  imports GoJson
begin

text \<open>
  The tool values of \<open>booking_tools.go\<close>: the structs \<open>SearchFlightTicket\<close>,
  \<open>PurchaseFlightTicket\<close> and \<open>FinishPlaceholder\<close>, each embedding a \<open>tools.BaseTool\<close>,
  their constructors \<open>NewSearchFlightTicket\<close>, \<open>NewPurchaseFlightTicket\<close> and
  \<open>NewFinishPlaceholder\<close>, and the agent's call of a tool through its \<open>Call\<close> method.
  \<open>tools.NewBaseTool\<close> and \<open>tools.GetStructKeys\<close> belong to the package
  \<open>llm/book-flight/go-server/tools\<close>, outside the sources: they are the fields of the
  interface record \<open>tools_lib\<close>, with the base tool and the key list as type parameters, so
  every lemma holds for every implementation of that package. The Go values passed to
  \<open>GetStructKeys\<close> (an empty request struct of each kind, or \<open>nil\<close>) are a datatype.
\<close>

subsection \<open>The tools package, as an interface\<close>

datatype struct_value = SearchDataZero | PurchaseDataZero | NilValue

record ('b, 'k) tools_lib =
  NewBaseTool :: "gostring \<Rightarrow> gostring \<Rightarrow> 'k \<Rightarrow> gostring \<Rightarrow> gostring \<Rightarrow> gostring \<Rightarrow> 'b"
  GetStructKeys :: "struct_value \<Rightarrow> 'k"

subsection \<open>The tool structs and their constructors\<close>

datatype 'b SearchFlightTicket = SearchFlightTicket (search_BaseTool: 'b)
datatype 'b PurchaseFlightTicket = PurchaseFlightTicket (purchase_BaseTool: 'b)
datatype 'b FinishPlaceholder = FinishPlaceholder (finish_BaseTool: 'b)

definition NewSearchFlightTicket ::
  "('b, 'k) tools_lib \<Rightarrow> gostring \<Rightarrow> gostring \<Rightarrow> 'b SearchFlightTicket" where
  "NewSearchFlightTicket lib name description =
     SearchFlightTicket
       (NewBaseTool lib name description (GetStructKeys lib SearchDataZero) [] [] [])"

definition NewPurchaseFlightTicket ::
  "('b, 'k) tools_lib \<Rightarrow> gostring \<Rightarrow> gostring \<Rightarrow> 'b PurchaseFlightTicket" where
  "NewPurchaseFlightTicket lib name description =
     PurchaseFlightTicket
       (NewBaseTool lib name description (GetStructKeys lib PurchaseDataZero) [] [] [])"

definition NewFinishPlaceholder ::
  "('b, 'k) tools_lib \<Rightarrow> gostring \<Rightarrow> gostring \<Rightarrow> 'b FinishPlaceholder" where
  "NewFinishPlaceholder lib name description =
     FinishPlaceholder
       (NewBaseTool lib name description (GetStructKeys lib NilValue) [] [] [])"

subsection \<open>Calling a tool\<close>

text \<open>
  A tool as the agent holds it, and its \<open>Call(ctx, input)\<close>: Go dispatches on the dynamic
  type to the method of that struct. The \<open>Call\<close> methods have value receivers and never read
  the embedded base tool.
\<close>

datatype 'b agent_tool =
    ToolSearch "'b SearchFlightTicket"
  | ToolPurchase "'b PurchaseFlightTicket"
  | ToolFinish "'b FinishPlaceholder"

fun tool_Call :: "json_codec \<Rightarrow> 'b agent_tool \<Rightarrow> gostring \<Rightarrow> tool_result" where
  "tool_Call c (ToolSearch stt) input = SearchFlightTicket_Call c input"
| "tool_Call c (ToolPurchase ptt) input = PurchaseFlightTicket_Call c input"
| "tool_Call c (ToolFinish ptt) input = FinishPlaceholder_Call input"

subsection \<open>Properties of the tools\<close>

text \<open>
  C28. Search, then purchase, through the tools as \<open>New*\<close> builds them (whatever the
  tools package, names and descriptions): the answer of the search tool to a JSON request from
  Beijing decodes to a non-empty list of offers, and for every offer, the purchase tool asked
  for its flight number answers with a \<open>nil\<close> error and a JSON text that decodes to exactly
  that offer.
\<close>

theorem agent_search_then_purchase:
  "\<exists>offers.
     json_decode_list (fst (tool_Call go_json (ToolSearch (NewSearchFlightTicket lib n1 d1))
                              (json_object [(''origin'', Beijing)]))) = Some offers \<and>
     offers \<noteq> [] \<and>
     (\<forall>obj \<in> set offers.
        snd (tool_Call go_json (ToolPurchase (NewPurchaseFlightTicket lib n2 d2))
               (json_object [(''flight_number'', go_index obj ''flight_number'')])) = None \<and>
        json_decode_object (fst (tool_Call go_json (ToolPurchase (NewPurchaseFlightTicket lib n2 d2))
               (json_object [(''flight_number'', go_index obj ''flight_number'')]))) = Some obj)"
proof (intro exI conjI)
  show "json_decode_list (fst (tool_Call go_json (ToolSearch (NewSearchFlightTicket lib n1 d1))
          (json_object [(''origin'', Beijing)]))) = Some (map map_entries flightInformation)"
    using search_json_Beijing [of "[]"] by (simp add: NewSearchFlightTicket_def json_decode_marshal_list)
  show "map map_entries flightInformation \<noteq> []" by (simp add: flightInformation_def)
  show "\<forall>obj \<in> set (map map_entries flightInformation).
          snd (tool_Call go_json (ToolPurchase (NewPurchaseFlightTicket lib n2 d2))
               (json_object [(''flight_number'', go_index obj ''flight_number'')])) = None \<and>
          json_decode_object (fst (tool_Call go_json (ToolPurchase (NewPurchaseFlightTicket lib n2 d2))
               (json_object [(''flight_number'', go_index obj ''flight_number'')]))) = Some obj"
    by (auto simp: NewPurchaseFlightTicket_def go_index_map_entries purchase_json_found marshal_map_def
                   json_decode_json_object)
qed

theorem agent_search_then_purchase_witness:
  "\<exists>offers.
     json_decode_list (fst (tool_Call go_json
        (ToolSearch (NewSearchFlightTicket \<lparr>NewBaseTool = (\<lambda>n d k a b c. n), GetStructKeys = (\<lambda>v. ())\<rparr>
                       ''search'' ''search flights''))
        (json_object [(''origin'', Beijing)]))) = Some offers \<and>
     offers \<noteq> [] \<and>
     (\<forall>obj \<in> set offers.
        snd (tool_Call go_json
               (ToolPurchase (NewPurchaseFlightTicket \<lparr>NewBaseTool = (\<lambda>n d k a b c. n), GetStructKeys = (\<lambda>v. ())\<rparr>
                                ''purchase'' ''buy a ticket''))
               (json_object [(''flight_number'', go_index obj ''flight_number'')])) = None \<and>
        json_decode_object (fst (tool_Call go_json
               (ToolPurchase (NewPurchaseFlightTicket \<lparr>NewBaseTool = (\<lambda>n d k a b c. n), GetStructKeys = (\<lambda>v. ())\<rparr>
                                ''purchase'' ''buy a ticket''))
               (json_object [(''flight_number'', go_index obj ''flight_number'')]))) = Some obj)"
  by (rule agent_search_then_purchase)

text \<open>
  C29. The \<open>validate:"required"\<close> tags of the request structs are not enforced: a JSON
  request without an origin member (whatever else it carries), or without a flight-number
  member, or \<open>null\<close>, is decoded without error into a request whose required field is empty,
  and the tools answer it as an ordinary miss with a \<open>nil\<close> error (the search's not-found
  text, the purchase's not-found message for the empty number) instead of reporting a missing
  field.
\<close>

theorem required_fields_not_enforced:
  "\<forall>kv \<in> set kvs. \<not> key_matches (fst kv) ''origin'' \<Longrightarrow>
   \<forall>kv \<in> set kvs'. \<not> key_matches (fst kv) ''flight_number'' \<Longrightarrow>
   tool_Call go_json (ToolSearch t1) (json_object kvs) = (NothingFound, None) \<and>
   tool_Call go_json (ToolSearch t1) ''null'' = (NothingFound, None) \<and>
   tool_Call go_json (ToolPurchase t2) (json_object kvs') = (''The flight was not found: '', None) \<and>
   tool_Call go_json (ToolPurchase t2) ''null'' = (''The flight was not found: '', None)"
proof -
  assume s: "\<forall>kv \<in> set kvs. \<not> key_matches (fst kv) ''origin''"
    and p: "\<forall>kv \<in> set kvs'. \<not> key_matches (fst kv) ''flight_number''"
  let ?zs = "\<lparr>Origin = [], Destination = [], Date = [], DepartureTimeStart = [], DepartureTimeEnd = []\<rparr>"
  let ?zp = "\<lparr>FlightNumber = []\<rparr>"
  have us: "unmarshal_search go_json (json_object kvs) = Inr (fold set_search_field kvs ?zs)"
    and up: "unmarshal_purchase go_json (json_object kvs') = Inr (fold set_purchase_field kvs' ?zp)"
    by (simp_all add: go_json_def unmarshal_into_json_object [OF set_search_field_other]
                      unmarshal_into_json_object [OF set_purchase_field_other])
  have "''null'' = json_text JNull" by simp
  then have nulls: "unmarshal_search go_json ''null'' = Inr ?zs" "unmarshal_purchase go_json ''null'' = Inr ?zp"
    by (simp_all only:) (simp_all add: go_json_def unmarshal_into_json_text del: json_text.simps)
  show ?thesis
    using us up nulls fold_set_search_origin [OF s, of ?zs] fold_set_purchase_number [OF p, of ?zp]
    by (simp add: SearchFlightTicket_Call_def PurchaseFlightTicket_Call_def searchFlightTicket_def
                  purchaseFlightTicket_def Beijing_def purchase_loop_table_none flight_numbers_eval)
qed

theorem required_fields_not_enforced_witness:
  "tool_Call go_json (ToolSearch (SearchFlightTicket ())) (json_object [(''destination'', Shanghai), (''date'', ''2024-06-01'')]) =
     (NothingFound, None) \<and>
   tool_Call go_json (ToolSearch (SearchFlightTicket ())) ''null'' = (NothingFound, None) \<and>
   tool_Call go_json (ToolPurchase (PurchaseFlightTicket ())) (json_object [(''flight'', ''MU5100'')]) =
     (''The flight was not found: '', None) \<and>
   tool_Call go_json (ToolPurchase (PurchaseFlightTicket ())) ''null'' = (''The flight was not found: '', None)"
  by (rule required_fields_not_enforced) (auto dest: key_matches_length)

end
