(* ===== verification/Spec2Isabelle.thy ===== *)
theory Spec2Isabelle
  imports Serve AgentTools
begin

text \<open>
  \<^bold>\<open>A verification library for the streaming greet server and the booking-flight tools
  of dubbo-go-samples.\<close>

  \<^bold>\<open>The program.\<close> Two Go files. \<open>src/rpc/triple/stream/go-server/cmd/main.go\<close>
  implements \<open>greet.GreetService\<close> twice, as \<open>GreetTripleServer\<close> and as
  \<open>GreetTripleServerGroup1Version1\<close> (whose greetings carry the prefix
  \<open>GroupVersionIdentifier = "g1v1"\<close>), each with a unary method \<open>Greet\<close>, a
  bidirectional \<open>GreetStream\<close>, a client-streaming \<open>GreetClientStream\<close> and a
  server-streaming \<open>GreetServerStream\<close>; \<open>main\<close> creates a triple server, registers
  \<open>GreetTripleServer\<close> under the default identity and serves.
  \<open>src/llm/book-flight/go-server/tools/bookingflight/booking_tools.go\<close> holds three agent
  tools, \<open>SearchFlightTicket\<close>, \<open>PurchaseFlightTicket\<close> and \<open>FinishPlaceholder\<close>, over
  the static table \<open>flightInformation\<close>. The handlers talk to the dubbo-go runtime through
  stream objects; the runtime's registry resolves an incoming call to a handler and its
  dispatch loop drives the handler according to its call shape. Those runtime parts are not
  in the sources: they are modelled from the spec, as interfaces the handlers rely on.

  \<^bold>\<open>Theories.\<close>
  \<^item> \<open>Prelude\<close>: Go strings as byte lists, Go's \<open>strings.Join\<close>, the rule collection
    \<open>stream_simps\<close>, list lemmas.
  \<^item> \<open>Stream\<close>: one call's stream as a record (pending client messages, how the inbound
    direction closes, delivered messages, how many sends the peer still accepts, the error of
    a refused send, and a log of events); \<open>Recv\<close>, \<open>Send\<close>, the client-streaming view
    \<open>ClientRecv\<close>/\<open>Msg\<close>/\<open>Err\<close>, and \<open>IsEnded\<close> for \<open>triple.IsEnded\<close>. Lemmas:
    evaluation rules, frame rules, first-in-first-out in each direction, the invariant
    \<open>stream_wf\<close> (delivered = sent in the log) kept by every operation, and that the
    handlers' \<open>Err\<close> guard does not depend on whether \<open>Err()\<close> hides end-of-stream;
    \<open>recv_tagged\<close>, the spec's tagged receive result (value, end-of-stream, error).
  \<^item> \<open>Greet\<close>: the proto messages as datatypes and the eight handler methods of
    \<open>main.go\<close>, one definition each, their loops as \<open>function\<close>s with termination measures
    (messages left to receive; \<open>5 - i\<close> for the server-stream counter). The duplicated
    methods are proved equal to three reference loops (\<open>bidi_echo\<close>, \<open>collect\<close>,
    \<open>send_repeat\<close>) parameterised by the response, which keep the stream invariant
    \<open>stream_wf\<close>; closed forms of the reference loops on
    every path give claims C1 to C7 (behaviour, error paths, stream discipline) and C22 to C24
    (bounds on sends and log length, and that \<open>GreetStream\<close> returns \<open>nil\<close> only after
    draining its input); C27: both \<open>GreetStream\<close>s equal the echo loop written against the
    tagged receive, so the source's \<open>IsEnded\<close> test is the spec's tagged result.
  \<^item> \<open>Registry\<close> (spec): identities (name, group, version), descriptors, insert-if-absent
    \<open>register\<close> and exact-match \<open>resolve\<close>, well-formedness, frame lemmas, and the closed
    form of a sequence of registrations (it succeeds exactly when the identities are distinct
    and free), from which its result does not depend on the order (a multiset argument).
  \<^item> \<open>Dispatch\<close> (spec): handlers tagged with their call shape, the call's transport,
    \<open>dispatch\<close> per shape (reading the single input of unary and server-streaming calls,
    sending the single output of unary and client-streaming ones), the lifecycle
    \<open>Init \<rightarrow> Active \<rightarrow> Done | Aborted\<close> as the inductive relation \<open>call_step\<close> with
    cancellation, and \<open>dispatch_phases\<close>, the phases one dispatch passes through. Lemmas: every
    run has at most two steps (the measure \<open>phase_rank\<close>) and at most one terminal phase,
    every run can be finished by cancellation, and every dispatch \<open>follows_lifecycle\<close>.
  \<^item> \<open>CallSpec\<close>: stream-free contracts of the four call shapes over the transport alone,
    and the greet service of the spec's design notes as one service parameterised by the
    prefix of its identity (\<open>spec_Greet\<close> and siblings); the dispatched reference loops meet
    the contracts.
  \<^item> \<open>GreetServer\<close>: the generated interface \<open>GreetServiceHandler\<close> as a record,
    \<open>GreetTripleServer\<close> and \<open>GreetTripleServerGroup1Version1\<close> as its values, the generated
    \<open>RegisterGreetServiceHandler\<close>, \<open>NewServer\<close> and \<open>main\<close>; claims C12 to C19 about the
    server \<open>main\<close> builds (what it resolves, the end-to-end behaviour of each call shape,
    cancellation, duplicate registration, group/version routing), and C20/C21: both
    implementations refine the parameterised service, with the empty prefix and with
    \<open>g1v1\<close>.
  \<^item> \<open>BookingTools\<close>: the tools' \<open>Call\<close> methods, \<open>searchFlightTicket\<close>,
    \<open>purchaseFlightTicket\<close> with its range loop, and the flight table with its UTF-8 text;
    JSON decoding and encoding are the fields of the interface record \<open>json_codec\<close>, so
    claims C8 to C11 hold for every codec.
  \<^item> \<open>JsonLex\<close>, \<open>JsonObject\<close>, \<open>JsonScan\<close>, \<open>JsonValue\<close>, \<open>GoJson\<close>: the part of
    \<open>encoding/json\<close> the tools use, as the codec \<open>go_json\<close>: Go's string escaping and
    unescaping (proved inverse), numbers and literals; the validating scanner of
    \<open>checkValid\<close> (\<open>scan_value\<close>/\<open>scan_after\<close>, mutual recursion over a stack of open
    containers, terminating because every step consumes input); the members of an object with
    the kinds of their values; a writer \<open>json_text\<close> for values of every kind, which the
    scanner accepts and stops right after, and whose objects the decoder reads back member by
    member; objects and arrays of string members (reader proved inverse to writer);
    \<open>json.Marshal\<close> of maps with sorted keys; \<open>json.Unmarshal\<close> into the request structs
    (\<open>unmarshal_into\<close>: null, type errors with Go's texts, unknown members skipped, the
    first error kept). Claims C25/C26: purchase and search requests sent as JSON come back as
    JSON that decodes to the flight asked for and to the whole table; C31: a field of the wrong
    kind is refused with \<open>UnmarshalTypeError\<close>; C32: unknown members of any kind are
    ignored; C33: valid JSON that is not an object is refused with the type error of the
    request struct.
  \<^item> \<open>AgentTools\<close>: the tool structs \<open>SearchFlightTicket\<close>, \<open>PurchaseFlightTicket\<close>,
    \<open>FinishPlaceholder\<close> of \<open>booking_tools.go\<close>, their \<open>New*\<close> constructors over the tools
    package as the interface record \<open>tools_lib\<close> (\<open>NewBaseTool\<close>, \<open>GetStructKeys\<close>), and
    \<open>tool_Call\<close>, the call of a tool through its \<open>Call\<close> method. Claims: C28, a search then
    a purchase through the constructed tools buys exactly the offered flight; C29, the
    \<open>validate:"required"\<close> tags are not enforced.
  \<^item> \<open>Serve\<close> (spec): what \<open>srv.Serve()\<close> does with each inbound call. A call on the wire
    (\<open>inbound_call\<close>: identity, method, the payloads of the client's requests, how the client
    ends its direction and how many responses it takes) is resolved against the registry,
    its payloads are wrapped in the method's request type and the resolved handler is
    dispatched (\<open>serve_call\<close>, \<open>run_wire\<close>); the result is a report and the call's
    operations with their payloads. Concurrent calls share only the read-only registry, so
    the network sees an interleaving of their logs (\<open>interleaves\<close>), and \<open>call_view\<close> is
    one client's view of it (each call's view is its own log, whatever the interleaving).
    Claim C30: a call \<open>main\<close>'s server cannot resolve is rejected and touches no stream.
  \<^item> This theory: this overview.

  \<^bold>\<open>Bounds and termination.\<close> No loop needs fuel: every receive loop consumes a pending
  message per iteration, every send loop counts to five, and every JSON reader, the scanner's
  two mutually recursive states included, consumes input per step, so each is a total
  function with a measure (the length of the input left). Go \<open>int\<close> counters never approach
  overflow here (they count to five), so no machine words are needed; lengths are \<open>nat\<close>.

  \<^bold>\<open>Not modelled.\<close> The error result of \<open>server.NewServer\<close> and its panic (the
  options are constants of the source); of \<open>srv.Serve()\<close>, the listener, the wire encoding of messages and
  the failure of \<open>Serve\<close> itself (only per-call dispatch and the interleaving of calls are
  modelled, and the transport by its contract, the stream record); logging, which has no
  effect on results; the call's \<open>context.Context\<close>,
  which no handler reads (cancellation reaches the handlers as the errors of \<open>Recv\<close> and
  \<open>Send\<close>); what \<open>tools.NewBaseTool\<close> and \<open>GetStructKeys\<close> do (they live outside the
  sources and the spec treats tools as opaque, so the constructors take them as parameters);
  of \<open>encoding/json\<close>, non-ASCII case folding of keys, invalid UTF-8, the nesting limit of
  the decoder, and the texts of syntax errors (one fixed text stands for all of them).
\<close>

end
